theory Spec2Isabelle
  imports Complex_Main "HOL-Library.Word"
begin

unbundle bit_operations_syntax

section \<open>Key codes\<close>

text \<open>
  The key codes come from the kernel header \<^verbatim>\<open>linux/input.h\<close>, which the sources
  include; the values below are the ones of that header. Key codes are C \<^verbatim>\<open>int\<close>s;
  the only arithmetic done on them happens inside the four rows, far from overflow,
  so they are modelled as \<^typ>\<open>int\<close>.
\<close>

named_theorems keycodes \<open>values of the key codes\<close>

definition KEY_1 :: int where [keycodes]: "KEY_1 = 2"
definition KEY_0 :: int where [keycodes]: "KEY_0 = 11"
definition KEY_MINUS :: int where [keycodes]: "KEY_MINUS = 12"
definition KEY_BACKSPACE :: int where [keycodes]: "KEY_BACKSPACE = 14"
definition KEY_TAB :: int where [keycodes]: "KEY_TAB = 15"
definition KEY_Q :: int where [keycodes]: "KEY_Q = 16"
definition KEY_P :: int where [keycodes]: "KEY_P = 25"
definition KEY_ENTER :: int where [keycodes]: "KEY_ENTER = 28"
definition KEY_A :: int where [keycodes]: "KEY_A = 30"
definition KEY_F :: int where [keycodes]: "KEY_F = 33"
definition KEY_G :: int where [keycodes]: "KEY_G = 34"
definition KEY_H :: int where [keycodes]: "KEY_H = 35"
definition KEY_J :: int where [keycodes]: "KEY_J = 36"
definition KEY_SEMICOLON :: int where [keycodes]: "KEY_SEMICOLON = 39"
definition KEY_Z :: int where [keycodes]: "KEY_Z = 44"
definition KEY_V :: int where [keycodes]: "KEY_V = 47"
definition KEY_M :: int where [keycodes]: "KEY_M = 50"
definition KEY_SLASH :: int where [keycodes]: "KEY_SLASH = 53"
definition KEY_SPACE :: int where [keycodes]: "KEY_SPACE = 57"
definition KEY_CAPSLOCK :: int where [keycodes]: "KEY_CAPSLOCK = 58"
definition KEY_F1 :: int where [keycodes]: "KEY_F1 = 59"

text \<open>\<^verbatim>\<open>KEY_CNT\<close> is 0x300 and an \<^verbatim>\<open>unsigned long\<close> has 64 bits, so
  \<^verbatim>\<open>NLONGS(KEY_CNT)\<close> is 12.\<close>

definition LONG_BITS :: nat where "LONG_BITS = 64"
definition KEY_CNT :: nat where "KEY_CNT = 768"
definition NLONGS :: "nat \<Rightarrow> nat" where "NLONGS x = (x + LONG_BITS - 1) div LONG_BITS"

section \<open>The halfkey filter (src/evdev-halfkey.c)\<close>

datatype evdev_halfkey_state =
  HALFKEY_SPACE_IDLE | HALFKEY_SPACE_PRESSED | HALFKEY_SPACE_MODIFIED

datatype evdev_halfkey_event =
  HALFKEY_SPACE_DOWN | HALFKEY_SPACE_UP | HALFKEY_MIRROR_DOWN | HALFKEY_MIRROR_UP
  | HALFKEY_OTHERKEY

datatype evdev_halfkey_action =
  HALFKEY_PASSTHROUGH | HALFKEY_DISCARD | HALFKEY_INJECTMIRROR

datatype libinput_key_state = LIBINPUT_KEY_STATE_RELEASED | LIBINPUT_KEY_STATE_PRESSED

datatype libinput_config_status =
  LIBINPUT_CONFIG_STATUS_SUCCESS | LIBINPUT_CONFIG_STATUS_UNSUPPORTED
  | LIBINPUT_CONFIG_STATUS_INVALID

text \<open>
  The argument of \<^verbatim>\<open>evdev_halfkey_set\<close> is a C enum, that is an integer the caller
  chooses freely (the test suite passes 3). The test suite compares the disabled state
  with \<^verbatim>\<open>false\<close>, so \<^verbatim>\<open>LIBINPUT_CONFIG_HALFKEY_DISABLED\<close> is 0 and
  \<^verbatim>\<open>LIBINPUT_CONFIG_HALFKEY_ENABLED\<close> is 1.
\<close>

definition LIBINPUT_CONFIG_HALFKEY_DISABLED :: int where
  "LIBINPUT_CONFIG_HALFKEY_DISABLED = 0"
definition LIBINPUT_CONFIG_HALFKEY_ENABLED :: int where
  "LIBINPUT_CONFIG_HALFKEY_ENABLED = 1"

text \<open>
  The \<^verbatim>\<open>halfkey\<close> member of \<^verbatim>\<open>struct evdev_device\<close>. The field \<open>notified\<close> is not a
  field of the C struct: it records, in order, the calls of
  \<^verbatim>\<open>evdev_keyboard_notify_key(device, time, code, state)\<close> the filter makes, which is
  how the filter injects key events into the outgoing queue. Log messages are left out.
\<close>

text \<open>The field \<open>keymask\<close> is the array \<^verbatim>\<open>unsigned long keymask[NLONGS(KEY_CNT)]\<close>.\<close>

record halfkey =
  state :: evdev_halfkey_state
  keymask :: "64 word list"
  enabled :: bool
  want_enabled :: bool
  enabled_default :: bool
  notified :: "(64 word \<times> int \<times> bool) list"

definition evdev_keyboard_notify_key :: "halfkey \<Rightarrow> 64 word \<Rightarrow> int \<Rightarrow> bool \<Rightarrow> halfkey" where
  "evdev_keyboard_notify_key device time code pressed =
     device\<lparr>notified := notified device @ [(time, code, pressed)]\<rparr>"

text \<open>
  Modelled from the spec: \<^verbatim>\<open>long_set_bit_state\<close> and \<^verbatim>\<open>long_bit_is_set\<close> of
  libinput-util.h, which is not among the sources. The spec calls the key mask a
  bitmap that tracks which mirrored keys are down: bit \<open>code mod 64\<close> of word
  \<open>code div 64\<close> is set or cleared. A code outside the array is undefined behaviour
  in C; here the update leaves the array as it is and the read gives \<open>False\<close>. The
  filter only reaches these with a mirrored key code, which is below 64.
\<close>

definition long_set_bit_state :: "64 word list \<Rightarrow> int \<Rightarrow> bool \<Rightarrow> 64 word list" where
  "long_set_bit_state array b st =
     (let i = nat (b div int LONG_BITS);
          m = (push_bit (nat (b mod int LONG_BITS)) 1 :: 64 word)
      in if b < 0 \<or> i \<ge> length array then array
         else if st then array[i := (array ! i) OR m]
         else array[i := (array ! i) AND NOT m])"

definition long_bit_is_set :: "64 word list \<Rightarrow> int \<Rightarrow> bool" where
  "long_bit_is_set array b =
     (let i = nat (b div int LONG_BITS)
      in if b < 0 \<or> i \<ge> length array then False
         else bit (array ! i) (nat (b mod int LONG_BITS)))"

definition halfkey_set_key_down :: "halfkey \<Rightarrow> int \<Rightarrow> bool \<Rightarrow> halfkey" where
  "halfkey_set_key_down device code pressed =
     device\<lparr>keymask := long_set_bit_state (keymask device) code pressed\<rparr>"

definition halfkey_is_key_down :: "halfkey \<Rightarrow> int \<Rightarrow> bool" where
  "halfkey_is_key_down device code = long_bit_is_set (keymask device) code"

definition halfkey_mirror_key :: "int \<Rightarrow> int" where
  "halfkey_mirror_key keycode =
     (let t = 0;
          t = (if keycode \<ge> KEY_1 \<and> keycode \<le> KEY_0 then KEY_1 else t);
          t = (if keycode \<ge> KEY_Q \<and> keycode \<le> KEY_P then KEY_Q else t);
          t = (if keycode \<ge> KEY_A \<and> keycode \<le> KEY_SEMICOLON then KEY_A else t);
          t = (if keycode \<ge> KEY_Z \<and> keycode \<le> KEY_SLASH then KEY_Z else t);
          keycode =
            (if t \<noteq> 0 then
               (let temp = keycode;
                    temp = temp - (t + 4);
                    temp = (if temp < 1 then temp - 1 else temp);
                    temp = - temp;
                    temp = (if temp < 1 then temp + 1 else temp);
                    temp = temp + (t + 4)
                in temp)
             else keycode)
      in if keycode = KEY_BACKSPACE then KEY_TAB
         else if keycode = KEY_TAB then KEY_BACKSPACE
         else if keycode = KEY_ENTER then KEY_CAPSLOCK
         else if keycode = KEY_CAPSLOCK then KEY_ENTER
         else keycode)"

fun evdev_halfkey_idle_handle_event ::
  "halfkey \<Rightarrow> 64 word \<Rightarrow> evdev_halfkey_event \<Rightarrow> halfkey \<times> evdev_halfkey_action" where
  "evdev_halfkey_idle_handle_event device time HALFKEY_SPACE_DOWN =
     (device\<lparr>state := HALFKEY_SPACE_PRESSED\<rparr>, HALFKEY_DISCARD)"
| "evdev_halfkey_idle_handle_event device time HALFKEY_SPACE_UP =
     (device, HALFKEY_PASSTHROUGH)"
| "evdev_halfkey_idle_handle_event device time HALFKEY_MIRROR_DOWN =
     (device, HALFKEY_PASSTHROUGH)"
| "evdev_halfkey_idle_handle_event device time HALFKEY_MIRROR_UP =
     (device, HALFKEY_PASSTHROUGH)"
| "evdev_halfkey_idle_handle_event device time HALFKEY_OTHERKEY =
     (device, HALFKEY_PASSTHROUGH)"

fun evdev_halfkey_spacepressed_handle_event ::
  "halfkey \<Rightarrow> 64 word \<Rightarrow> evdev_halfkey_event \<Rightarrow> halfkey \<times> evdev_halfkey_action" where
  "evdev_halfkey_spacepressed_handle_event device time HALFKEY_SPACE_DOWN =
     (device, HALFKEY_DISCARD)"
| "evdev_halfkey_spacepressed_handle_event device time HALFKEY_SPACE_UP =
     (evdev_keyboard_notify_key (device\<lparr>state := HALFKEY_SPACE_IDLE\<rparr>) time KEY_SPACE True,
      HALFKEY_PASSTHROUGH)"
| "evdev_halfkey_spacepressed_handle_event device time HALFKEY_MIRROR_DOWN =
     (device\<lparr>state := HALFKEY_SPACE_MODIFIED\<rparr>, HALFKEY_INJECTMIRROR)"
| "evdev_halfkey_spacepressed_handle_event device time HALFKEY_MIRROR_UP =
     (device, HALFKEY_PASSTHROUGH)"
| "evdev_halfkey_spacepressed_handle_event device time HALFKEY_OTHERKEY =
     (device, HALFKEY_PASSTHROUGH)"

fun evdev_halfkey_modified_handle_event ::
  "halfkey \<Rightarrow> 64 word \<Rightarrow> evdev_halfkey_event \<Rightarrow> halfkey \<times> evdev_halfkey_action" where
  "evdev_halfkey_modified_handle_event device time HALFKEY_SPACE_DOWN =
     (device, HALFKEY_DISCARD)"
| "evdev_halfkey_modified_handle_event device time HALFKEY_SPACE_UP =
     (device\<lparr>state := HALFKEY_SPACE_IDLE\<rparr>, HALFKEY_DISCARD)"
| "evdev_halfkey_modified_handle_event device time HALFKEY_MIRROR_DOWN =
     (device, HALFKEY_INJECTMIRROR)"
| "evdev_halfkey_modified_handle_event device time HALFKEY_MIRROR_UP =
     (device, HALFKEY_INJECTMIRROR)"
| "evdev_halfkey_modified_handle_event device time HALFKEY_OTHERKEY =
     (device, HALFKEY_PASSTHROUGH)"

definition evdev_halfkey_handle_event ::
  "halfkey \<Rightarrow> 64 word \<Rightarrow> evdev_halfkey_event \<Rightarrow> halfkey \<times> evdev_halfkey_action" where
  "evdev_halfkey_handle_event device time event =
     (case state device of
        HALFKEY_SPACE_IDLE \<Rightarrow> evdev_halfkey_idle_handle_event device time event
      | HALFKEY_SPACE_PRESSED \<Rightarrow> evdev_halfkey_spacepressed_handle_event device time event
      | HALFKEY_SPACE_MODIFIED \<Rightarrow> evdev_halfkey_modified_handle_event device time event)"

definition evdev_halfkey_filter_key ::
  "halfkey \<Rightarrow> 64 word \<Rightarrow> int \<Rightarrow> libinput_key_state \<Rightarrow> halfkey \<times> evdev_halfkey_action" where
  "evdev_halfkey_filter_key device time keycode kstate =
     (let is_press = (kstate = LIBINPUT_KEY_STATE_PRESSED)
      in if \<not> enabled device then (device, HALFKEY_PASSTHROUGH)
         else
           (let mirrored_key = halfkey_mirror_key keycode;
                mirrored = (keycode \<noteq> mirrored_key);
                event =
                  (if keycode = KEY_SPACE then
                     (if is_press then HALFKEY_SPACE_DOWN else HALFKEY_SPACE_UP)
                   else if mirrored then
                     (if is_press then HALFKEY_MIRROR_DOWN else HALFKEY_MIRROR_UP)
                   else HALFKEY_OTHERKEY);
                (device, action) = evdev_halfkey_handle_event device time event
            in if action = HALFKEY_INJECTMIRROR then
                 (evdev_keyboard_notify_key
                    (halfkey_set_key_down device mirrored_key is_press)
                    time mirrored_key is_press,
                  action)
               else (device, action)))"

definition evdev_halfkey_apply_config :: "halfkey \<Rightarrow> halfkey" where
  "evdev_halfkey_apply_config device =
     (if want_enabled device = enabled device then device
      else if list_ex (\<lambda>w. w \<noteq> 0) (keymask device) then device
      else device\<lparr>enabled := want_enabled device\<rparr>)"

definition evdev_halfkey_set :: "halfkey \<Rightarrow> int \<Rightarrow> halfkey \<times> libinput_config_status" where
  "evdev_halfkey_set device enable =
     (if enable = LIBINPUT_CONFIG_HALFKEY_ENABLED then
        (evdev_halfkey_apply_config (device\<lparr>want_enabled := True\<rparr>),
         LIBINPUT_CONFIG_STATUS_SUCCESS)
      else if enable = LIBINPUT_CONFIG_HALFKEY_DISABLED then
        (evdev_halfkey_apply_config (device\<lparr>want_enabled := False\<rparr>),
         LIBINPUT_CONFIG_STATUS_SUCCESS)
      else (device, LIBINPUT_CONFIG_STATUS_INVALID))"

text \<open>
  \<^verbatim>\<open>evdev_init_halfkey\<close> assigns every field but the state; the device structure is
  allocated zeroed, and the first enumerator, \<^verbatim>\<open>HALFKEY_SPACE_IDLE\<close>, is 0.
\<close>

definition evdev_init_halfkey :: "bool \<Rightarrow> halfkey" where
  "evdev_init_halfkey enable =
     \<lparr>state = HALFKEY_SPACE_IDLE,
      keymask = replicate (NLONGS KEY_CNT) 0,
      enabled = enable,
      want_enabled = enable,
      enabled_default = enable,
      notified = []\<rparr>"

text \<open>
  A key-event sequence as the keyboard dispatcher feeds it to the filter, one key event
  after the other, each with its time stamp.
\<close>

fun halfkey_run :: "halfkey \<Rightarrow> (64 word \<times> int \<times> libinput_key_state) list \<Rightarrow> halfkey" where
  "halfkey_run device [] = device"
| "halfkey_run device ((time, keycode, kstate) # es) =
     halfkey_run (fst (evdev_halfkey_filter_key device time keycode kstate)) es"


section \<open>Event codes of the tablet dispatcher\<close>

text \<open>Event types and codes of \<^verbatim>\<open>linux/input.h\<close>, as unsigned numbers.\<close>

named_theorems evcodes \<open>values of the evdev event types and codes\<close>

definition EV_SYN :: nat where [evcodes]: "EV_SYN = 0"
definition EV_KEY :: nat where [evcodes]: "EV_KEY = 1"
definition EV_REL :: nat where [evcodes]: "EV_REL = 2"
definition EV_ABS :: nat where [evcodes]: "EV_ABS = 3"
definition EV_MSC :: nat where [evcodes]: "EV_MSC = 4"

definition ABS_X :: nat where [evcodes]: "ABS_X = 0"
definition ABS_Y :: nat where [evcodes]: "ABS_Y = 1"
definition ABS_Z :: nat where [evcodes]: "ABS_Z = 2"
definition ABS_WHEEL :: nat where [evcodes]: "ABS_WHEEL = 8"
definition ABS_PRESSURE :: nat where [evcodes]: "ABS_PRESSURE = 24"
definition ABS_DISTANCE :: nat where [evcodes]: "ABS_DISTANCE = 25"
definition ABS_TILT_X :: nat where [evcodes]: "ABS_TILT_X = 26"
definition ABS_TILT_Y :: nat where [evcodes]: "ABS_TILT_Y = 27"
definition ABS_MISC :: nat where [evcodes]: "ABS_MISC = 40"

definition REL_WHEEL :: nat where [evcodes]: "REL_WHEEL = 8"
definition MSC_SERIAL :: nat where [evcodes]: "MSC_SERIAL = 0"

definition BTN_LEFT :: nat where [evcodes]: "BTN_LEFT = 272"
definition BTN_RIGHT :: nat where [evcodes]: "BTN_RIGHT = 273"
definition BTN_MIDDLE :: nat where [evcodes]: "BTN_MIDDLE = 274"
definition BTN_SIDE :: nat where [evcodes]: "BTN_SIDE = 275"
definition BTN_EXTRA :: nat where [evcodes]: "BTN_EXTRA = 276"
definition BTN_FORWARD :: nat where [evcodes]: "BTN_FORWARD = 277"
definition BTN_BACK :: nat where [evcodes]: "BTN_BACK = 278"
definition BTN_TASK :: nat where [evcodes]: "BTN_TASK = 279"
definition BTN_TOOL_PEN :: nat where [evcodes]: "BTN_TOOL_PEN = 320"
definition BTN_TOOL_RUBBER :: nat where [evcodes]: "BTN_TOOL_RUBBER = 321"
definition BTN_TOOL_BRUSH :: nat where [evcodes]: "BTN_TOOL_BRUSH = 322"
definition BTN_TOOL_PENCIL :: nat where [evcodes]: "BTN_TOOL_PENCIL = 323"
definition BTN_TOOL_AIRBRUSH :: nat where [evcodes]: "BTN_TOOL_AIRBRUSH = 324"
definition BTN_TOOL_FINGER :: nat where [evcodes]: "BTN_TOOL_FINGER = 325"
definition BTN_TOOL_MOUSE :: nat where [evcodes]: "BTN_TOOL_MOUSE = 326"
definition BTN_TOOL_LENS :: nat where [evcodes]: "BTN_TOOL_LENS = 327"
definition BTN_TOUCH :: nat where [evcodes]: "BTN_TOUCH = 330"
definition BTN_STYLUS :: nat where [evcodes]: "BTN_STYLUS = 331"
definition BTN_STYLUS2 :: nat where [evcodes]: "BTN_STYLUS2 = 332"

section \<open>Floating point as real numbers\<close>

text \<open>
  The axis values of the tablet are C \<^verbatim>\<open>double\<close>s. They are modelled as real numbers:
  the rounding of floating-point arithmetic, infinities and NaN are not modelled. The
  three functions below are those of the C library, on reals: \<^verbatim>\<open>fabs\<close> is \<open>abs\<close>;
  \<^verbatim>\<open>fmod(x, y)\<close> is \<open>x - n * y\<close> with \<open>n\<close> the quotient \<open>x / y\<close> truncated towards
  zero; \<^verbatim>\<open>atan2(y, x)\<close> is the angle of the point \<open>(x, y)\<close> in \<open>(-pi, pi]\<close>, and 0 at
  the origin.
\<close>

definition trunc_toward_zero :: "real \<Rightarrow> int" where
  "trunc_toward_zero x = (if 0 \<le> x then \<lfloor>x\<rfloor> else \<lceil>x\<rceil>)"

definition fmod :: "real \<Rightarrow> real \<Rightarrow> real" where
  "fmod x y = x - real_of_int (trunc_toward_zero (x / y)) * y"

definition atan2 :: "real \<Rightarrow> real \<Rightarrow> real" where
  "atan2 y x =
     (if 0 < x then arctan (y / x)
      else if x < 0 \<and> 0 \<le> y then arctan (y / x) + pi
      else if x < 0 \<and> y < 0 then arctan (y / x) - pi
      else if 0 < y then pi / 2
      else if y < 0 then - pi / 2
      else 0)"

section \<open>The tablet dispatcher (evdev-tablet.c)\<close>

text \<open>
  The enumeration \<^verbatim>\<open>libinput_tablet_axis\<close>, in the order of its values; the source
  relies on \<open>ROTATION_Z\<close> coming after the two tilt axes and on \<open>REL_WHEEL\<close> being
  \<^verbatim>\<open>LIBINPUT_TABLET_AXIS_MAX\<close>. \<^verbatim>\<open>LIBINPUT_TABLET_AXIS_NONE\<close> is \<open>None\<close> of the option
  type.
\<close>

datatype libinput_tablet_axis =
  LIBINPUT_TABLET_AXIS_X | LIBINPUT_TABLET_AXIS_Y | LIBINPUT_TABLET_AXIS_DISTANCE
  | LIBINPUT_TABLET_AXIS_PRESSURE | LIBINPUT_TABLET_AXIS_TILT_X | LIBINPUT_TABLET_AXIS_TILT_Y
  | LIBINPUT_TABLET_AXIS_ROTATION_Z | LIBINPUT_TABLET_AXIS_SLIDER
  | LIBINPUT_TABLET_AXIS_REL_WHEEL

text \<open>The range of the loops \<^verbatim>\<open>for (a = LIBINPUT_TABLET_AXIS_X; a <= LIBINPUT_TABLET_AXIS_MAX; a++)\<close>.\<close>

definition all_tablet_axes :: "libinput_tablet_axis list" where
  "all_tablet_axes =
     [LIBINPUT_TABLET_AXIS_X, LIBINPUT_TABLET_AXIS_Y, LIBINPUT_TABLET_AXIS_DISTANCE,
      LIBINPUT_TABLET_AXIS_PRESSURE, LIBINPUT_TABLET_AXIS_TILT_X, LIBINPUT_TABLET_AXIS_TILT_Y,
      LIBINPUT_TABLET_AXIS_ROTATION_Z, LIBINPUT_TABLET_AXIS_SLIDER,
      LIBINPUT_TABLET_AXIS_REL_WHEEL]"

datatype libinput_tool_type =
  LIBINPUT_TOOL_NONE | LIBINPUT_TOOL_PEN | LIBINPUT_TOOL_ERASER | LIBINPUT_TOOL_BRUSH
  | LIBINPUT_TOOL_PENCIL | LIBINPUT_TOOL_AIRBRUSH | LIBINPUT_TOOL_FINGER
  | LIBINPUT_TOOL_MOUSE | LIBINPUT_TOOL_LENS

datatype tablet_status =
  TABLET_AXES_UPDATED | TABLET_BUTTONS_PRESSED | TABLET_BUTTONS_RELEASED
  | TABLET_STYLUS_IN_CONTACT | TABLET_TOOL_LEAVING_PROXIMITY
  | TABLET_TOOL_OUT_OF_PROXIMITY | TABLET_TOOL_ENTERING_PROXIMITY

datatype libinput_tool_proximity_state =
  LIBINPUT_TOOL_PROXIMITY_OUT | LIBINPUT_TOOL_PROXIMITY_IN

datatype libinput_button_state =
  LIBINPUT_BUTTON_STATE_RELEASED | LIBINPUT_BUTTON_STATE_PRESSED

text \<open>\<^verbatim>\<open>struct input_absinfo\<close> and \<^verbatim>\<open>struct input_event\<close> (without its time stamp,
  which the dispatcher receives as a separate argument).\<close>

record input_absinfo =
  abs_value :: int
  abs_minimum :: int
  abs_maximum :: int

record input_event =
  ev_type :: nat
  ev_code :: nat
  ev_value :: int

text \<open>
  \<^verbatim>\<open>struct libinput_tool\<close>. The reference count and the capability bits that
  \<^verbatim>\<open>tool_set_bits\<close> stamps on a new tool are left out: the dispatcher never reads
  them back, and they depend on the libwacom database.
\<close>

record libinput_tool =
  tool_type :: libinput_tool_type
  tool_serial :: "32 word"
  tool_id :: "32 word"

text \<open>
  The events the dispatcher posts, one constructor for each of
  \<^verbatim>\<open>tablet_notify_proximity\<close>, \<^verbatim>\<open>tablet_notify_axis\<close> and \<^verbatim>\<open>tablet_notify_button\<close>,
  with the arguments of the call.
\<close>

datatype tablet_event =
  Proximity_Event "32 word" libinput_tool libinput_tool_proximity_state
      "libinput_tablet_axis set" "libinput_tablet_axis \<Rightarrow> real"
  | Axis_Event "32 word" libinput_tool "libinput_tablet_axis set"
      "libinput_tablet_axis \<Rightarrow> real" "libinput_tablet_axis \<Rightarrow> real"
      "libinput_tablet_axis \<Rightarrow> real"
  | Button_Event "32 word" libinput_tool "libinput_tablet_axis \<Rightarrow> real" nat
      libinput_button_state

text \<open>
  \<^verbatim>\<open>struct tablet_dispatch\<close>, together with what the dispatcher uses of its device:
  the left-handed configuration, the wheel click angle, the state libevdev keeps of the
  device (\<open>absinfo\<close>, \<open>has_event_code\<close>) and the tool list of the libinput context. The status
  bit set, the changed-axes bit set and the stylus button bit arrays are sets; the arrays
  indexed by an axis are functions. Two fields are not in the C structure: \<open>emitted\<close> is the
  sequence of events posted so far, and \<open>aborted\<close> is set where the C code would call
  \<^verbatim>\<open>abort()\<close>, fail an assertion, or read through a \<^verbatim>\<open>NULL\<close> pointer. The program
  ends there; what the model computes once \<open>aborted\<close> is set is no behaviour of the
  program.
\<close>

record tablet_dispatch =
  status :: "tablet_status set"
  changed_axes :: "libinput_tablet_axis set"
  axes :: "libinput_tablet_axis \<Rightarrow> real"
  deltas :: "libinput_tablet_axis \<Rightarrow> real"
  axis_caps :: "libinput_tablet_axis set"
  button_state :: "nat set"
  prev_button_state :: "nat set"
  current_tool_type :: libinput_tool_type
  current_tool_id :: "32 word"
  current_tool_serial :: "32 word"
  tool_list :: "libinput_tool list"
  libinput_tool_list :: "libinput_tool list"
  left_handed_enabled :: bool
  left_handed_want_enabled :: bool
  wheel_click_angle :: real
  absinfo :: "nat \<Rightarrow> input_absinfo"
  has_event_code :: "nat \<Rightarrow> nat \<Rightarrow> bool"
  emitted :: "tablet_event list"
  aborted :: bool

definition tablet_set_status :: "tablet_dispatch \<Rightarrow> tablet_status \<Rightarrow> tablet_dispatch" where
  "tablet_set_status tablet s = tablet\<lparr>status := insert s (status tablet)\<rparr>"

definition tablet_unset_status :: "tablet_dispatch \<Rightarrow> tablet_status \<Rightarrow> tablet_dispatch" where
  "tablet_unset_status tablet s = tablet\<lparr>status := status tablet - {s}\<rparr>"

definition tablet_has_status :: "tablet_dispatch \<Rightarrow> tablet_status \<Rightarrow> bool" where
  "tablet_has_status tablet s = (s \<in> status tablet)"

text \<open>
  Modelled from the spec: the maps between event codes and axes of evdev-tablet.h, which
  is not among the sources. The spec has an absolute event set the bit of the
  corresponding axis; rotation is reported on \<^verbatim>\<open>ABS_Z\<close> and the slider on \<^verbatim>\<open>ABS_WHEEL\<close>.
  No event code corresponds to the synthetic \<open>REL_WHEEL\<close> axis.
\<close>

definition evcode_to_axis :: "nat \<Rightarrow> libinput_tablet_axis option" where
  "evcode_to_axis evcode =
     (if evcode = ABS_X then Some LIBINPUT_TABLET_AXIS_X
      else if evcode = ABS_Y then Some LIBINPUT_TABLET_AXIS_Y
      else if evcode = ABS_Z then Some LIBINPUT_TABLET_AXIS_ROTATION_Z
      else if evcode = ABS_DISTANCE then Some LIBINPUT_TABLET_AXIS_DISTANCE
      else if evcode = ABS_PRESSURE then Some LIBINPUT_TABLET_AXIS_PRESSURE
      else if evcode = ABS_TILT_X then Some LIBINPUT_TABLET_AXIS_TILT_X
      else if evcode = ABS_TILT_Y then Some LIBINPUT_TABLET_AXIS_TILT_Y
      else if evcode = ABS_WHEEL then Some LIBINPUT_TABLET_AXIS_SLIDER
      else None)"

definition rel_evcode_to_axis :: "nat \<Rightarrow> libinput_tablet_axis option" where
  "rel_evcode_to_axis evcode =
     (if evcode = REL_WHEEL then Some LIBINPUT_TABLET_AXIS_REL_WHEEL else None)"

fun axis_to_evcode :: "libinput_tablet_axis \<Rightarrow> nat option" where
  "axis_to_evcode LIBINPUT_TABLET_AXIS_X = Some ABS_X"
| "axis_to_evcode LIBINPUT_TABLET_AXIS_Y = Some ABS_Y"
| "axis_to_evcode LIBINPUT_TABLET_AXIS_DISTANCE = Some ABS_DISTANCE"
| "axis_to_evcode LIBINPUT_TABLET_AXIS_PRESSURE = Some ABS_PRESSURE"
| "axis_to_evcode LIBINPUT_TABLET_AXIS_TILT_X = Some ABS_TILT_X"
| "axis_to_evcode LIBINPUT_TABLET_AXIS_TILT_Y = Some ABS_TILT_Y"
| "axis_to_evcode LIBINPUT_TABLET_AXIS_ROTATION_Z = Some ABS_Z"
| "axis_to_evcode LIBINPUT_TABLET_AXIS_SLIDER = Some ABS_WHEEL"
| "axis_to_evcode LIBINPUT_TABLET_AXIS_REL_WHEEL = None"

definition tablet_device_has_axis :: "tablet_dispatch \<Rightarrow> libinput_tablet_axis \<Rightarrow> bool" where
  "tablet_device_has_axis tablet axis =
     (if axis = LIBINPUT_TABLET_AXIS_ROTATION_Z then
        has_event_code tablet EV_ABS ABS_TILT_X \<and> has_event_code tablet EV_ABS ABS_TILT_Y
      else if axis = LIBINPUT_TABLET_AXIS_REL_WHEEL then
        has_event_code tablet EV_REL REL_WHEEL
      else (case axis_to_evcode axis of
              Some code \<Rightarrow> has_event_code tablet EV_ABS code
            | None \<Rightarrow> False))"

text \<open>
  \<^verbatim>\<open>libevdev_get_abs_info\<close> of libevdev returns a pointer to the absinfo of an absolute
  axis, and \<^verbatim>\<open>NULL\<close> (here \<open>None\<close>) for a code the device does not have. The dispatcher
  reads the fields through the pointer without a check; \<open>deref_abs_info\<close> is that read,
  which ends the program when the pointer is \<^verbatim>\<open>NULL\<close>.
\<close>

definition libevdev_get_abs_info :: "tablet_dispatch \<Rightarrow> nat \<Rightarrow> input_absinfo option" where
  "libevdev_get_abs_info tablet code =
     (if has_event_code tablet EV_ABS code then Some (absinfo tablet code) else None)"

definition deref_abs_info :: "tablet_dispatch \<Rightarrow> nat \<Rightarrow> tablet_dispatch" where
  "deref_abs_info tablet code =
     (case libevdev_get_abs_info tablet code of
        None \<Rightarrow> tablet\<lparr>aborted := True\<rparr>
      | Some ai \<Rightarrow> tablet)"

definition tablet_process_absolute :: "tablet_dispatch \<Rightarrow> input_event \<Rightarrow> tablet_dispatch" where
  "tablet_process_absolute tablet e =
     (if ev_code e = ABS_X \<or> ev_code e = ABS_Y \<or> ev_code e = ABS_Z
         \<or> ev_code e = ABS_PRESSURE \<or> ev_code e = ABS_TILT_X \<or> ev_code e = ABS_TILT_Y
         \<or> ev_code e = ABS_DISTANCE \<or> ev_code e = ABS_WHEEL then
        (case evcode_to_axis (ev_code e) of
           None \<Rightarrow> tablet
         | Some axis \<Rightarrow>
             tablet_set_status
               (tablet\<lparr>changed_axes := insert axis (changed_axes tablet)\<rparr>)
               TABLET_AXES_UPDATED)
      else if ev_code e = ABS_MISC then
        tablet\<lparr>current_tool_id := word_of_int (ev_value e)\<rparr>
      else tablet)"

text \<open>\<open>mark_axis_changed\<close> is one round of the loop of \<^verbatim>\<open>tablet_mark_all_axes_changed\<close>.\<close>

definition mark_axis_changed :: "libinput_tablet_axis \<Rightarrow> tablet_dispatch \<Rightarrow> tablet_dispatch" where
  "mark_axis_changed a tablet =
     (if tablet_device_has_axis tablet a
      then tablet\<lparr>changed_axes := insert a (changed_axes tablet)\<rparr> else tablet)"

definition tablet_mark_all_axes_changed :: "tablet_dispatch \<Rightarrow> tablet_dispatch" where
  "tablet_mark_all_axes_changed tablet =
     tablet_set_status (fold mark_axis_changed all_tablet_axes tablet) TABLET_AXES_UPDATED"

definition tablet_change_to_left_handed :: "tablet_dispatch \<Rightarrow> tablet_dispatch" where
  "tablet_change_to_left_handed tablet =
     (if left_handed_enabled tablet = left_handed_want_enabled tablet then tablet
      else if \<not> tablet_has_status tablet TABLET_TOOL_OUT_OF_PROXIMITY then tablet
      else tablet\<lparr>left_handed_enabled := left_handed_want_enabled tablet\<rparr>)"

definition tablet_update_tool ::
  "tablet_dispatch \<Rightarrow> libinput_tool_type \<Rightarrow> bool \<Rightarrow> tablet_dispatch" where
  "tablet_update_tool tablet tool enable =
     (if tool = LIBINPUT_TOOL_NONE then tablet\<lparr>aborted := True\<rparr>
      else if enable then
        tablet_unset_status
          (tablet_set_status
             (tablet_mark_all_axes_changed (tablet\<lparr>current_tool_type := tool\<rparr>))
             TABLET_TOOL_ENTERING_PROXIMITY)
          TABLET_TOOL_OUT_OF_PROXIMITY
      else if \<not> tablet_has_status tablet TABLET_TOOL_OUT_OF_PROXIMITY then
        tablet_set_status tablet TABLET_TOOL_LEAVING_PROXIMITY
      else tablet)"

text \<open>The integer subtractions are done in \<^verbatim>\<open>int\<close> and then converted; an absinfo
  range of more than 31 bits, where they would overflow, is not modelled. A range of 0
  divides by zero in C; here the quotient is 0.\<close>

definition normalize_pressure_dist_slider :: "input_absinfo \<Rightarrow> real" where
  "normalize_pressure_dist_slider ai =
     (let range = real_of_int (abs_maximum ai - abs_minimum ai);
          v = real_of_int (abs_value ai - abs_minimum ai) / range
      in v)"

definition normalize_tilt :: "input_absinfo \<Rightarrow> real" where
  "normalize_tilt ai =
     (let range = real_of_int (abs_maximum ai - abs_minimum ai);
          v = real_of_int (abs_value ai - abs_minimum ai) / range
      in (v * 2) - 1)"

definition invert_axis :: "input_absinfo \<Rightarrow> int" where
  "invert_axis ai = abs_maximum ai - (abs_value ai - abs_minimum ai)"

definition convert_tilt_to_rotation :: "tablet_dispatch \<Rightarrow> tablet_dispatch" where
  "convert_tilt_to_rotation tablet =
     (let offset = 5;
          x = axes tablet LIBINPUT_TABLET_AXIS_TILT_X;
          y = axes tablet LIBINPUT_TABLET_AXIS_TILT_Y;
          tablet = tablet\<lparr>changed_axes := changed_axes tablet
                             - {LIBINPUT_TABLET_AXIS_TILT_X} - {LIBINPUT_TABLET_AXIS_TILT_Y}\<rparr>;
          angle = (if x \<noteq> 0 \<or> y \<noteq> 0 then (180 * atan2 (- x) y) / pi else 0);
          angle = fmod (360 + angle - offset) 360
      in tablet\<lparr>axes := (axes tablet)(LIBINPUT_TABLET_AXIS_ROTATION_Z := angle),
                changed_axes := insert LIBINPUT_TABLET_AXIS_ROTATION_Z (changed_axes tablet)\<rparr>)"

definition convert_to_degrees :: "input_absinfo \<Rightarrow> real \<Rightarrow> real" where
  "convert_to_degrees ai offset =
     (let range = real_of_int (abs_maximum ai - abs_minimum ai + 1);
          v = real_of_int (abs_value ai - abs_minimum ai) / range
      in fmod (v * 360 + offset) 360)"

definition normalize_wheel :: "tablet_dispatch \<Rightarrow> int \<Rightarrow> real" where
  "normalize_wheel tablet v = real_of_int v * wheel_click_angle tablet"

definition guess_wheel_delta :: "real \<Rightarrow> real \<Rightarrow> real" where
  "guess_wheel_delta current old =
     (let d1 = current - old;
          d2 = (current + 360) - old;
          d3 = current - (old + 360);
          d1 = (if \<bar>d2\<bar> < \<bar>d1\<bar> then d2 else d1);
          d1 = (if \<bar>d3\<bar> < \<bar>d1\<bar> then d3 else d1)
      in d1)"

text \<open>\<open>None\<close> is the \<^verbatim>\<open>abort()\<close> of the default branch.\<close>

fun get_delta :: "libinput_tablet_axis \<Rightarrow> real \<Rightarrow> real \<Rightarrow> real option" where
  "get_delta LIBINPUT_TABLET_AXIS_X current old = Some (current - old)"
| "get_delta LIBINPUT_TABLET_AXIS_Y current old = Some (current - old)"
| "get_delta LIBINPUT_TABLET_AXIS_DISTANCE current old = Some (current - old)"
| "get_delta LIBINPUT_TABLET_AXIS_PRESSURE current old = Some (current - old)"
| "get_delta LIBINPUT_TABLET_AXIS_SLIDER current old = Some (current - old)"
| "get_delta LIBINPUT_TABLET_AXIS_TILT_X current old = Some (current - old)"
| "get_delta LIBINPUT_TABLET_AXIS_TILT_Y current old = Some (current - old)"
| "get_delta LIBINPUT_TABLET_AXIS_ROTATION_Z current old = Some (guess_wheel_delta current old)"
| "get_delta LIBINPUT_TABLET_AXIS_REL_WHEEL current old = None"

text \<open>The ring of a button set (evdev-buttonset-wacom.c): the same delta, for values
  normalized to \<open>[0, 1)\<close>.\<close>

definition guess_ring_delta :: "real \<Rightarrow> real \<Rightarrow> real" where
  "guess_ring_delta current old =
     (let d1 = current - old;
          d2 = (current + 1) - old;
          d3 = current - (old + 1);
          d1 = (if \<bar>d2\<bar> < \<bar>d1\<bar> then d2 else d1);
          d1 = (if \<bar>d3\<bar> < \<bar>d1\<bar> then d3 else d1)
      in d1)"


text \<open>
  The local arrays and the flag of \<^verbatim>\<open>tablet_check_notify_axes\<close>, with the dispatcher
  the loop updates. One call of \<open>check_axis\<close> is one round of the loop over the axes.
  The conversion of \<^verbatim>\<open>tablet->deltas[a]\<close> to the \<^verbatim>\<open>int\<close> parameter of
  \<^verbatim>\<open>normalize_wheel\<close> truncates. For every changed axis but the rotation of a mouse or
  lens and the relative wheel, the loop reads the fields of the absinfo through the
  pointer that \<^verbatim>\<open>libevdev_get_abs_info\<close> returns (\<open>deref_abs_info\<close>): for a pen, the
  rotation is read from \<^verbatim>\<open>ABS_Z\<close>.
\<close>

record axes_loop =
  loop_tablet :: tablet_dispatch
  loop_axes :: "libinput_tablet_axis \<Rightarrow> real"
  loop_deltas :: "libinput_tablet_axis \<Rightarrow> real"
  loop_deltas_discrete :: "libinput_tablet_axis \<Rightarrow> real"
  axis_update_needed :: bool

definition set_delta :: "axes_loop \<Rightarrow> libinput_tablet_axis \<Rightarrow> real option \<Rightarrow> axes_loop" where
  "set_delta l a d =
     (case d of
        Some v \<Rightarrow> l\<lparr>loop_deltas := (loop_deltas l)(a := v)\<rparr>
      | None \<Rightarrow> l\<lparr>loop_tablet := (loop_tablet l)\<lparr>aborted := True\<rparr>\<rparr>)"

definition normalize_axis :: "tablet_dispatch \<Rightarrow> libinput_tablet_axis \<Rightarrow> input_absinfo \<Rightarrow> real" where
  "normalize_axis tablet a ai =
     (case a of
        LIBINPUT_TABLET_AXIS_X \<Rightarrow>
          (if left_handed_enabled tablet then real_of_int (invert_axis ai)
           else real_of_int (abs_value ai))
      | LIBINPUT_TABLET_AXIS_Y \<Rightarrow>
          (if left_handed_enabled tablet then real_of_int (invert_axis ai)
           else real_of_int (abs_value ai))
      | LIBINPUT_TABLET_AXIS_DISTANCE \<Rightarrow> normalize_pressure_dist_slider ai
      | LIBINPUT_TABLET_AXIS_PRESSURE \<Rightarrow> normalize_pressure_dist_slider ai
      | LIBINPUT_TABLET_AXIS_SLIDER \<Rightarrow> normalize_pressure_dist_slider ai
      | LIBINPUT_TABLET_AXIS_TILT_X \<Rightarrow> normalize_tilt ai
      | LIBINPUT_TABLET_AXIS_TILT_Y \<Rightarrow> normalize_tilt ai
      | LIBINPUT_TABLET_AXIS_ROTATION_Z \<Rightarrow> convert_to_degrees ai 90
      | LIBINPUT_TABLET_AXIS_REL_WHEEL \<Rightarrow> axes tablet a)"

definition check_axis :: "libinput_tablet_axis \<Rightarrow> axes_loop \<Rightarrow> axes_loop" where
  "check_axis a l =
     (let tablet = loop_tablet l
      in if a \<notin> changed_axes tablet then
           l\<lparr>loop_axes := (loop_axes l)(a := axes tablet a)\<rparr>
         else
           (let l = l\<lparr>axis_update_needed := True\<rparr>;
                oldval = axes tablet a
            in if a = LIBINPUT_TABLET_AXIS_ROTATION_Z \<and>
                  (current_tool_type tablet = LIBINPUT_TOOL_MOUSE \<or>
                   current_tool_type tablet = LIBINPUT_TOOL_LENS) then
                 (let tablet = convert_tilt_to_rotation tablet;
                      l = l\<lparr>loop_tablet := tablet,
                             loop_axes := (loop_axes l)
                               (LIBINPUT_TABLET_AXIS_TILT_X := 0,
                                LIBINPUT_TABLET_AXIS_TILT_Y := 0,
                                a := axes tablet a)\<rparr>
                  in set_delta l a (get_delta a (axes tablet a) oldval))
               else if a = LIBINPUT_TABLET_AXIS_REL_WHEEL then
                 l\<lparr>loop_deltas_discrete := (loop_deltas_discrete l)(a := deltas tablet a),
                   loop_deltas := (loop_deltas l)
                     (a := normalize_wheel tablet (trunc_toward_zero (deltas tablet a))),
                   loop_axes := (loop_axes l)(a := 0)\<rparr>
               else
                 (case axis_to_evcode a of
                    None \<Rightarrow> l\<lparr>loop_tablet := tablet\<lparr>aborted := True\<rparr>\<rparr>
                  | Some code \<Rightarrow>
                      (let tablet = deref_abs_info tablet code;
                           tablet = tablet\<lparr>axes := (axes tablet)
                                      (a := normalize_axis tablet a (absinfo tablet code))\<rparr>;
                           l = l\<lparr>loop_tablet := tablet,
                                  loop_axes := (loop_axes l)(a := axes tablet a)\<rparr>
                       in set_delta l a (get_delta a (axes tablet a) oldval)))))"

definition tablet_notify_proximity ::
  "tablet_dispatch \<Rightarrow> 32 word \<Rightarrow> libinput_tool \<Rightarrow> libinput_tool_proximity_state \<Rightarrow>
   libinput_tablet_axis set \<Rightarrow> (libinput_tablet_axis \<Rightarrow> real) \<Rightarrow> tablet_dispatch" where
  "tablet_notify_proximity tablet time tool proximity_state changed ax =
     tablet\<lparr>emitted := emitted tablet @ [Proximity_Event time tool proximity_state changed ax]\<rparr>"

definition tablet_notify_axis ::
  "tablet_dispatch \<Rightarrow> 32 word \<Rightarrow> libinput_tool \<Rightarrow> libinput_tablet_axis set \<Rightarrow>
   (libinput_tablet_axis \<Rightarrow> real) \<Rightarrow> (libinput_tablet_axis \<Rightarrow> real) \<Rightarrow>
   (libinput_tablet_axis \<Rightarrow> real) \<Rightarrow> tablet_dispatch" where
  "tablet_notify_axis tablet time tool changed ax ds dds =
     tablet\<lparr>emitted := emitted tablet @ [Axis_Event time tool changed ax ds dds]\<rparr>"

definition tablet_notify_button ::
  "tablet_dispatch \<Rightarrow> 32 word \<Rightarrow> libinput_tool \<Rightarrow> (libinput_tablet_axis \<Rightarrow> real) \<Rightarrow> nat \<Rightarrow>
   libinput_button_state \<Rightarrow> tablet_dispatch" where
  "tablet_notify_button tablet time tool ax button bstate =
     tablet\<lparr>emitted := emitted tablet @ [Button_Event time tool ax button bstate]\<rparr>"

definition tablet_check_notify_axes ::
  "tablet_dispatch \<Rightarrow> 32 word \<Rightarrow> libinput_tool \<Rightarrow> tablet_dispatch" where
  "tablet_check_notify_axes tablet time tool =
     (let l = fold check_axis all_tablet_axes
                \<lparr>loop_tablet = tablet, loop_axes = (\<lambda>a. 0), loop_deltas = (\<lambda>a. 0),
                 loop_deltas_discrete = (\<lambda>a. 0), axis_update_needed = False\<rparr>;
          tablet = loop_tablet l;
          tablet =
            (if axis_update_needed l \<and>
                \<not> tablet_has_status tablet TABLET_TOOL_OUT_OF_PROXIMITY \<and>
                \<not> tablet_has_status tablet TABLET_TOOL_LEAVING_PROXIMITY then
               (if tablet_has_status tablet TABLET_TOOL_ENTERING_PROXIMITY then
                  tablet_notify_proximity tablet time tool LIBINPUT_TOOL_PROXIMITY_IN
                    (changed_axes tablet) (loop_axes l)
                else
                  tablet_notify_axis tablet time tool (changed_axes tablet) (loop_axes l)
                    (loop_deltas l) (loop_deltas_discrete l))
             else tablet)
      in tablet\<lparr>changed_axes := {}\<rparr>)"

definition tablet_update_button :: "tablet_dispatch \<Rightarrow> nat \<Rightarrow> int \<Rightarrow> tablet_dispatch" where
  "tablet_update_button tablet evcode enable =
     (if evcode = BTN_LEFT \<or> evcode = BTN_RIGHT \<or> evcode = BTN_MIDDLE \<or> evcode = BTN_SIDE
         \<or> evcode = BTN_EXTRA \<or> evcode = BTN_FORWARD \<or> evcode = BTN_BACK
         \<or> evcode = BTN_TASK \<or> evcode = BTN_TOUCH \<or> evcode = BTN_STYLUS
         \<or> evcode = BTN_STYLUS2 then
        (if enable \<noteq> 0 then
           tablet_set_status
             (tablet\<lparr>button_state := insert evcode (button_state tablet)\<rparr>)
             TABLET_BUTTONS_PRESSED
         else
           tablet_set_status
             (tablet\<lparr>button_state := button_state tablet - {evcode}\<rparr>)
             TABLET_BUTTONS_RELEASED)
      else tablet)"

text \<open>\<open>None\<close> is the \<^verbatim>\<open>abort()\<close> of the default branch.\<close>

definition tablet_evcode_to_tool :: "nat \<Rightarrow> libinput_tool_type option" where
  "tablet_evcode_to_tool code =
     (if code = BTN_TOOL_PEN then Some LIBINPUT_TOOL_PEN
      else if code = BTN_TOOL_RUBBER then Some LIBINPUT_TOOL_ERASER
      else if code = BTN_TOOL_BRUSH then Some LIBINPUT_TOOL_BRUSH
      else if code = BTN_TOOL_PENCIL then Some LIBINPUT_TOOL_PENCIL
      else if code = BTN_TOOL_AIRBRUSH then Some LIBINPUT_TOOL_AIRBRUSH
      else if code = BTN_TOOL_FINGER then Some LIBINPUT_TOOL_FINGER
      else if code = BTN_TOOL_MOUSE then Some LIBINPUT_TOOL_MOUSE
      else if code = BTN_TOOL_LENS then Some LIBINPUT_TOOL_LENS
      else None)"

definition tablet_process_key :: "tablet_dispatch \<Rightarrow> input_event \<Rightarrow> tablet_dispatch" where
  "tablet_process_key tablet e =
     (if ev_code e = BTN_TOOL_PEN \<or> ev_code e = BTN_TOOL_RUBBER \<or> ev_code e = BTN_TOOL_BRUSH
         \<or> ev_code e = BTN_TOOL_PENCIL \<or> ev_code e = BTN_TOOL_AIRBRUSH
         \<or> ev_code e = BTN_TOOL_FINGER \<or> ev_code e = BTN_TOOL_MOUSE
         \<or> ev_code e = BTN_TOOL_LENS then
        (case tablet_evcode_to_tool (ev_code e) of
           Some tool \<Rightarrow> tablet_update_tool tablet tool (ev_value e \<noteq> 0)
         | None \<Rightarrow> tablet\<lparr>aborted := True\<rparr>)
      else if ev_code e = BTN_TOUCH then
        tablet_update_button
          (if ev_value e \<noteq> 0 then tablet_set_status tablet TABLET_STYLUS_IN_CONTACT
           else tablet_unset_status tablet TABLET_STYLUS_IN_CONTACT)
          (ev_code e) (ev_value e)
      else tablet_update_button tablet (ev_code e) (ev_value e))"

definition tablet_process_relative :: "tablet_dispatch \<Rightarrow> input_event \<Rightarrow> tablet_dispatch" where
  "tablet_process_relative tablet e =
     (if ev_code e = REL_WHEEL then
        (case rel_evcode_to_axis (ev_code e) of
           None \<Rightarrow> tablet
         | Some axis \<Rightarrow>
             tablet_set_status
               (tablet\<lparr>changed_axes := insert axis (changed_axes tablet),
                        deltas := (deltas tablet)(axis := real_of_int (- 1 * ev_value e))\<rparr>)
               TABLET_AXES_UPDATED)
      else tablet)"

definition tablet_process_misc :: "tablet_dispatch \<Rightarrow> input_event \<Rightarrow> tablet_dispatch" where
  "tablet_process_misc tablet e =
     (if ev_code e = MSC_SERIAL then
        (if ev_value e \<noteq> - 1 then tablet\<lparr>current_tool_serial := word_of_int (ev_value e)\<rparr>
         else tablet)
      else tablet)"

text \<open>
  \<^verbatim>\<open>tablet_get_tool\<close> looks the tool up, in the list of the context for a tool with
  a serial number and in the list of the tablet otherwise, and inserts a new tool at the
  head of that list when there is none. It returns the dispatcher with its lists and
  the tool.
\<close>

definition tablet_get_tool ::
  "tablet_dispatch \<Rightarrow> libinput_tool_type \<Rightarrow> 32 word \<Rightarrow> 32 word \<Rightarrow>
   tablet_dispatch \<times> libinput_tool" where
  "tablet_get_tool tablet ty tid ser =
     (if ser \<noteq> 0 then
        (case find (\<lambda>t. ty = tool_type t \<and> ser = tool_serial t) (libinput_tool_list tablet) of
           Some tool \<Rightarrow> (tablet, tool)
         | None \<Rightarrow>
             (let tool = \<lparr>tool_type = ty, tool_serial = ser, tool_id = tid\<rparr>
              in (tablet\<lparr>libinput_tool_list := tool # libinput_tool_list tablet\<rparr>, tool)))
      else
        (case find (\<lambda>t. ty = tool_type t) (tool_list tablet) of
           Some tool \<Rightarrow> (tablet, tool)
         | None \<Rightarrow>
             (let tool = \<lparr>tool_type = ty, tool_serial = ser, tool_id = tid\<rparr>
              in (tablet\<lparr>tool_list := tool # tool_list tablet\<rparr>, tool))))"

definition tablet_get_pressed_buttons :: "tablet_dispatch \<Rightarrow> nat set" where
  "tablet_get_pressed_buttons tablet = button_state tablet - prev_button_state tablet"

definition tablet_get_released_buttons :: "tablet_dispatch \<Rightarrow> nat set" where
  "tablet_get_released_buttons tablet = prev_button_state tablet - button_state tablet"

text \<open>\<open>notify_button_bit\<close> is one round of the loop of \<^verbatim>\<open>tablet_notify_button_mask\<close>.\<close>

definition notify_button_bit ::
  "32 word \<Rightarrow> libinput_tool \<Rightarrow> nat set \<Rightarrow> libinput_button_state \<Rightarrow> nat \<Rightarrow> tablet_dispatch \<Rightarrow>
   tablet_dispatch" where
  "notify_button_bit time tool buttons bstate i tablet =
     (if i \<notin> buttons then tablet
      else tablet_notify_button tablet time tool (axes tablet) i bstate)"

definition tablet_notify_button_mask ::
  "tablet_dispatch \<Rightarrow> 32 word \<Rightarrow> libinput_tool \<Rightarrow> nat set \<Rightarrow> nat \<Rightarrow> libinput_button_state \<Rightarrow>
   tablet_dispatch" where
  "tablet_notify_button_mask tablet time tool buttons nbits bstate =
     fold (notify_button_bit time tool buttons bstate) [0..<nbits] tablet"

text \<open>The button arrays have \<^verbatim>\<open>NCHARS(KEY_CNT)\<close> bytes, hence \<open>KEY_CNT\<close> bits.\<close>

definition tablet_notify_buttons ::
  "tablet_dispatch \<Rightarrow> 32 word \<Rightarrow> libinput_tool \<Rightarrow> libinput_button_state \<Rightarrow> tablet_dispatch" where
  "tablet_notify_buttons tablet time tool bstate =
     (let buttons =
            (if bstate = LIBINPUT_BUTTON_STATE_PRESSED then tablet_get_pressed_buttons tablet
             else tablet_get_released_buttons tablet)
      in tablet_notify_button_mask tablet time tool buttons KEY_CNT bstate)"

text \<open>
  \<^verbatim>\<open>sanitize_tablet_axes\<close> reads \<^verbatim>\<open>distance->value\<close> when the distance bit is set, and
  \<^verbatim>\<open>pressure->value\<close> when moreover the distance is above its minimum (\<^verbatim>\<open>&&\<close> evaluates
  from left to right); each is a read through a pointer that may be \<^verbatim>\<open>NULL\<close>.
\<close>

definition sanitize_tablet_axes :: "tablet_dispatch \<Rightarrow> tablet_dispatch" where
  "sanitize_tablet_axes tablet =
     (let distance = absinfo tablet ABS_DISTANCE;
          pressure = absinfo tablet ABS_PRESSURE;
          tablet =
            (if LIBINPUT_TABLET_AXIS_DISTANCE \<in> changed_axes tablet then
               (let tablet = deref_abs_info tablet ABS_DISTANCE
                in if abs_value distance > abs_minimum distance
                   then deref_abs_info tablet ABS_PRESSURE else tablet)
             else tablet);
          tablet =
            (if LIBINPUT_TABLET_AXIS_DISTANCE \<in> changed_axes tablet \<and>
                abs_value distance > abs_minimum distance \<and>
                abs_value pressure > abs_minimum pressure then
               tablet\<lparr>changed_axes := changed_axes tablet - {LIBINPUT_TABLET_AXIS_DISTANCE},
                       axes := (axes tablet)(LIBINPUT_TABLET_AXIS_DISTANCE := 0)\<rparr>
             else if LIBINPUT_TABLET_AXIS_PRESSURE \<in> changed_axes tablet \<and>
                     \<not> tablet_has_status tablet TABLET_STYLUS_IN_CONTACT then
               (if axes tablet LIBINPUT_TABLET_AXIS_PRESSURE = 0 then
                  tablet\<lparr>changed_axes := changed_axes tablet - {LIBINPUT_TABLET_AXIS_PRESSURE}\<rparr>
                else tablet\<lparr>axes := (axes tablet)(LIBINPUT_TABLET_AXIS_PRESSURE := 0)\<rparr>)
             else tablet)
      in if (current_tool_type tablet = LIBINPUT_TOOL_MOUSE \<or>
             current_tool_type tablet = LIBINPUT_TOOL_LENS) \<and>
            (LIBINPUT_TABLET_AXIS_TILT_X \<in> changed_axes tablet \<or>
             LIBINPUT_TABLET_AXIS_TILT_Y \<in> changed_axes tablet) then
           tablet\<lparr>changed_axes := insert LIBINPUT_TABLET_AXIS_ROTATION_Z (changed_axes tablet)\<rparr>
         else tablet)"

definition tablet_flush :: "tablet_dispatch \<Rightarrow> 32 word \<Rightarrow> tablet_dispatch" where
  "tablet_flush tablet0 time =
     (let (tablet, tool) =
            tablet_get_tool tablet0 (current_tool_type tablet0) (current_tool_id tablet0)
              (current_tool_serial tablet0)
      in if tablet_has_status tablet TABLET_TOOL_OUT_OF_PROXIMITY then tablet
         else
           (let tablet =
                  (if tablet_has_status tablet TABLET_TOOL_LEAVING_PROXIMITY then
                     tablet_set_status (tablet\<lparr>button_state := {}\<rparr>) TABLET_BUTTONS_RELEASED
                   else if tablet_has_status tablet TABLET_AXES_UPDATED \<or>
                           tablet_has_status tablet TABLET_TOOL_ENTERING_PROXIMITY then
                     tablet_unset_status
                       (tablet_unset_status
                          (tablet_check_notify_axes (sanitize_tablet_axes tablet) time tool)
                          TABLET_TOOL_ENTERING_PROXIMITY)
                       TABLET_AXES_UPDATED
                   else tablet);
                tablet =
                  (if tablet_has_status tablet TABLET_BUTTONS_RELEASED then
                     tablet_unset_status
                       (tablet_notify_buttons tablet time tool LIBINPUT_BUTTON_STATE_RELEASED)
                       TABLET_BUTTONS_RELEASED
                   else tablet);
                tablet =
                  (if tablet_has_status tablet TABLET_BUTTONS_PRESSED then
                     tablet_unset_status
                       (tablet_notify_buttons tablet time tool LIBINPUT_BUTTON_STATE_PRESSED)
                       TABLET_BUTTONS_PRESSED
                   else tablet)
            in if tablet_has_status tablet TABLET_TOOL_LEAVING_PROXIMITY then
                 (let tablet = tablet\<lparr>changed_axes := {}\<rparr>;
                      tablet = tablet_notify_proximity tablet time tool
                                 LIBINPUT_TOOL_PROXIMITY_OUT (changed_axes tablet) (axes tablet);
                      tablet = tablet_set_status tablet TABLET_TOOL_OUT_OF_PROXIMITY;
                      tablet = tablet_unset_status tablet TABLET_TOOL_LEAVING_PROXIMITY
                  in tablet_change_to_left_handed tablet)
               else tablet))"

definition tablet_reset_state :: "tablet_dispatch \<Rightarrow> tablet_dispatch" where
  "tablet_reset_state tablet = tablet\<lparr>prev_button_state := button_state tablet\<rparr>"

text \<open>\<^verbatim>\<open>tablet_process\<close> receives a 64-bit time and passes it to \<^verbatim>\<open>tablet_flush\<close> as
  \<^verbatim>\<open>uint32_t\<close>.\<close>

definition tablet_process :: "tablet_dispatch \<Rightarrow> input_event \<Rightarrow> 64 word \<Rightarrow> tablet_dispatch" where
  "tablet_process tablet e time =
     (if ev_type e = EV_ABS then tablet_process_absolute tablet e
      else if ev_type e = EV_REL then tablet_process_relative tablet e
      else if ev_type e = EV_KEY then tablet_process_key tablet e
      else if ev_type e = EV_MSC then tablet_process_misc tablet e
      else if ev_type e = EV_SYN then tablet_reset_state (tablet_flush tablet (ucast time))
      else tablet)"

text \<open>
  \<^verbatim>\<open>evdev_tablet_create\<close> allocates the dispatcher zeroed and calls \<^verbatim>\<open>tablet_init\<close>.
  The arguments are what the model takes from the device and the context: the event
  codes and the absinfo of the device, its wheel click angle, and the tool list of
  the context. The left-handed configuration starts disabled.
\<close>

definition init_axis_cap :: "libinput_tablet_axis \<Rightarrow> tablet_dispatch \<Rightarrow> tablet_dispatch" where
  "init_axis_cap a tablet =
     (if tablet_device_has_axis tablet a
      then tablet\<lparr>axis_caps := insert a (axis_caps tablet)\<rparr> else tablet)"

definition tablet_init :: "tablet_dispatch \<Rightarrow> tablet_dispatch" where
  "tablet_init tablet =
     (let tablet = tablet\<lparr>status := {}, current_tool_type := LIBINPUT_TOOL_NONE,
                           tool_list := []\<rparr>;
          tablet = fold init_axis_cap all_tablet_axes tablet;
          tablet = tablet_mark_all_axes_changed tablet
      in tablet_set_status tablet TABLET_TOOL_OUT_OF_PROXIMITY)"

definition evdev_tablet_create ::
  "(nat \<Rightarrow> nat \<Rightarrow> bool) \<Rightarrow> (nat \<Rightarrow> input_absinfo) \<Rightarrow> real \<Rightarrow> libinput_tool list \<Rightarrow>
   tablet_dispatch" where
  "evdev_tablet_create codes ai angle tools =
     tablet_init
       \<lparr>status = {}, changed_axes = {}, axes = (\<lambda>a. 0), deltas = (\<lambda>a. 0), axis_caps = {},
        button_state = {}, prev_button_state = {},
        current_tool_type = LIBINPUT_TOOL_NONE, current_tool_id = 0, current_tool_serial = 0,
        tool_list = [], libinput_tool_list = tools,
        left_handed_enabled = False, left_handed_want_enabled = False,
        wheel_click_angle = angle, absinfo = ai, has_event_code = codes,
        emitted = [], aborted = False\<rparr>"

text \<open>
  The device reads its events through libevdev, which stores the value of an absolute
  event in its absinfo before the dispatcher sees the event. \<open>evdev_process_event\<close> is
  that step followed by \<^verbatim>\<open>tablet_process\<close>; \<open>evdev_process_events\<close> runs a sequence of
  events, each with its time.
\<close>

definition libevdev_update :: "tablet_dispatch \<Rightarrow> input_event \<Rightarrow> tablet_dispatch" where
  "libevdev_update tablet e =
     (if ev_type e = EV_ABS then
        tablet\<lparr>absinfo := (absinfo tablet)
                  (ev_code e := (absinfo tablet (ev_code e))\<lparr>abs_value := ev_value e\<rparr>)\<rparr>
      else tablet)"

definition evdev_process_event :: "tablet_dispatch \<Rightarrow> input_event \<times> 64 word \<Rightarrow> tablet_dispatch" where
  "evdev_process_event tablet et =
     tablet_process (libevdev_update tablet (fst et)) (fst et) (snd et)"

definition evdev_process_events ::
  "tablet_dispatch \<Rightarrow> (input_event \<times> 64 word) list \<Rightarrow> tablet_dispatch" where
  "evdev_process_events tablet es = foldl evdev_process_event tablet es"


section \<open>Reading events, and an example device\<close>

text \<open>What a posted event carries: its axis values and its set of changed axes (a
  button event has no changed axes).\<close>

fun event_axes :: "tablet_event \<Rightarrow> libinput_tablet_axis \<Rightarrow> real" where
  "event_axes (Proximity_Event time tool ps changed ax) = ax"
| "event_axes (Axis_Event time tool changed ax ds dds) = ax"
| "event_axes (Button_Event time tool ax button bs) = ax"

fun event_changed_axes :: "tablet_event \<Rightarrow> libinput_tablet_axis set" where
  "event_changed_axes (Proximity_Event time tool ps changed ax) = changed"
| "event_changed_axes (Axis_Event time tool changed ax ds dds) = changed"
| "event_changed_axes (Button_Event time tool ax button bs) = {}"

text \<open>
  The rotation of a mouse or lens tool in the words of the specification:
  \<open>fmod(360 + atan2(-tilt_x, tilt_y) * 180 / pi - 5, 360)\<close>, the angle taken as 0 when
  both tilts are 0.
\<close>

definition tilt_rotation :: "real \<Rightarrow> real \<Rightarrow> real" where
  "tilt_rotation tilt_x tilt_y =
     fmod (360 + (if tilt_x = 0 \<and> tilt_y = 0 then 0 else atan2 (- tilt_x) tilt_y) * 180 / pi - 5)
       360"

text \<open>
  A tablet with the axes x, y, z (the rotation of a pen), pressure, distance and the two
  tilts, each with the range 0 to 100 (tilt: 0 to 128), and a few tools and buttons; and
  shorthands for events.
\<close>

definition example_codes :: "nat \<Rightarrow> nat \<Rightarrow> bool" where
  "example_codes ty c =
     ((ty = EV_ABS \<and> (c = ABS_X \<or> c = ABS_Y \<or> c = ABS_Z \<or> c = ABS_PRESSURE
                      \<or> c = ABS_DISTANCE \<or> c = ABS_TILT_X \<or> c = ABS_TILT_Y))
      \<or> (ty = EV_KEY \<and> (c = BTN_TOOL_PEN \<or> c = BTN_TOOL_RUBBER \<or> c = BTN_TOOL_MOUSE
                        \<or> c = BTN_TOUCH \<or> c = BTN_STYLUS)))"

definition example_absinfo :: "nat \<Rightarrow> input_absinfo" where
  "example_absinfo c =
     \<lparr>abs_value = 0, abs_minimum = 0,
      abs_maximum = (if c = ABS_TILT_X \<or> c = ABS_TILT_Y then 128 else 100)\<rparr>"

definition example_tablet :: tablet_dispatch where
  "example_tablet = evdev_tablet_create example_codes example_absinfo 15 []"

definition key_event :: "nat \<Rightarrow> int \<Rightarrow> input_event" where
  "key_event c v = \<lparr>ev_type = EV_KEY, ev_code = c, ev_value = v\<rparr>"

definition abs_event :: "nat \<Rightarrow> int \<Rightarrow> input_event" where
  "abs_event c v = \<lparr>ev_type = EV_ABS, ev_code = c, ev_value = v\<rparr>"

definition msc_event :: "nat \<Rightarrow> int \<Rightarrow> input_event" where
  "msc_event c v = \<lparr>ev_type = EV_MSC, ev_code = c, ev_value = v\<rparr>"

definition syn_event :: input_event where
  "syn_event = \<lparr>ev_type = EV_SYN, ev_code = 0, ev_value = 0\<rparr>"

text \<open>The mouse enters and reports its tilt, 64 and 128, which normalize to 0 and 1;
  the frame is not yet closed.\<close>

definition mouse_tilt_tablet :: tablet_dispatch where
  "mouse_tilt_tablet =
     evdev_process_events example_tablet
       [(key_event BTN_TOOL_MOUSE 1, 0), (abs_event ABS_TILT_X 64, 0),
        (abs_event ABS_TILT_Y 128, 0)]"

text \<open>A pen touches with pressure 50, lifts with pressure 30 still reported, and
  hovers with pressure 20.\<close>

definition hover_pressure_events :: "(input_event \<times> 64 word) list" where
  "hover_pressure_events =
     [(key_event BTN_TOOL_PEN 1, 1), (abs_event ABS_PRESSURE 50, 1), (key_event BTN_TOUCH 1, 1),
      (syn_event, 1),
      (key_event BTN_TOUCH 0, 2), (abs_event ABS_PRESSURE 30, 2), (syn_event, 2),
      (abs_event ABS_PRESSURE 20, 3), (syn_event, 3)]"

section \<open>The parts of a flush\<close>

text \<open>
  Names for the parts of \<^verbatim>\<open>tablet_flush\<close>, used to state what a flush does: the tool
  it looks up and the dispatcher after the lookup; the event, if any, that
  \<^verbatim>\<open>tablet_check_notify_axes\<close> posts; the axis branch; the button events of a set of
  buttons; and the two button branches.
\<close>

definition flush_tablet :: "tablet_dispatch \<Rightarrow> tablet_dispatch" where
  "flush_tablet t =
     fst (tablet_get_tool t (current_tool_type t) (current_tool_id t) (current_tool_serial t))"

definition flush_tool :: "tablet_dispatch \<Rightarrow> libinput_tool" where
  "flush_tool t =
     snd (tablet_get_tool t (current_tool_type t) (current_tool_id t) (current_tool_serial t))"

definition axes_events :: "tablet_dispatch \<Rightarrow> 32 word \<Rightarrow> libinput_tool \<Rightarrow> tablet_event list" where
  "axes_events t time tool =
     (let l = fold check_axis all_tablet_axes
                \<lparr>loop_tablet = t, loop_axes = (\<lambda>a. 0), loop_deltas = (\<lambda>a. 0),
                 loop_deltas_discrete = (\<lambda>a. 0), axis_update_needed = False\<rparr>
      in if axis_update_needed l \<and> TABLET_TOOL_OUT_OF_PROXIMITY \<notin> status t \<and>
            TABLET_TOOL_LEAVING_PROXIMITY \<notin> status t then
           (if TABLET_TOOL_ENTERING_PROXIMITY \<in> status t then
              [Proximity_Event time tool LIBINPUT_TOOL_PROXIMITY_IN
                 (changed_axes (loop_tablet l)) (loop_axes l)]
            else
              [Axis_Event time tool (changed_axes (loop_tablet l)) (loop_axes l)
                 (loop_deltas l) (loop_deltas_discrete l)])
         else [])"

definition flush_axes_phase :: "tablet_dispatch \<Rightarrow> 32 word \<Rightarrow> tablet_dispatch" where
  "flush_axes_phase t time =
     (if TABLET_AXES_UPDATED \<in> status t \<or> TABLET_TOOL_ENTERING_PROXIMITY \<in> status t then
        tablet_unset_status
          (tablet_unset_status
             (tablet_check_notify_axes (sanitize_tablet_axes (flush_tablet t)) time (flush_tool t))
             TABLET_TOOL_ENTERING_PROXIMITY)
          TABLET_AXES_UPDATED
      else flush_tablet t)"

definition button_events ::
  "32 word \<Rightarrow> libinput_tool \<Rightarrow> (libinput_tablet_axis \<Rightarrow> real) \<Rightarrow> nat set \<Rightarrow>
   libinput_button_state \<Rightarrow> tablet_event list" where
  "button_events time tool ax S bs =
     map (\<lambda>i. Button_Event time tool ax i bs) (filter (\<lambda>i. i \<in> S) [0..<KEY_CNT])"

definition flush_buttons_phase ::
  "tablet_dispatch \<Rightarrow> 32 word \<Rightarrow> libinput_tool \<Rightarrow> tablet_dispatch" where
  "flush_buttons_phase tablet time tool =
     (let tablet =
            (if tablet_has_status tablet TABLET_BUTTONS_RELEASED then
               tablet_unset_status
                 (tablet_notify_buttons tablet time tool LIBINPUT_BUTTON_STATE_RELEASED)
                 TABLET_BUTTONS_RELEASED
             else tablet)
      in if tablet_has_status tablet TABLET_BUTTONS_PRESSED then
           tablet_unset_status
             (tablet_notify_buttons tablet time tool LIBINPUT_BUTTON_STATE_PRESSED)
             TABLET_BUTTONS_PRESSED
         else tablet)"

section \<open>Proximity closure, as properties of event sequences\<close>

text \<open>
  The proximity events of a sequence of posted events, each with its tool.
\<close>

fun proximity_events ::
  "tablet_event list \<Rightarrow> (libinput_tool \<times> libinput_tool_proximity_state) list" where
  "proximity_events [] = []"
| "proximity_events (Proximity_Event time tool ps changed ax # evs) =
     (tool, ps) # proximity_events evs"
| "proximity_events (Axis_Event time tool changed ax ds dds # evs) = proximity_events evs"
| "proximity_events (Button_Event time tool ax button bs # evs) = proximity_events evs"

text \<open>
  The proximity property of the specification, checked along a sequence of posted events.
  The checker remembers the tool whose proximity-in has not been closed yet. A
  proximity-in is accepted only when there is none; a proximity-out is accepted only
  for exactly that tool, and closes it. \<open>None\<close> is a violation. So in an accepted
  sequence every proximity-in is followed by one proximity-out of the same tool before
  any other proximity event.
\<close>

fun proximity_step :: "libinput_tool option option \<Rightarrow> tablet_event \<Rightarrow> libinput_tool option option" where
  "proximity_step None ev = None"
| "proximity_step (Some cur) (Proximity_Event time tool ps changed ax) =
     (if ps = LIBINPUT_TOOL_PROXIMITY_IN then
        (if cur = None then Some (Some tool) else None)
      else
        (if cur = Some tool then Some None else None))"
| "proximity_step (Some cur) (Axis_Event time tool changed ax ds dds) = Some cur"
| "proximity_step (Some cur) (Button_Event time tool ax button bs) = Some cur"

definition proximity_closed :: "tablet_event list \<Rightarrow> bool" where
  "proximity_closed evs = (foldl proximity_step (Some None) evs \<noteq> None)"

text \<open>
  The button property: the checker keeps the set of buttons reported pressed and not
  yet released; a proximity-out is accepted only when that set is empty.
\<close>

fun button_step :: "nat set option \<Rightarrow> tablet_event \<Rightarrow> nat set option" where
  "button_step None ev = None"
| "button_step (Some pending) (Button_Event time tool ax button bs) =
     (if bs = LIBINPUT_BUTTON_STATE_PRESSED then Some (insert button pending)
      else Some (pending - {button}))"
| "button_step (Some pending) (Proximity_Event time tool ps changed ax) =
     (if ps = LIBINPUT_TOOL_PROXIMITY_OUT then (if pending = {} then Some {} else None)
      else Some pending)"
| "button_step (Some pending) (Axis_Event time tool changed ax ds dds) = Some pending"

definition buttons_closed :: "tablet_event list \<Rightarrow> bool" where
  "buttons_closed evs = (foldl button_step (Some {}) evs \<noteq> None)"

text \<open>
  The evdev input the dispatcher expects of the kernel, as a checker over the input
  events alone (\<open>None\<close>: not well-formed). A tool button is one of \<^verbatim>\<open>BTN_TOOL_PEN\<close> to
  \<^verbatim>\<open>BTN_TOOL_LENS\<close>. A tool enters (value non-zero) only while no tool is in proximity;
  it leaves (value 0) in a later frame than the one in which it entered; a tool is out
  of proximity from the end of the frame in which it left; and the serial number
  reported for a tool in proximity does not change after the frame in which it entered.
\<close>

record tool_protocol =
  tool_down :: bool
  tool_fresh :: bool
  tool_leaving :: bool
  reported_serial :: "32 word"

definition is_tool_button :: "nat \<Rightarrow> bool" where
  "is_tool_button code =
     (code = BTN_TOOL_PEN \<or> code = BTN_TOOL_RUBBER \<or> code = BTN_TOOL_BRUSH
      \<or> code = BTN_TOOL_PENCIL \<or> code = BTN_TOOL_AIRBRUSH \<or> code = BTN_TOOL_FINGER
      \<or> code = BTN_TOOL_MOUSE \<or> code = BTN_TOOL_LENS)"

definition protocol_step :: "tool_protocol \<Rightarrow> input_event \<Rightarrow> tool_protocol option" where
  "protocol_step p e =
     (if ev_type e = EV_KEY \<and> is_tool_button (ev_code e) then
        (if ev_value e \<noteq> 0 then
           (if tool_down p then None
            else Some (p\<lparr>tool_down := True, tool_fresh := True\<rparr>))
         else
           (if \<not> tool_down p then Some p
            else if tool_fresh p then None
            else Some (p\<lparr>tool_leaving := True\<rparr>)))
      else if ev_type e = EV_MSC \<and> ev_code e = MSC_SERIAL \<and> ev_value e \<noteq> - 1 then
        (if tool_down p \<and> \<not> tool_fresh p \<and> word_of_int (ev_value e) \<noteq> reported_serial p
         then None
         else Some (p\<lparr>reported_serial := word_of_int (ev_value e)\<rparr>))
      else if ev_type e = EV_SYN then
        (if tool_leaving p
         then Some (p\<lparr>tool_down := False, tool_fresh := False, tool_leaving := False\<rparr>)
         else Some (p\<lparr>tool_fresh := False\<rparr>))
      else Some p)"

fun protocol_run :: "tool_protocol option \<Rightarrow> input_event list \<Rightarrow> tool_protocol option" where
  "protocol_run None es = None"
| "protocol_run (Some p) [] = Some p"
| "protocol_run (Some p) (e # es) = protocol_run (protocol_step p e) es"

definition protocol_ok :: "input_event list \<Rightarrow> bool" where
  "protocol_ok es =
     (protocol_run
        (Some \<lparr>tool_down = False, tool_fresh = False, tool_leaving = False,
               reported_serial = 0\<rparr>) es \<noteq> None)"

text \<open>Example inputs: a pen enters at x = 10, its button is pressed, and it leaves with
  the button still down; and a pen enters and then an eraser enters although the pen has
  not left.\<close>

definition pen_button_events :: "(input_event \<times> 64 word) list" where
  "pen_button_events =
     [(key_event BTN_TOOL_PEN 1, 1), (msc_event MSC_SERIAL 7, 1), (abs_event ABS_X 10, 1),
      (syn_event, 1),
      (key_event BTN_STYLUS 1, 2), (syn_event, 2),
      (key_event BTN_TOOL_PEN 0, 3), (syn_event, 3)]"

definition two_tools_events :: "(input_event \<times> 64 word) list" where
  "two_tools_events =
     [(key_event BTN_TOOL_PEN 1, 1), (syn_event, 1),
      (key_event BTN_TOOL_RUBBER 1, 2), (syn_event, 2)]"

text \<open>A pen is in proximity when the left-handed configuration is requested, which
  calls \<^verbatim>\<open>tablet_change_to_left_handed\<close>; then the event that the pen leaves arrives.
  The frame is not yet closed.\<close>

definition left_handed_pending_tablet :: tablet_dispatch where
  "left_handed_pending_tablet =
     evdev_process_event
       (tablet_change_to_left_handed
          ((evdev_process_events example_tablet
              [(key_event BTN_TOOL_PEN 1, 1), (syn_event, 1)])
           \<lparr>left_handed_want_enabled := True\<rparr>))
       (key_event BTN_TOOL_PEN 0, 2)"

section \<open>Invariants of the dispatcher\<close>

text \<open>
  The tool the dispatcher would find for its current tool type and serial number,
  without inserting one.
\<close>

definition lookup_tool :: "tablet_dispatch \<Rightarrow> libinput_tool option" where
  "lookup_tool t =
     (if current_tool_serial t \<noteq> 0 then
        find (\<lambda>x. current_tool_type t = tool_type x \<and> current_tool_serial t = tool_serial x)
          (libinput_tool_list t)
      else find (\<lambda>x. current_tool_type t = tool_type x) (tool_list t))"

text \<open>
  The invariant behind the button property: the buttons reported pressed and not yet
  released are among the buttons of the previous frame; one that is no longer down in
  the current frame has set \<open>BUTTONS_RELEASED\<close>; out of proximity there is none.
\<close>

definition buttons_inv :: "tablet_dispatch \<Rightarrow> bool" where
  "buttons_inv t =
     (case foldl button_step (Some {}) (emitted t) of
        None \<Rightarrow> False
      | Some pending \<Rightarrow>
          pending \<subseteq> prev_button_state t \<and> pending \<subseteq> {..<KEY_CNT} \<and>
          (pending \<subseteq> button_state t \<or> TABLET_BUTTONS_RELEASED \<in> status t) \<and>
          (if TABLET_TOOL_OUT_OF_PROXIMITY \<in> status t then pending = {} else True))"

text \<open>
  The invariant behind the proximity property, relating the state of the input checker
  to the dispatcher: the three proximity bits of the status follow the input; the serial
  number is the one reported; the tablet has an x axis, which is marked changed while a
  tool enters; and the tool of the open proximity-in, if any, is the tool the dispatcher
  finds in its lists.
\<close>

definition proximity_inv :: "tool_protocol \<Rightarrow> tablet_dispatch \<Rightarrow> bool" where
  "proximity_inv p t =
     (tool_down p = (TABLET_TOOL_OUT_OF_PROXIMITY \<notin> status t) \<and>
      tool_fresh p = (TABLET_TOOL_ENTERING_PROXIMITY \<in> status t) \<and>
      tool_leaving p = (TABLET_TOOL_LEAVING_PROXIMITY \<in> status t) \<and>
      (if tool_fresh p then tool_down p \<and> \<not> tool_leaving p else True) \<and>
      (if tool_leaving p then tool_down p else True) \<and>
      reported_serial p = current_tool_serial t \<and>
      has_event_code t EV_ABS ABS_X \<and>
      (if tool_fresh p then LIBINPUT_TABLET_AXIS_X \<in> changed_axes t else True) \<and>
      (case foldl proximity_step (Some None) (emitted t) of
         None \<Rightarrow> False
       | Some cur \<Rightarrow>
           (if tool_down p \<and> \<not> tool_fresh p
            then cur \<noteq> None \<and> cur = lookup_tool t
            else cur = None)))"

text \<open>
  Where the dispatcher reads an absinfo through a \<^verbatim>\<open>NULL\<close> pointer. For a pen, eraser,
  brush, pencil, airbrush or finger the rotation is read from \<^verbatim>\<open>ABS_Z\<close>, and its bit is
  set at every entry of a tool on a device with both tilt axes; the pressure is read
  whenever the distance changed and is above its minimum. \<open>complete_device\<close>: the device
  has \<^verbatim>\<open>ABS_Z\<close> if it has both tilts, and \<^verbatim>\<open>ABS_PRESSURE\<close> if it has \<^verbatim>\<open>ABS_DISTANCE\<close>.
  \<open>device_events\<close>: every absolute event is of a code the device has (libevdev delivers
  no other). \<open>readable_axis\<close>: the absinfo that \<^verbatim>\<open>tablet_check_notify_axes\<close> reads for
  the axis exists. \<open>crash_inv\<close> and \<open>loop_readable\<close> are the invariants, between events and
  in the loop over the axes, under which no such read fails.
\<close>

definition complete_device :: "(nat \<Rightarrow> nat \<Rightarrow> bool) \<Rightarrow> bool" where
  "complete_device codes =
     ((codes EV_ABS ABS_TILT_X \<and> codes EV_ABS ABS_TILT_Y \<longrightarrow> codes EV_ABS ABS_Z) \<and>
      (codes EV_ABS ABS_DISTANCE \<longrightarrow> codes EV_ABS ABS_PRESSURE))"

definition device_events :: "(nat \<Rightarrow> nat \<Rightarrow> bool) \<Rightarrow> input_event list \<Rightarrow> bool" where
  "device_events codes es =
     list_all (\<lambda>e. ev_type e = EV_ABS \<longrightarrow> codes EV_ABS (ev_code e)) es"

definition readable_axis :: "tablet_dispatch \<Rightarrow> libinput_tablet_axis \<Rightarrow> bool" where
  "readable_axis t a =
     (case axis_to_evcode a of
        Some code \<Rightarrow> has_event_code t EV_ABS code
      | None \<Rightarrow> True)"

definition crash_inv :: "tablet_dispatch \<Rightarrow> bool" where
  "crash_inv t =
     (\<not> aborted t \<and> complete_device (has_event_code t) \<and>
      list_all (\<lambda>a. a \<in> changed_axes t \<longrightarrow> readable_axis t a) all_tablet_axes)"

definition loop_readable :: "axes_loop \<Rightarrow> bool" where
  "loop_readable l =
     list_all
       (\<lambda>a. a \<in> changed_axes (loop_tablet l) \<longrightarrow>
          readable_axis (loop_tablet l) a \<or>
          (a = LIBINPUT_TABLET_AXIS_ROTATION_Z \<and>
           (current_tool_type (loop_tablet l) = LIBINPUT_TOOL_MOUSE \<or>
            current_tool_type (loop_tablet l) = LIBINPUT_TOOL_LENS)))
       all_tablet_axes"

text \<open>
  What is left at the end of a run. \<open>proximity_open\<close>: the posted events end with a
  proximity-in that no proximity-out has closed. \<open>tool_remains\<close>: the input ends with
  a tool in proximity that entered in an earlier frame.
\<close>

definition proximity_open :: "tablet_event list \<Rightarrow> bool" where
  "proximity_open evs =
     (case foldl proximity_step (Some None) evs of
        Some (Some tool) \<Rightarrow> True
      | _ \<Rightarrow> False)"

definition tool_remains :: "input_event list \<Rightarrow> bool" where
  "tool_remains es =
     (case protocol_run
             (Some \<lparr>tool_down = False, tool_fresh = False, tool_leaving = False,
                    reported_serial = 0\<rparr>) es of
        Some p \<Rightarrow> tool_down p \<and> \<not> tool_fresh p
      | None \<Rightarrow> False)"


section \<open>Properties of the halfkey filter\<close>

text \<open>The mirror function in closed form, row by row.\<close>

lemma halfkey_mirror_key_cases: "halfkey_mirror_key k =
  (if 2 \<le> k \<and> k \<le> 11 then 13 - k
   else if 16 \<le> k \<and> k \<le> 25 then 41 - k
   else if 30 \<le> k \<and> k \<le> 39 then 69 - k
   else if 44 \<le> k \<and> k \<le> 53 then 97 - k
   else if k = 14 then 15 else if k = 15 then 14
   else if k = 28 then 58 else if k = 58 then 28 else k)"
proof -
  consider "k < 2" | "2 \<le> k \<and> k \<le> 11" | "11 < k \<and> k < 16" | "16 \<le> k \<and> k \<le> 25"
    | "25 < k \<and> k < 30" | "30 \<le> k \<and> k \<le> 39" | "39 < k \<and> k < 44"
    | "44 \<le> k \<and> k \<le> 53" | "53 < k" by linarith
  then show ?thesis
    by cases (auto simp: halfkey_mirror_key_def keycodes Let_def)
qed

lemma halfkey_mirror_key_involution: "halfkey_mirror_key (halfkey_mirror_key k) = k"
proof -
  consider "k < 2" | "2 \<le> k \<and> k \<le> 11" | "11 < k \<and> k < 16" | "16 \<le> k \<and> k \<le> 25"
    | "25 < k \<and> k < 30" | "30 \<le> k \<and> k \<le> 39" | "39 < k \<and> k < 44"
    | "44 \<le> k \<and> k \<le> 53" | "53 < k" by linarith
  then show ?thesis
    by cases (simp_all add: halfkey_mirror_key_cases)
qed

lemma halfkey_mirror_key_space: "halfkey_mirror_key KEY_SPACE = KEY_SPACE"
  by (simp add: halfkey_mirror_key_cases keycodes)

lemma NLONGS_KEY_CNT: "NLONGS KEY_CNT = 12"
  by (simp add: NLONGS_def KEY_CNT_def LONG_BITS_def)

lemma keymask_zero:
  "replicate (NLONGS KEY_CNT) (0 :: 64 word) = [0, 0, 0, 0, 0, 0, 0, 0, 0, 0, 0, 0]"
  unfolding NLONGS_KEY_CNT by (simp add: numeral_eq_Suc)

lemma filter_key_disabled:
  "evdev_halfkey_filter_key (d\<lparr>enabled := False\<rparr>) t k s
     = (d\<lparr>enabled := False\<rparr>, HALFKEY_PASSTHROUGH)"
  by (simp add: evdev_halfkey_filter_key_def)

lemma halfkey_run_disabled: "halfkey_run (d\<lparr>enabled := False\<rparr>) es = d\<lparr>enabled := False\<rparr>"
proof (induction es)
  case Nil
  show ?case by simp
next
  case (Cons e es)
  obtain t k s where e: "e = (t, k, s)" by (cases e) auto
  show ?case unfolding e by (simp add: filter_key_disabled Cons.IH)
qed

text \<open>
  Claim C3. The transitions of the halfkey state machine. From \<open>SPACE_IDLE\<close>, a space
  press is discarded and the machine moves to \<open>SPACE_PRESSED\<close>. From \<open>SPACE_PRESSED\<close>, a
  space release first injects a \<open>KEY_SPACE\<close> press, then passes through and moves to
  \<open>SPACE_IDLE\<close>; a mirror press yields \<open>INJECTMIRROR\<close> and moves to \<open>SPACE_MODIFIED\<close>. From
  \<open>SPACE_MODIFIED\<close>, a space release is discarded and moves to \<open>SPACE_IDLE\<close>; a mirror
  press and a mirror release both yield \<open>INJECTMIRROR\<close> and stay. Any other key passes
  through in every state, with the state unchanged. The same is stated for the filter as
  a whole, which classifies the key, runs the transition and, on \<open>INJECTMIRROR\<close>, records
  the mirrored key in the key mask and injects it.
\<close>

theorem halfkey_transitions:
  "evdev_halfkey_handle_event (d\<lparr>state := HALFKEY_SPACE_IDLE\<rparr>) t HALFKEY_SPACE_DOWN
     = (d\<lparr>state := HALFKEY_SPACE_PRESSED\<rparr>, HALFKEY_DISCARD) \<and>
   evdev_halfkey_handle_event (d\<lparr>state := HALFKEY_SPACE_PRESSED\<rparr>) t HALFKEY_SPACE_UP
     = (d\<lparr>state := HALFKEY_SPACE_IDLE, notified := notified d @ [(t, KEY_SPACE, True)]\<rparr>,
        HALFKEY_PASSTHROUGH) \<and>
   evdev_halfkey_handle_event (d\<lparr>state := HALFKEY_SPACE_PRESSED\<rparr>) t HALFKEY_MIRROR_DOWN
     = (d\<lparr>state := HALFKEY_SPACE_MODIFIED\<rparr>, HALFKEY_INJECTMIRROR) \<and>
   evdev_halfkey_handle_event (d\<lparr>state := HALFKEY_SPACE_MODIFIED\<rparr>) t HALFKEY_SPACE_UP
     = (d\<lparr>state := HALFKEY_SPACE_IDLE\<rparr>, HALFKEY_DISCARD) \<and>
   evdev_halfkey_handle_event (d\<lparr>state := HALFKEY_SPACE_MODIFIED\<rparr>) t HALFKEY_MIRROR_DOWN
     = (d\<lparr>state := HALFKEY_SPACE_MODIFIED\<rparr>, HALFKEY_INJECTMIRROR) \<and>
   evdev_halfkey_handle_event (d\<lparr>state := HALFKEY_SPACE_MODIFIED\<rparr>) t HALFKEY_MIRROR_UP
     = (d\<lparr>state := HALFKEY_SPACE_MODIFIED\<rparr>, HALFKEY_INJECTMIRROR) \<and>
   evdev_halfkey_handle_event d t HALFKEY_OTHERKEY = (d, HALFKEY_PASSTHROUGH) \<and>
   evdev_halfkey_filter_key (d\<lparr>enabled := True, state := HALFKEY_SPACE_IDLE\<rparr>) t KEY_SPACE
       LIBINPUT_KEY_STATE_PRESSED
     = (d\<lparr>enabled := True, state := HALFKEY_SPACE_PRESSED\<rparr>, HALFKEY_DISCARD) \<and>
   evdev_halfkey_filter_key (d\<lparr>enabled := True, state := HALFKEY_SPACE_PRESSED\<rparr>) t KEY_SPACE
       LIBINPUT_KEY_STATE_RELEASED
     = (d\<lparr>enabled := True, state := HALFKEY_SPACE_IDLE,
          notified := notified d @ [(t, KEY_SPACE, True)]\<rparr>, HALFKEY_PASSTHROUGH) \<and>
   evdev_halfkey_filter_key (d\<lparr>enabled := True, state := HALFKEY_SPACE_MODIFIED\<rparr>) t KEY_SPACE
       LIBINPUT_KEY_STATE_RELEASED
     = (d\<lparr>enabled := True, state := HALFKEY_SPACE_IDLE\<rparr>, HALFKEY_DISCARD) \<and>
   (k \<noteq> KEY_SPACE \<and> halfkey_mirror_key k \<noteq> k \<longrightarrow>
      evdev_halfkey_filter_key (d\<lparr>enabled := True, state := HALFKEY_SPACE_PRESSED\<rparr>) t k
          LIBINPUT_KEY_STATE_PRESSED
        = (d\<lparr>enabled := True, state := HALFKEY_SPACE_MODIFIED,
             keymask := long_set_bit_state (keymask d) (halfkey_mirror_key k) True,
             notified := notified d @ [(t, halfkey_mirror_key k, True)]\<rparr>,
           HALFKEY_INJECTMIRROR) \<and>
      evdev_halfkey_filter_key (d\<lparr>enabled := True, state := HALFKEY_SPACE_MODIFIED\<rparr>) t k s
        = (d\<lparr>enabled := True, state := HALFKEY_SPACE_MODIFIED,
             keymask := long_set_bit_state (keymask d) (halfkey_mirror_key k)
                          (s = LIBINPUT_KEY_STATE_PRESSED),
             notified := notified d @ [(t, halfkey_mirror_key k, s = LIBINPUT_KEY_STATE_PRESSED)]\<rparr>,
           HALFKEY_INJECTMIRROR)) \<and>
   (k' \<noteq> KEY_SPACE \<and> halfkey_mirror_key k' = k' \<longrightarrow>
      evdev_halfkey_filter_key (d\<lparr>enabled := True\<rparr>) t k' s
        = (d\<lparr>enabled := True\<rparr>, HALFKEY_PASSTHROUGH))"
proof -
  have dispatch: "evdev_halfkey_handle_event d t HALFKEY_OTHERKEY = (d, HALFKEY_PASSTHROUGH)"
    by (cases "state d") (simp_all add: evdev_halfkey_handle_event_def)
  have other: "k' \<noteq> KEY_SPACE \<and> halfkey_mirror_key k' = k' \<longrightarrow>
      evdev_halfkey_filter_key (d\<lparr>enabled := True\<rparr>) t k' s
        = (d\<lparr>enabled := True\<rparr>, HALFKEY_PASSTHROUGH)"
    by (cases "state d")
       (simp_all add: evdev_halfkey_filter_key_def evdev_halfkey_handle_event_def)
  have mirr: "k \<noteq> KEY_SPACE \<and> halfkey_mirror_key k \<noteq> k \<longrightarrow>
      evdev_halfkey_filter_key (d\<lparr>enabled := True, state := HALFKEY_SPACE_PRESSED\<rparr>) t k
          LIBINPUT_KEY_STATE_PRESSED
        = (d\<lparr>enabled := True, state := HALFKEY_SPACE_MODIFIED,
             keymask := long_set_bit_state (keymask d) (halfkey_mirror_key k) True,
             notified := notified d @ [(t, halfkey_mirror_key k, True)]\<rparr>,
           HALFKEY_INJECTMIRROR) \<and>
      evdev_halfkey_filter_key (d\<lparr>enabled := True, state := HALFKEY_SPACE_MODIFIED\<rparr>) t k s
        = (d\<lparr>enabled := True, state := HALFKEY_SPACE_MODIFIED,
             keymask := long_set_bit_state (keymask d) (halfkey_mirror_key k)
                          (s = LIBINPUT_KEY_STATE_PRESSED),
             notified := notified d @ [(t, halfkey_mirror_key k, s = LIBINPUT_KEY_STATE_PRESSED)]\<rparr>,
           HALFKEY_INJECTMIRROR)"
    by (cases s)
       (simp_all add: evdev_halfkey_filter_key_def evdev_halfkey_handle_event_def
          evdev_keyboard_notify_key_def halfkey_set_key_down_def Let_def)
  show ?thesis
    using dispatch other mirr
    by (simp add: evdev_halfkey_handle_event_def evdev_keyboard_notify_key_def
        evdev_halfkey_filter_key_def halfkey_mirror_key_space)
qed

theorem halfkey_transitions_witness:
  "KEY_F \<noteq> KEY_SPACE \<and> halfkey_mirror_key KEY_F \<noteq> KEY_F \<and>
   evdev_halfkey_filter_key
       ((evdev_init_halfkey True)\<lparr>enabled := True, state := HALFKEY_SPACE_PRESSED\<rparr>) 7 KEY_F
       LIBINPUT_KEY_STATE_PRESSED
     = ((evdev_init_halfkey True)\<lparr>enabled := True, state := HALFKEY_SPACE_MODIFIED,
          keymask := long_set_bit_state (keymask (evdev_init_halfkey True)) KEY_J True,
          notified := notified (evdev_init_halfkey True) @ [(7, KEY_J, True)]\<rparr>,
        HALFKEY_INJECTMIRROR) \<and>
   KEY_F1 \<noteq> KEY_SPACE \<and> halfkey_mirror_key KEY_F1 = KEY_F1 \<and>
   evdev_halfkey_filter_key ((evdev_init_halfkey True)\<lparr>enabled := True\<rparr>) 7 KEY_F1
       LIBINPUT_KEY_STATE_RELEASED
     = ((evdev_init_halfkey True)\<lparr>enabled := True\<rparr>, HALFKEY_PASSTHROUGH)"
proof -
  have m: "halfkey_mirror_key KEY_F = KEY_J"
    by (simp add: halfkey_mirror_key_cases keycodes)
  have h1: "KEY_F \<noteq> KEY_SPACE \<and> halfkey_mirror_key KEY_F \<noteq> KEY_F"
    by (simp add: halfkey_mirror_key_cases keycodes)
  have h2: "KEY_F1 \<noteq> KEY_SPACE \<and> halfkey_mirror_key KEY_F1 = KEY_F1"
    by (simp add: halfkey_mirror_key_cases keycodes)
  from halfkey_transitions
         [of "evdev_init_halfkey True" 7 KEY_F LIBINPUT_KEY_STATE_RELEASED KEY_F1] h1 h2
  show ?thesis unfolding m by blast
qed

text \<open>
  Claim C4, evaluated on the code. The halfkey feature is enabled as the test suite does
  it; then space is pressed, V is pressed, space is released, V is released. The filter
  injects the press of the mirrored key M and nothing else: no release of M is ever
  injected, and bit \<open>KEY_M\<close> stays set in the key mask although every physical key has
  been released. The test \<^verbatim>\<open>halfkey_test_mirrored_sequence\<close> expects an M release for
  this very sequence.
\<close>

theorem halfkey_stuck_mirror:
  "halfkey_run
     (fst (evdev_halfkey_set (evdev_init_halfkey False) LIBINPUT_CONFIG_HALFKEY_ENABLED))
     [(0, KEY_SPACE, LIBINPUT_KEY_STATE_PRESSED), (1, KEY_V, LIBINPUT_KEY_STATE_PRESSED),
      (2, KEY_SPACE, LIBINPUT_KEY_STATE_RELEASED), (3, KEY_V, LIBINPUT_KEY_STATE_RELEASED)]
   = \<lparr>state = HALFKEY_SPACE_IDLE,
      keymask = [push_bit 50 1, 0, 0, 0, 0, 0, 0, 0, 0, 0, 0, 0],
      enabled = True, want_enabled = True, enabled_default = False,
      notified = [(1, KEY_M, True)]\<rparr>"
  by (simp add: evdev_halfkey_set_def evdev_halfkey_apply_config_def evdev_init_halfkey_def
      LIBINPUT_CONFIG_HALFKEY_ENABLED_def keymask_zero LONG_BITS_def
      evdev_halfkey_filter_key_def evdev_halfkey_handle_event_def halfkey_mirror_key_cases
      keycodes evdev_keyboard_notify_key_def halfkey_set_key_down_def long_set_bit_state_def
      Let_def)

text \<open>
  Claim C5. The mirror table: each key of the four rows \<open>1..0\<close>, \<open>Q..P\<close>, \<open>A..;\<close> and
  \<open>Z../\<close> maps to its reflection \<open>rowstart + (rowstart + 9) - k\<close> (so G and H, A and
  semicolon, Q and P, 1 and 0, Z and slash are swapped); backspace and tab are swapped,
  enter and caps lock are swapped; every other key code, \<open>KEY_SPACE\<close> among them, is
  returned unchanged; and the function is an involution on all key codes.
\<close>

theorem halfkey_mirror_table:
  "(KEY_1 \<le> k1 \<and> k1 \<le> KEY_0 \<longrightarrow> halfkey_mirror_key k1 = KEY_1 + (KEY_1 + 9) - k1) \<and>
   (KEY_Q \<le> k2 \<and> k2 \<le> KEY_P \<longrightarrow> halfkey_mirror_key k2 = KEY_Q + (KEY_Q + 9) - k2) \<and>
   (KEY_A \<le> k3 \<and> k3 \<le> KEY_SEMICOLON \<longrightarrow> halfkey_mirror_key k3 = KEY_A + (KEY_A + 9) - k3) \<and>
   (KEY_Z \<le> k4 \<and> k4 \<le> KEY_SLASH \<longrightarrow> halfkey_mirror_key k4 = KEY_Z + (KEY_Z + 9) - k4) \<and>
   halfkey_mirror_key KEY_G = KEY_H \<and> halfkey_mirror_key KEY_H = KEY_G \<and>
   halfkey_mirror_key KEY_A = KEY_SEMICOLON \<and> halfkey_mirror_key KEY_SEMICOLON = KEY_A \<and>
   halfkey_mirror_key KEY_Q = KEY_P \<and> halfkey_mirror_key KEY_P = KEY_Q \<and>
   halfkey_mirror_key KEY_1 = KEY_0 \<and> halfkey_mirror_key KEY_0 = KEY_1 \<and>
   halfkey_mirror_key KEY_Z = KEY_SLASH \<and> halfkey_mirror_key KEY_SLASH = KEY_Z \<and>
   halfkey_mirror_key KEY_BACKSPACE = KEY_TAB \<and> halfkey_mirror_key KEY_TAB = KEY_BACKSPACE \<and>
   halfkey_mirror_key KEY_ENTER = KEY_CAPSLOCK \<and> halfkey_mirror_key KEY_CAPSLOCK = KEY_ENTER \<and>
   (\<not> (KEY_1 \<le> k5 \<and> k5 \<le> KEY_0) \<and> \<not> (KEY_Q \<le> k5 \<and> k5 \<le> KEY_P) \<and>
    \<not> (KEY_A \<le> k5 \<and> k5 \<le> KEY_SEMICOLON) \<and> \<not> (KEY_Z \<le> k5 \<and> k5 \<le> KEY_SLASH) \<and>
    k5 \<noteq> KEY_BACKSPACE \<and> k5 \<noteq> KEY_TAB \<and> k5 \<noteq> KEY_ENTER \<and> k5 \<noteq> KEY_CAPSLOCK
      \<longrightarrow> halfkey_mirror_key k5 = k5) \<and>
   halfkey_mirror_key KEY_SPACE = KEY_SPACE \<and>
   halfkey_mirror_key (halfkey_mirror_key k) = k"
  by (simp add: halfkey_mirror_key_involution) (simp add: halfkey_mirror_key_cases keycodes)

theorem halfkey_mirror_table_witness:
  "KEY_1 \<le> 5 \<and> 5 \<le> KEY_0 \<and> halfkey_mirror_key 5 = 8 \<and>
   KEY_Q \<le> 16 \<and> 16 \<le> KEY_P \<and> halfkey_mirror_key 16 = 25 \<and>
   KEY_A \<le> 33 \<and> 33 \<le> KEY_SEMICOLON \<and> halfkey_mirror_key 33 = 36 \<and>
   KEY_Z \<le> 53 \<and> 53 \<le> KEY_SLASH \<and> halfkey_mirror_key 53 = 44 \<and>
   halfkey_mirror_key 59 = 59 \<and>
   halfkey_mirror_key (halfkey_mirror_key 47) = 47"
  using halfkey_mirror_table [of 5 16 33 53 59 47] by (simp add: keycodes)

text \<open>
  Claim C9. \<^verbatim>\<open>evdev_halfkey_set\<close> with an argument other than the two enumerators
  returns \<open>INVALID\<close> and leaves the device as it is. With one of the two it records
  \<open>want_enabled\<close> and returns \<open>SUCCESS\<close>; \<open>enabled\<close> takes the wanted value only when every
  word of the key mask is zero, and keeps its value while any key bit is set. Nothing
  else of the device changes.
\<close>

theorem halfkey_set_config:
  "(enable \<noteq> LIBINPUT_CONFIG_HALFKEY_ENABLED \<and> enable \<noteq> LIBINPUT_CONFIG_HALFKEY_DISABLED \<longrightarrow>
      evdev_halfkey_set d enable = (d, LIBINPUT_CONFIG_STATUS_INVALID)) \<and>
   (enable' = LIBINPUT_CONFIG_HALFKEY_ENABLED \<or> enable' = LIBINPUT_CONFIG_HALFKEY_DISABLED \<longrightarrow>
      evdev_halfkey_set d' enable' =
        (d'\<lparr>want_enabled := (enable' = LIBINPUT_CONFIG_HALFKEY_ENABLED),
            enabled := (if list_all (\<lambda>w. w = 0) (keymask d')
                        then enable' = LIBINPUT_CONFIG_HALFKEY_ENABLED else enabled d')\<rparr>,
         LIBINPUT_CONFIG_STATUS_SUCCESS))"
  by (auto simp: evdev_halfkey_set_def evdev_halfkey_apply_config_def
      LIBINPUT_CONFIG_HALFKEY_ENABLED_def LIBINPUT_CONFIG_HALFKEY_DISABLED_def
      list_ex_iff list_all_iff)

theorem halfkey_set_config_witness:
  "3 \<noteq> LIBINPUT_CONFIG_HALFKEY_ENABLED \<and> 3 \<noteq> LIBINPUT_CONFIG_HALFKEY_DISABLED \<and>
   evdev_halfkey_set (evdev_init_halfkey False) 3
     = (evdev_init_halfkey False, LIBINPUT_CONFIG_STATUS_INVALID) \<and>
   (1 = LIBINPUT_CONFIG_HALFKEY_ENABLED \<or> 1 = LIBINPUT_CONFIG_HALFKEY_DISABLED) \<and>
   evdev_halfkey_set ((evdev_init_halfkey False)\<lparr>keymask := [4, 0, 0, 0, 0, 0, 0, 0, 0, 0, 0, 0]\<rparr>) 1
     = ((evdev_init_halfkey False)\<lparr>keymask := [4, 0, 0, 0, 0, 0, 0, 0, 0, 0, 0, 0],
          want_enabled := True, enabled := False\<rparr>, LIBINPUT_CONFIG_STATUS_SUCCESS)"
  using halfkey_set_config [of 3 "evdev_init_halfkey False" 1
      "(evdev_init_halfkey False)\<lparr>keymask := [4, 0, 0, 0, 0, 0, 0, 0, 0, 0, 0, 0]\<rparr>"]
  by (simp add: LIBINPUT_CONFIG_HALFKEY_ENABLED_def LIBINPUT_CONFIG_HALFKEY_DISABLED_def
      evdev_init_halfkey_def keymask_zero)

text \<open>
  Claim C10. While the halfkey feature is disabled the filter returns \<open>PASSTHROUGH\<close> for
  every key code, key state and time and leaves the whole halfkey state as it is (state
  field, key mask, nothing injected); hence a whole key sequence leaves it unchanged.
\<close>

theorem halfkey_disabled_identity:
  "evdev_halfkey_filter_key (d\<lparr>enabled := False\<rparr>) t k s
     = (d\<lparr>enabled := False\<rparr>, HALFKEY_PASSTHROUGH) \<and>
   halfkey_run (d\<lparr>enabled := False\<rparr>) es = d\<lparr>enabled := False\<rparr>"
  by (simp add: filter_key_disabled halfkey_run_disabled)

section \<open>Properties of the tablet dispatcher\<close>

lemma guess_wheel_delta_candidates:
  "guess_wheel_delta new old = new - old \<or> guess_wheel_delta new old = new + 360 - old
   \<or> guess_wheel_delta new old = new - (old + 360)"
  by (auto simp: guess_wheel_delta_def Let_def)

lemma guess_wheel_delta_min:
  "\<bar>guess_wheel_delta new old\<bar> \<le> \<bar>new - old\<bar> \<and>
   \<bar>guess_wheel_delta new old\<bar> \<le> \<bar>new + 360 - old\<bar> \<and>
   \<bar>guess_wheel_delta new old\<bar> \<le> \<bar>new - (old + 360)\<bar>"
  unfolding guess_wheel_delta_def Let_def by (simp split: if_splits) linarith

lemma guess_wheel_delta_bound:
  assumes "0 \<le> old" "old < 360" "0 \<le> new" "new < 360"
  shows "\<bar>guess_wheel_delta new old\<bar> \<le> 180"
  using assms guess_wheel_delta_min [of new old] by linarith

lemma guess_ring_delta_candidates:
  "guess_ring_delta new old = new - old \<or> guess_ring_delta new old = new + 1 - old
   \<or> guess_ring_delta new old = new - (old + 1)"
  by (auto simp: guess_ring_delta_def Let_def)

lemma guess_ring_delta_min:
  "\<bar>guess_ring_delta new old\<bar> \<le> \<bar>new - old\<bar> \<and>
   \<bar>guess_ring_delta new old\<bar> \<le> \<bar>new + 1 - old\<bar> \<and>
   \<bar>guess_ring_delta new old\<bar> \<le> \<bar>new - (old + 1)\<bar>"
  unfolding guess_ring_delta_def Let_def by (simp split: if_splits) linarith

lemma guess_ring_delta_bound:
  assumes "0 \<le> old" "old < 1" "0 \<le> new" "new < 1"
  shows "\<bar>guess_ring_delta new old\<bar> \<le> 1 / 2"
  using assms guess_ring_delta_min [of new old] by linarith

text \<open>
  Claim C7. The delta of a wrapping axis is one of the three candidates \<open>new - old\<close>,
  \<open>new + range - old\<close>, \<open>new - (old + range)\<close> and none of the three is smaller in
  magnitude. Hence for readings in \<open>[0, range)\<close> the delta is at most \<open>range / 2\<close> in
  magnitude and \<open>old + delta\<close> differs from \<open>new\<close> by a multiple of the range. This
  holds for \<^verbatim>\<open>guess_wheel_delta\<close> with range 360, which \<^verbatim>\<open>get_delta\<close> uses for the
  rotation axis, and for \<^verbatim>\<open>guess_ring_delta\<close> with range 1, where 0.9 to 0.1 gives
  +0.2.
\<close>

theorem wrapped_axis_delta:
  "(guess_wheel_delta new old = new - old \<or> guess_wheel_delta new old = new + 360 - old
      \<or> guess_wheel_delta new old = new - (old + 360)) \<and>
   \<bar>guess_wheel_delta new old\<bar> \<le> \<bar>new - old\<bar> \<and>
   \<bar>guess_wheel_delta new old\<bar> \<le> \<bar>new + 360 - old\<bar> \<and>
   \<bar>guess_wheel_delta new old\<bar> \<le> \<bar>new - (old + 360)\<bar> \<and>
   (0 \<le> old \<and> old < 360 \<and> 0 \<le> new \<and> new < 360 \<longrightarrow>
      \<bar>guess_wheel_delta new old\<bar> \<le> 360 / 2 \<and>
      (\<exists>k :: int. old + guess_wheel_delta new old = new + 360 * real_of_int k)) \<and>
   get_delta LIBINPUT_TABLET_AXIS_ROTATION_Z new old = Some (guess_wheel_delta new old) \<and>
   (guess_ring_delta b a = b - a \<or> guess_ring_delta b a = b + 1 - a
      \<or> guess_ring_delta b a = b - (a + 1)) \<and>
   \<bar>guess_ring_delta b a\<bar> \<le> \<bar>b - a\<bar> \<and>
   \<bar>guess_ring_delta b a\<bar> \<le> \<bar>b + 1 - a\<bar> \<and>
   \<bar>guess_ring_delta b a\<bar> \<le> \<bar>b - (a + 1)\<bar> \<and>
   (0 \<le> a \<and> a < 1 \<and> 0 \<le> b \<and> b < 1 \<longrightarrow>
      \<bar>guess_ring_delta b a\<bar> \<le> 1 / 2 \<and>
      (\<exists>k :: int. a + guess_ring_delta b a = b + real_of_int k)) \<and>
   guess_ring_delta (1 / 10) (9 / 10) = 2 / 10"
proof -
  have w: "\<exists>k :: int. old + guess_wheel_delta new old = new + 360 * real_of_int k"
  proof -
    from guess_wheel_delta_candidates [of new old]
    consider "guess_wheel_delta new old = new - old"
      | "guess_wheel_delta new old = new + 360 - old"
      | "guess_wheel_delta new old = new - (old + 360)" by blast
    then show ?thesis
    proof cases
      case 1 then show ?thesis by (intro exI [of _ 0]) simp
    next
      case 2 then show ?thesis by (intro exI [of _ 1]) simp
    next
      case 3 then show ?thesis by (intro exI [of _ "- 1"]) simp
    qed
  qed
  have r: "\<exists>k :: int. a + guess_ring_delta b a = b + real_of_int k"
  proof -
    from guess_ring_delta_candidates [of b a]
    consider "guess_ring_delta b a = b - a" | "guess_ring_delta b a = b + 1 - a"
      | "guess_ring_delta b a = b - (a + 1)" by blast
    then show ?thesis
    proof cases
      case 1 then show ?thesis by (intro exI [of _ 0]) simp
    next
      case 2 then show ?thesis by (intro exI [of _ 1]) simp
    next
      case 3 then show ?thesis by (intro exI [of _ "- 1"]) simp
    qed
  qed
  have ex: "guess_ring_delta (1 / 10) (9 / 10) = 2 / 10"
    by (simp add: guess_ring_delta_def Let_def)
  show ?thesis
    using guess_wheel_delta_candidates [of new old] guess_wheel_delta_min [of new old]
      guess_wheel_delta_bound [of old new] w
      guess_ring_delta_candidates [of b a] guess_ring_delta_min [of b a]
      guess_ring_delta_bound [of a b] r ex
    by simp
qed

theorem wrapped_axis_delta_witness:
  "(0::real) \<le> 350 \<and> (350::real) < 360 \<and> (0::real) \<le> 10 \<and> (10::real) < 360 \<and>
   guess_wheel_delta 10 350 = 20 \<and> \<bar>guess_wheel_delta 10 350\<bar> \<le> 360 / 2 \<and>
   350 + guess_wheel_delta 10 350 = 10 + 360 * real_of_int 1 \<and>
   (0::real) \<le> 95 / 100 \<and> (95 / 100 :: real) < 1 \<and> (0::real) \<le> 5 / 100 \<and> (5 / 100 :: real) < 1 \<and>
   guess_ring_delta (5 / 100) (95 / 100) = 1 / 10 \<and>
   \<bar>guess_ring_delta (5 / 100) (95 / 100)\<bar> \<le> 1 / 2"
proof -
  have a: "guess_wheel_delta 10 350 = 20" by (simp add: guess_wheel_delta_def Let_def)
  have b: "guess_ring_delta (5 / 100) (95 / 100) = 1 / 10"
    by (simp add: guess_ring_delta_def Let_def)
  from wrapped_axis_delta [of 10 350 "5 / 100" "95 / 100"]
  have "\<bar>guess_wheel_delta 10 350\<bar> \<le> 360 / 2"
    and "\<bar>guess_ring_delta (5 / 100) (95 / 100)\<bar> \<le> 1 / 2"
    by simp_all
  with a b show ?thesis by simp
qed

text \<open>A read through the absinfo pointer changes nothing but \<open>aborted\<close>.\<close>

lemma deref_abs_info_frame [simp]:
  "status (deref_abs_info t c) = status t"
  "changed_axes (deref_abs_info t c) = changed_axes t"
  "axes (deref_abs_info t c) = axes t"
  "deltas (deref_abs_info t c) = deltas t"
  "axis_caps (deref_abs_info t c) = axis_caps t"
  "button_state (deref_abs_info t c) = button_state t"
  "prev_button_state (deref_abs_info t c) = prev_button_state t"
  "current_tool_type (deref_abs_info t c) = current_tool_type t"
  "current_tool_id (deref_abs_info t c) = current_tool_id t"
  "current_tool_serial (deref_abs_info t c) = current_tool_serial t"
  "tool_list (deref_abs_info t c) = tool_list t"
  "libinput_tool_list (deref_abs_info t c) = libinput_tool_list t"
  "left_handed_enabled (deref_abs_info t c) = left_handed_enabled t"
  "left_handed_want_enabled (deref_abs_info t c) = left_handed_want_enabled t"
  "wheel_click_angle (deref_abs_info t c) = wheel_click_angle t"
  "absinfo (deref_abs_info t c) = absinfo t"
  "has_event_code (deref_abs_info t c) = has_event_code t"
  "emitted (deref_abs_info t c) = emitted t"
  by (simp_all add: deref_abs_info_def split: option.splits)

lemma deref_abs_info_aborted:
  "aborted (deref_abs_info t c) = (aborted t \<or> \<not> has_event_code t EV_ABS c)"
  by (simp add: deref_abs_info_def libevdev_get_abs_info_def)

text \<open>What one round of the axis loop changes and what it leaves alone.\<close>

lemma set_delta_simps [simp]:
  "loop_axes (set_delta l a d) = loop_axes l"
  "axis_update_needed (set_delta l a d) = axis_update_needed l"
  "changed_axes (loop_tablet (set_delta l a d)) = changed_axes (loop_tablet l)"
  "axes (loop_tablet (set_delta l a d)) = axes (loop_tablet l)"
  "status (loop_tablet (set_delta l a d)) = status (loop_tablet l)"
  "current_tool_type (loop_tablet (set_delta l a d)) = current_tool_type (loop_tablet l)"
  "absinfo (loop_tablet (set_delta l a d)) = absinfo (loop_tablet l)"
  "emitted (loop_tablet (set_delta l a d)) = emitted (loop_tablet l)"
  by (simp_all add: set_delta_def split: option.splits)

lemma check_axis_frame [simp]:
  "status (loop_tablet (check_axis a l)) = status (loop_tablet l)"
  "current_tool_type (loop_tablet (check_axis a l)) = current_tool_type (loop_tablet l)"
  "absinfo (loop_tablet (check_axis a l)) = absinfo (loop_tablet l)"
  "emitted (loop_tablet (check_axis a l)) = emitted (loop_tablet l)"
  by (simp_all add: check_axis_def Let_def convert_tilt_to_rotation_def split: option.splits)

lemma check_axis_changed:
  "a \<noteq> LIBINPUT_TABLET_AXIS_ROTATION_Z \<Longrightarrow>
   changed_axes (loop_tablet (check_axis a l)) = changed_axes (loop_tablet l)"
  by (simp add: check_axis_def Let_def split: option.splits)

lemma check_axis_other_axes:
  "a \<noteq> LIBINPUT_TABLET_AXIS_ROTATION_Z \<Longrightarrow> b \<noteq> a \<Longrightarrow>
   axes (loop_tablet (check_axis a l)) b = axes (loop_tablet l) b"
  by (auto simp: check_axis_def Let_def split: option.splits)

lemma check_axis_other_loop_axes:
  "a \<noteq> LIBINPUT_TABLET_AXIS_ROTATION_Z \<Longrightarrow> b \<noteq> a \<Longrightarrow>
   loop_axes (check_axis a l) b = loop_axes l b"
  by (auto simp: check_axis_def Let_def split: option.splits)

lemma check_axis_needed:
  "axis_update_needed (check_axis a l) =
     (axis_update_needed l \<or> a \<in> changed_axes (loop_tablet l))"
  by (simp add: check_axis_def Let_def split: option.splits)

lemma check_axis_tilt_x:
  "axes (loop_tablet (check_axis LIBINPUT_TABLET_AXIS_TILT_X l)) LIBINPUT_TABLET_AXIS_TILT_X =
     (if LIBINPUT_TABLET_AXIS_TILT_X \<in> changed_axes (loop_tablet l)
      then normalize_tilt (absinfo (loop_tablet l) ABS_TILT_X)
      else axes (loop_tablet l) LIBINPUT_TABLET_AXIS_TILT_X)"
  by (simp add: check_axis_def Let_def normalize_axis_def)

lemma check_axis_tilt_y:
  "axes (loop_tablet (check_axis LIBINPUT_TABLET_AXIS_TILT_Y l)) LIBINPUT_TABLET_AXIS_TILT_Y =
     (if LIBINPUT_TABLET_AXIS_TILT_Y \<in> changed_axes (loop_tablet l)
      then normalize_tilt (absinfo (loop_tablet l) ABS_TILT_Y)
      else axes (loop_tablet l) LIBINPUT_TABLET_AXIS_TILT_Y)"
  by (simp add: check_axis_def Let_def normalize_axis_def)

lemma check_axis_rotation:
  assumes "LIBINPUT_TABLET_AXIS_ROTATION_Z \<in> changed_axes (loop_tablet l)"
    and "current_tool_type (loop_tablet l) = LIBINPUT_TOOL_MOUSE \<or>
         current_tool_type (loop_tablet l) = LIBINPUT_TOOL_LENS"
  shows "loop_axes (check_axis LIBINPUT_TABLET_AXIS_ROTATION_Z l) LIBINPUT_TABLET_AXIS_ROTATION_Z
           = tilt_rotation (axes (loop_tablet l) LIBINPUT_TABLET_AXIS_TILT_X)
               (axes (loop_tablet l) LIBINPUT_TABLET_AXIS_TILT_Y)"
    and "loop_axes (check_axis LIBINPUT_TABLET_AXIS_ROTATION_Z l) LIBINPUT_TABLET_AXIS_TILT_X = 0"
    and "loop_axes (check_axis LIBINPUT_TABLET_AXIS_ROTATION_Z l) LIBINPUT_TABLET_AXIS_TILT_Y = 0"
    and "changed_axes (loop_tablet (check_axis LIBINPUT_TABLET_AXIS_ROTATION_Z l))
           = insert LIBINPUT_TABLET_AXIS_ROTATION_Z
               (changed_axes (loop_tablet l) - {LIBINPUT_TABLET_AXIS_TILT_X}
                  - {LIBINPUT_TABLET_AXIS_TILT_Y})"
    and "axes (loop_tablet (check_axis LIBINPUT_TABLET_AXIS_ROTATION_Z l)) LIBINPUT_TABLET_AXIS_ROTATION_Z
           = tilt_rotation (axes (loop_tablet l) LIBINPUT_TABLET_AXIS_TILT_X)
               (axes (loop_tablet l) LIBINPUT_TABLET_AXIS_TILT_Y)"
  using assms
  by (auto simp: check_axis_def Let_def convert_tilt_to_rotation_def tilt_rotation_def
      mult.commute)

lemma sanitize_frame [simp]:
  "status (sanitize_tablet_axes t) = status t"
  "current_tool_type (sanitize_tablet_axes t) = current_tool_type t"
  "absinfo (sanitize_tablet_axes t) = absinfo t"
  "emitted (sanitize_tablet_axes t) = emitted t"
  by (simp_all add: sanitize_tablet_axes_def Let_def)

lemma sanitize_tilt:
  "LIBINPUT_TABLET_AXIS_TILT_X \<in> changed_axes (sanitize_tablet_axes t)
     \<longleftrightarrow> LIBINPUT_TABLET_AXIS_TILT_X \<in> changed_axes t"
  "LIBINPUT_TABLET_AXIS_TILT_Y \<in> changed_axes (sanitize_tablet_axes t)
     \<longleftrightarrow> LIBINPUT_TABLET_AXIS_TILT_Y \<in> changed_axes t"
  "axes (sanitize_tablet_axes t) LIBINPUT_TABLET_AXIS_TILT_X = axes t LIBINPUT_TABLET_AXIS_TILT_X"
  "axes (sanitize_tablet_axes t) LIBINPUT_TABLET_AXIS_TILT_Y = axes t LIBINPUT_TABLET_AXIS_TILT_Y"
  by (simp_all add: sanitize_tablet_axes_def Let_def)

lemma sanitize_rotation:
  "(current_tool_type t = LIBINPUT_TOOL_MOUSE \<or> current_tool_type t = LIBINPUT_TOOL_LENS) \<Longrightarrow>
   (LIBINPUT_TABLET_AXIS_TILT_X \<in> changed_axes t \<or> LIBINPUT_TABLET_AXIS_TILT_Y \<in> changed_axes t) \<Longrightarrow>
   LIBINPUT_TABLET_AXIS_ROTATION_Z \<in> changed_axes (sanitize_tablet_axes t)"
  by (auto simp: sanitize_tablet_axes_def Let_def)

text \<open>
  Claim C6. A mouse or lens tool is in proximity and the changed bit of a tilt axis is
  set when the frame is flushed. Then \<^verbatim>\<open>sanitize_tablet_axes\<close> and
  \<^verbatim>\<open>tablet_check_notify_axes\<close> post exactly one event (a proximity-in or an axis
  event); its rotation-z value is the formula of the specification applied to the
  normalized tilt pair (the fresh value of a tilt axis that changed, the stored one
  otherwise); its tilt-x and tilt-y values are 0 and their changed bits are cleared,
  while the rotation-z bit is set. Tilt 0 and 1 give 355 degrees.
\<close>

theorem tilt_to_rotation:
  assumes "current_tool_type t = LIBINPUT_TOOL_MOUSE \<or> current_tool_type t = LIBINPUT_TOOL_LENS"
    and "LIBINPUT_TABLET_AXIS_TILT_X \<in> changed_axes t \<or> LIBINPUT_TABLET_AXIS_TILT_Y \<in> changed_axes t"
    and "\<not> tablet_has_status t TABLET_TOOL_OUT_OF_PROXIMITY"
    and "\<not> tablet_has_status t TABLET_TOOL_LEAVING_PROXIMITY"
  shows
    "(let tilt_x = (if LIBINPUT_TABLET_AXIS_TILT_X \<in> changed_axes t
                    then normalize_tilt (absinfo t ABS_TILT_X)
                    else axes t LIBINPUT_TABLET_AXIS_TILT_X);
          tilt_y = (if LIBINPUT_TABLET_AXIS_TILT_Y \<in> changed_axes t
                    then normalize_tilt (absinfo t ABS_TILT_Y)
                    else axes t LIBINPUT_TABLET_AXIS_TILT_Y);
          r = tablet_check_notify_axes (sanitize_tablet_axes t) time tool;
          ev = last (emitted r)
      in emitted r = emitted t @ [ev] \<and>
         event_axes ev LIBINPUT_TABLET_AXIS_ROTATION_Z = tilt_rotation tilt_x tilt_y \<and>
         event_axes ev LIBINPUT_TABLET_AXIS_TILT_X = 0 \<and>
         event_axes ev LIBINPUT_TABLET_AXIS_TILT_Y = 0 \<and>
         LIBINPUT_TABLET_AXIS_ROTATION_Z \<in> event_changed_axes ev \<and>
         LIBINPUT_TABLET_AXIS_TILT_X \<notin> event_changed_axes ev \<and>
         LIBINPUT_TABLET_AXIS_TILT_Y \<notin> event_changed_axes ev \<and>
         axes r LIBINPUT_TABLET_AXIS_ROTATION_Z = tilt_rotation tilt_x tilt_y) \<and>
     tilt_rotation 0 1 = 355"
proof -
  let ?t1 = "sanitize_tablet_axes t"
  let ?l0 = "\<lparr>loop_tablet = ?t1, loop_axes = (\<lambda>a. 0), loop_deltas = (\<lambda>a. 0),
              loop_deltas_discrete = (\<lambda>a. 0), axis_update_needed = False\<rparr>"
  let ?l6 = "check_axis LIBINPUT_TABLET_AXIS_TILT_Y
              (check_axis LIBINPUT_TABLET_AXIS_TILT_X
                (check_axis LIBINPUT_TABLET_AXIS_PRESSURE
                  (check_axis LIBINPUT_TABLET_AXIS_DISTANCE
                    (check_axis LIBINPUT_TABLET_AXIS_Y
                      (check_axis LIBINPUT_TABLET_AXIS_X ?l0)))))"
  let ?l7 = "check_axis LIBINPUT_TABLET_AXIS_ROTATION_Z ?l6"
  let ?l9 = "check_axis LIBINPUT_TABLET_AXIS_REL_WHEEL
              (check_axis LIBINPUT_TABLET_AXIS_SLIDER ?l7)"
  let ?x = "if LIBINPUT_TABLET_AXIS_TILT_X \<in> changed_axes t
            then normalize_tilt (absinfo t ABS_TILT_X) else axes t LIBINPUT_TABLET_AXIS_TILT_X"
  let ?y = "if LIBINPUT_TABLET_AXIS_TILT_Y \<in> changed_axes t
            then normalize_tilt (absinfo t ABS_TILT_Y) else axes t LIBINPUT_TABLET_AXIS_TILT_Y"
  have fold9: "fold check_axis all_tablet_axes ?l0 = ?l9"
    by (simp add: all_tablet_axes_def)
  have ch6: "changed_axes (loop_tablet ?l6) = changed_axes ?t1"
    by (simp add: check_axis_changed)
  have tool6: "current_tool_type (loop_tablet ?l6) = current_tool_type t"
    by simp
  have x6: "axes (loop_tablet ?l6) LIBINPUT_TABLET_AXIS_TILT_X = ?x"
    by (simp add: check_axis_other_axes check_axis_tilt_x check_axis_changed sanitize_tilt)
  have y6: "axes (loop_tablet ?l6) LIBINPUT_TABLET_AXIS_TILT_Y = ?y"
    by (simp add: check_axis_other_axes check_axis_tilt_y check_axis_changed sanitize_tilt)
  have rz6: "LIBINPUT_TABLET_AXIS_ROTATION_Z \<in> changed_axes (loop_tablet ?l6)"
    unfolding ch6 using assms(1,2) by (rule sanitize_rotation)
  have m6: "current_tool_type (loop_tablet ?l6) = LIBINPUT_TOOL_MOUSE \<or>
            current_tool_type (loop_tablet ?l6) = LIBINPUT_TOOL_LENS"
    unfolding tool6 by (rule assms(1))
  note rot = check_axis_rotation [OF rz6 m6, unfolded x6 y6]
  have ch9: "changed_axes (loop_tablet ?l9) =
      insert LIBINPUT_TABLET_AXIS_ROTATION_Z
        (changed_axes (loop_tablet ?l6) - {LIBINPUT_TABLET_AXIS_TILT_X} - {LIBINPUT_TABLET_AXIS_TILT_Y})"
    by (simp add: check_axis_changed rot(4))
  have ax9: "loop_axes ?l9 LIBINPUT_TABLET_AXIS_ROTATION_Z = tilt_rotation ?x ?y"
    "loop_axes ?l9 LIBINPUT_TABLET_AXIS_TILT_X = 0"
    "loop_axes ?l9 LIBINPUT_TABLET_AXIS_TILT_Y = 0"
    by (simp_all add: check_axis_other_loop_axes rot(1,2,3))
  have tax9: "axes (loop_tablet ?l9) LIBINPUT_TABLET_AXIS_ROTATION_Z = tilt_rotation ?x ?y"
    by (simp add: check_axis_other_axes rot(5))
  have need9: "axis_update_needed ?l9"
    using rz6 by (simp add: check_axis_needed)
  have st9: "status (loop_tablet ?l9) = status t" "emitted (loop_tablet ?l9) = emitted t"
    by simp_all
  have ex: "tilt_rotation 0 1 = 355"
    by (simp add: tilt_rotation_def atan2_def fmod_def trunc_toward_zero_def)
  show ?thesis
    using assms(3,4) need9 ax9 tax9 ex
    unfolding tablet_check_notify_axes_def fold9 Let_def
    by (simp add: tablet_has_status_def st9 ch9 tablet_notify_proximity_def
        tablet_notify_axis_def)
qed

text \<open>The definitions to unfold when the dispatcher runs on concrete events.\<close>

lemmas tablet_eval =
  evdev_process_events_def evdev_process_event_def libevdev_update_def tablet_process_def
  tablet_process_absolute_def tablet_process_key_def tablet_process_relative_def
  tablet_process_misc_def tablet_update_tool_def tablet_update_button_def
  tablet_evcode_to_tool_def evcode_to_axis_def rel_evcode_to_axis_def
  tablet_mark_all_axes_changed_def mark_axis_changed_def tablet_device_has_axis_def
  all_tablet_axes_def tablet_set_status_def tablet_unset_status_def tablet_has_status_def
  key_event_def abs_event_def msc_event_def syn_event_def evcodes

lemmas example_eval =
  example_tablet_def example_codes_def example_absinfo_def evdev_tablet_create_def
  tablet_init_def init_axis_cap_def Let_def

lemma mouse_tilt_fields:
  "status mouse_tilt_tablet = {TABLET_TOOL_ENTERING_PROXIMITY, TABLET_AXES_UPDATED}"
  "changed_axes mouse_tilt_tablet =
     {LIBINPUT_TABLET_AXIS_X, LIBINPUT_TABLET_AXIS_Y, LIBINPUT_TABLET_AXIS_DISTANCE,
      LIBINPUT_TABLET_AXIS_PRESSURE, LIBINPUT_TABLET_AXIS_TILT_X, LIBINPUT_TABLET_AXIS_TILT_Y,
      LIBINPUT_TABLET_AXIS_ROTATION_Z}"
  "current_tool_type mouse_tilt_tablet = LIBINPUT_TOOL_MOUSE"
  "emitted mouse_tilt_tablet = []"
  "absinfo mouse_tilt_tablet ABS_TILT_X = \<lparr>abs_value = 64, abs_minimum = 0, abs_maximum = 128\<rparr>"
  "absinfo mouse_tilt_tablet ABS_TILT_Y = \<lparr>abs_value = 128, abs_minimum = 0, abs_maximum = 128\<rparr>"
  by (auto simp: mouse_tilt_tablet_def example_eval tablet_eval cong: let_weak_cong)

lemma mouse_tilt_not_aborted:
  "\<not> aborted mouse_tilt_tablet"
  "\<not> aborted (tablet_check_notify_axes (sanitize_tablet_axes mouse_tilt_tablet) 0
      \<lparr>tool_type = LIBINPUT_TOOL_MOUSE, tool_serial = 0, tool_id = 0\<rparr>)"
  by (simp_all add: mouse_tilt_tablet_def example_eval tablet_eval sanitize_tablet_axes_def
      tablet_check_notify_axes_def check_axis_def set_delta_def convert_tilt_to_rotation_def
      tablet_notify_proximity_def tablet_notify_axis_def deref_abs_info_def
      libevdev_get_abs_info_def insert_commute cong: let_weak_cong)

theorem tilt_to_rotation_witness:
  "(current_tool_type mouse_tilt_tablet = LIBINPUT_TOOL_MOUSE \<or>
    current_tool_type mouse_tilt_tablet = LIBINPUT_TOOL_LENS) \<and>
   (LIBINPUT_TABLET_AXIS_TILT_X \<in> changed_axes mouse_tilt_tablet \<or>
    LIBINPUT_TABLET_AXIS_TILT_Y \<in> changed_axes mouse_tilt_tablet) \<and>
   \<not> tablet_has_status mouse_tilt_tablet TABLET_TOOL_OUT_OF_PROXIMITY \<and>
   \<not> tablet_has_status mouse_tilt_tablet TABLET_TOOL_LEAVING_PROXIMITY \<and>
   normalize_tilt (absinfo mouse_tilt_tablet ABS_TILT_X) = 0 \<and>
   normalize_tilt (absinfo mouse_tilt_tablet ABS_TILT_Y) = 1 \<and>
   \<not> aborted mouse_tilt_tablet \<and>
   \<not> aborted (tablet_check_notify_axes (sanitize_tablet_axes mouse_tilt_tablet) 0
      \<lparr>tool_type = LIBINPUT_TOOL_MOUSE, tool_serial = 0, tool_id = 0\<rparr>) \<and>
   (let r = tablet_check_notify_axes (sanitize_tablet_axes mouse_tilt_tablet) 0
              \<lparr>tool_type = LIBINPUT_TOOL_MOUSE, tool_serial = 0, tool_id = 0\<rparr>;
        ev = last (emitted r)
    in emitted r = [ev] \<and>
       event_axes ev LIBINPUT_TABLET_AXIS_ROTATION_Z = 355 \<and>
       event_axes ev LIBINPUT_TABLET_AXIS_TILT_X = 0 \<and>
       event_axes ev LIBINPUT_TABLET_AXIS_TILT_Y = 0 \<and>
       LIBINPUT_TABLET_AXIS_ROTATION_Z \<in> event_changed_axes ev \<and>
       LIBINPUT_TABLET_AXIS_TILT_X \<notin> event_changed_axes ev \<and>
       LIBINPUT_TABLET_AXIS_TILT_Y \<notin> event_changed_axes ev)"
proof -
  have h1: "current_tool_type mouse_tilt_tablet = LIBINPUT_TOOL_MOUSE \<or>
            current_tool_type mouse_tilt_tablet = LIBINPUT_TOOL_LENS"
    by (simp add: mouse_tilt_fields)
  have h2: "LIBINPUT_TABLET_AXIS_TILT_X \<in> changed_axes mouse_tilt_tablet \<or>
            LIBINPUT_TABLET_AXIS_TILT_Y \<in> changed_axes mouse_tilt_tablet"
    by (simp add: mouse_tilt_fields)
  have h3: "\<not> tablet_has_status mouse_tilt_tablet TABLET_TOOL_OUT_OF_PROXIMITY"
    by (simp add: tablet_has_status_def mouse_tilt_fields)
  have h4: "\<not> tablet_has_status mouse_tilt_tablet TABLET_TOOL_LEAVING_PROXIMITY"
    by (simp add: tablet_has_status_def mouse_tilt_fields)
  have x: "normalize_tilt \<lparr>abs_value = 64, abs_minimum = 0, abs_maximum = 128\<rparr> = 0"
    by (simp add: normalize_tilt_def)
  have y: "normalize_tilt \<lparr>abs_value = 128, abs_minimum = 0, abs_maximum = 128\<rparr> = 1"
    by (simp add: normalize_tilt_def)
  from tilt_to_rotation [OF h1 h2 h3 h4, of 0
      "\<lparr>tool_type = LIBINPUT_TOOL_MOUSE, tool_serial = 0, tool_id = 0\<rparr>"]
  show ?thesis
    using h1 h2 h3 h4 mouse_tilt_not_aborted by (simp add: Let_def mouse_tilt_fields x y)
qed

text \<open>The loop over the button bits posts one button event for each bit set, in
  ascending order.\<close>

lemma fold_notify_button_bit:
  "fold (notify_button_bit time tool S bs) xs t =
     t\<lparr>emitted := emitted t @ map (\<lambda>i. Button_Event time tool (axes t) i bs)
                                 (filter (\<lambda>i. i \<in> S) xs)\<rparr>"
proof (induction xs arbitrary: t)
  case Nil
  show ?case by simp
next
  case (Cons x xs)
  let ?t = "notify_button_bit time tool S bs x t"
  have "fold (notify_button_bit time tool S bs) (x # xs) t
          = fold (notify_button_bit time tool S bs) xs ?t"
    by simp
  also have "\<dots> = ?t\<lparr>emitted := emitted ?t @ map (\<lambda>i. Button_Event time tool (axes ?t) i bs)
                                             (filter (\<lambda>i. i \<in> S) xs)\<rparr>"
    by (rule Cons.IH)
  also have "\<dots> = t\<lparr>emitted := emitted t @ map (\<lambda>i. Button_Event time tool (axes t) i bs)
                                           (filter (\<lambda>i. i \<in> S) (x # xs))\<rparr>"
    by (cases "x \<in> S") (simp_all add: notify_button_bit_def tablet_notify_button_def)
  finally show ?case .
qed

lemma tablet_notify_button_mask_eq:
  "tablet_notify_button_mask t time tool S n bs =
     t\<lparr>emitted := emitted t @ map (\<lambda>i. Button_Event time tool (axes t) i bs)
                                 (filter (\<lambda>i. i \<in> S) [0..<n])\<rparr>"
  by (simp add: tablet_notify_button_mask_def fold_notify_button_bit)

lemma filter_eq_upt: "filter (\<lambda>i. i = c) [0..<n] = (if c < n then [c] else [])"
  by (induction n) auto

lemmas flush_eval =
  tablet_flush_def tablet_reset_state_def tablet_get_tool_def sanitize_tablet_axes_def
  tablet_check_notify_axes_def check_axis_def set_delta_def normalize_axis_def
  normalize_pressure_dist_slider_def normalize_tilt_def invert_axis_def
  convert_tilt_to_rotation_def convert_to_degrees_def normalize_wheel_def
  tablet_notify_proximity_def tablet_notify_axis_def tablet_notify_buttons_def
  tablet_notify_button_mask_eq tablet_get_pressed_buttons_def tablet_get_released_buttons_def
  tablet_change_to_left_handed_def KEY_CNT_def filter_eq_upt
  deref_abs_info_def libevdev_get_abs_info_def

text \<open>
  Claim C2, evaluated on the code, on the example tablet (which has every axis the
  dispatcher reads for a pen, \<^verbatim>\<open>ABS_Z\<close> included, so that the run reads nothing through
  \<^verbatim>\<open>NULL\<close>: \<open>aborted\<close> stays unset). A pen enters with pressure 50 of 100 and touches; in
  the second frame it lifts (\<^verbatim>\<open>BTN_TOUCH\<close> 0) with pressure 30; in the third frame,
  still not in contact, the pressure is 20. The five events posted are the
  proximity-in, the press of \<^verbatim>\<open>BTN_TOUCH\<close>, an axis event, the release of
  \<^verbatim>\<open>BTN_TOUCH\<close> and a second axis event; below, the changed axes and the pressure of
  each. Out of contact, the pressure posted is 0.3 and then 0.2, never 0, and it is
  posted again in the third frame: \<^verbatim>\<open>sanitize_tablet_axes\<close> stores 0 and leaves the
  changed bit set, so \<^verbatim>\<open>tablet_check_notify_axes\<close> overwrites the 0 with the
  normalized raw value before posting.
\<close>

theorem pressure_not_clamped:
  "map (\<lambda>ev. (event_changed_axes ev, event_axes ev LIBINPUT_TABLET_AXIS_PRESSURE))
     (emitted (evdev_process_events example_tablet hover_pressure_events))
   = [({LIBINPUT_TABLET_AXIS_X, LIBINPUT_TABLET_AXIS_Y, LIBINPUT_TABLET_AXIS_DISTANCE,
        LIBINPUT_TABLET_AXIS_PRESSURE, LIBINPUT_TABLET_AXIS_TILT_X,
        LIBINPUT_TABLET_AXIS_TILT_Y, LIBINPUT_TABLET_AXIS_ROTATION_Z}, 1 / 2),
      ({}, 1 / 2),
      ({LIBINPUT_TABLET_AXIS_PRESSURE}, 3 / 10),
      ({}, 3 / 10),
      ({LIBINPUT_TABLET_AXIS_PRESSURE}, 2 / 10)] \<and>
   \<not> aborted (evdev_process_events example_tablet hover_pressure_events)"
  by (simp add: hover_pressure_events_def example_eval tablet_eval flush_eval insert_commute
      cong: let_weak_cong)

text \<open>What the parts of the flush leave alone.\<close>

lemma set_delta_frame [simp]:
  "left_handed_enabled (loop_tablet (set_delta l a d)) = left_handed_enabled (loop_tablet l)"
  "left_handed_want_enabled (loop_tablet (set_delta l a d)) = left_handed_want_enabled (loop_tablet l)"
  "button_state (loop_tablet (set_delta l a d)) = button_state (loop_tablet l)"
  "prev_button_state (loop_tablet (set_delta l a d)) = prev_button_state (loop_tablet l)"
  "current_tool_serial (loop_tablet (set_delta l a d)) = current_tool_serial (loop_tablet l)"
  "current_tool_id (loop_tablet (set_delta l a d)) = current_tool_id (loop_tablet l)"
  "tool_list (loop_tablet (set_delta l a d)) = tool_list (loop_tablet l)"
  "libinput_tool_list (loop_tablet (set_delta l a d)) = libinput_tool_list (loop_tablet l)"
  "has_event_code (loop_tablet (set_delta l a d)) = has_event_code (loop_tablet l)"
  by (simp_all add: set_delta_def split: option.splits)

lemma check_axis_frame2 [simp]:
  "left_handed_enabled (loop_tablet (check_axis a l)) = left_handed_enabled (loop_tablet l)"
  "left_handed_want_enabled (loop_tablet (check_axis a l)) = left_handed_want_enabled (loop_tablet l)"
  "button_state (loop_tablet (check_axis a l)) = button_state (loop_tablet l)"
  "prev_button_state (loop_tablet (check_axis a l)) = prev_button_state (loop_tablet l)"
  "current_tool_serial (loop_tablet (check_axis a l)) = current_tool_serial (loop_tablet l)"
  "current_tool_id (loop_tablet (check_axis a l)) = current_tool_id (loop_tablet l)"
  "tool_list (loop_tablet (check_axis a l)) = tool_list (loop_tablet l)"
  "libinput_tool_list (loop_tablet (check_axis a l)) = libinput_tool_list (loop_tablet l)"
  "has_event_code (loop_tablet (check_axis a l)) = has_event_code (loop_tablet l)"
  by (simp_all add: check_axis_def Let_def convert_tilt_to_rotation_def split: option.splits)

lemma fold_check_axis_frame [simp]:
  "status (loop_tablet (fold check_axis xs l)) = status (loop_tablet l)"
  "current_tool_type (loop_tablet (fold check_axis xs l)) = current_tool_type (loop_tablet l)"
  "emitted (loop_tablet (fold check_axis xs l)) = emitted (loop_tablet l)"
  "left_handed_enabled (loop_tablet (fold check_axis xs l)) = left_handed_enabled (loop_tablet l)"
  "left_handed_want_enabled (loop_tablet (fold check_axis xs l)) = left_handed_want_enabled (loop_tablet l)"
  "button_state (loop_tablet (fold check_axis xs l)) = button_state (loop_tablet l)"
  "prev_button_state (loop_tablet (fold check_axis xs l)) = prev_button_state (loop_tablet l)"
  "current_tool_serial (loop_tablet (fold check_axis xs l)) = current_tool_serial (loop_tablet l)"
  "current_tool_id (loop_tablet (fold check_axis xs l)) = current_tool_id (loop_tablet l)"
  "tool_list (loop_tablet (fold check_axis xs l)) = tool_list (loop_tablet l)"
  "libinput_tool_list (loop_tablet (fold check_axis xs l)) = libinput_tool_list (loop_tablet l)"
  "has_event_code (loop_tablet (fold check_axis xs l)) = has_event_code (loop_tablet l)"
  by (induction xs arbitrary: l; simp)+

lemma fold_check_axis_needed:
  "axis_update_needed l \<Longrightarrow> axis_update_needed (fold check_axis xs l)"
  by (induction xs arbitrary: l) (simp_all add: check_axis_needed)

lemma sanitize_frame2 [simp]:
  "left_handed_enabled (sanitize_tablet_axes t) = left_handed_enabled t"
  "left_handed_want_enabled (sanitize_tablet_axes t) = left_handed_want_enabled t"
  "button_state (sanitize_tablet_axes t) = button_state t"
  "prev_button_state (sanitize_tablet_axes t) = prev_button_state t"
  "current_tool_serial (sanitize_tablet_axes t) = current_tool_serial t"
  "current_tool_id (sanitize_tablet_axes t) = current_tool_id t"
  "tool_list (sanitize_tablet_axes t) = tool_list t"
  "libinput_tool_list (sanitize_tablet_axes t) = libinput_tool_list t"
  "has_event_code (sanitize_tablet_axes t) = has_event_code t"
  by (simp_all add: sanitize_tablet_axes_def Let_def)

lemma check_notify_axes_frame [simp]:
  "status (tablet_check_notify_axes t time tool) = status t"
  "current_tool_type (tablet_check_notify_axes t time tool) = current_tool_type t"
  "left_handed_enabled (tablet_check_notify_axes t time tool) = left_handed_enabled t"
  "left_handed_want_enabled (tablet_check_notify_axes t time tool) = left_handed_want_enabled t"
  "button_state (tablet_check_notify_axes t time tool) = button_state t"
  "prev_button_state (tablet_check_notify_axes t time tool) = prev_button_state t"
  "current_tool_serial (tablet_check_notify_axes t time tool) = current_tool_serial t"
  "current_tool_id (tablet_check_notify_axes t time tool) = current_tool_id t"
  "tool_list (tablet_check_notify_axes t time tool) = tool_list t"
  "libinput_tool_list (tablet_check_notify_axes t time tool) = libinput_tool_list t"
  "has_event_code (tablet_check_notify_axes t time tool) = has_event_code t"
  "changed_axes (tablet_check_notify_axes t time tool) = {}"
  by (simp_all add: tablet_check_notify_axes_def Let_def tablet_has_status_def
      tablet_notify_proximity_def tablet_notify_axis_def)

lemma check_notify_axes_emitted:
  "emitted (tablet_check_notify_axes t time tool) = emitted t @ axes_events t time tool"
  by (simp add: tablet_check_notify_axes_def axes_events_def Let_def tablet_has_status_def
      tablet_notify_proximity_def tablet_notify_axis_def)

lemma get_tool_frame [simp]:
  "status (fst (tablet_get_tool t ty tid ser)) = status t"
  "changed_axes (fst (tablet_get_tool t ty tid ser)) = changed_axes t"
  "axes (fst (tablet_get_tool t ty tid ser)) = axes t"
  "current_tool_type (fst (tablet_get_tool t ty tid ser)) = current_tool_type t"
  "current_tool_serial (fst (tablet_get_tool t ty tid ser)) = current_tool_serial t"
  "current_tool_id (fst (tablet_get_tool t ty tid ser)) = current_tool_id t"
  "left_handed_enabled (fst (tablet_get_tool t ty tid ser)) = left_handed_enabled t"
  "left_handed_want_enabled (fst (tablet_get_tool t ty tid ser)) = left_handed_want_enabled t"
  "button_state (fst (tablet_get_tool t ty tid ser)) = button_state t"
  "prev_button_state (fst (tablet_get_tool t ty tid ser)) = prev_button_state t"
  "has_event_code (fst (tablet_get_tool t ty tid ser)) = has_event_code t"
  "absinfo (fst (tablet_get_tool t ty tid ser)) = absinfo t"
  "emitted (fst (tablet_get_tool t ty tid ser)) = emitted t"
  by (simp_all add: tablet_get_tool_def Let_def split: option.splits)

lemma flush_tablet_frame [simp]:
  "status (flush_tablet t) = status t"
  "changed_axes (flush_tablet t) = changed_axes t"
  "axes (flush_tablet t) = axes t"
  "current_tool_type (flush_tablet t) = current_tool_type t"
  "current_tool_serial (flush_tablet t) = current_tool_serial t"
  "current_tool_id (flush_tablet t) = current_tool_id t"
  "left_handed_enabled (flush_tablet t) = left_handed_enabled t"
  "left_handed_want_enabled (flush_tablet t) = left_handed_want_enabled t"
  "button_state (flush_tablet t) = button_state t"
  "prev_button_state (flush_tablet t) = prev_button_state t"
  "has_event_code (flush_tablet t) = has_event_code t"
  "absinfo (flush_tablet t) = absinfo t"
  "emitted (flush_tablet t) = emitted t"
  by (simp_all add: flush_tablet_def)

lemma tablet_notify_buttons_eq:
  "tablet_notify_buttons t time tool bs =
     t\<lparr>emitted := emitted t @ button_events time tool (axes t)
          (if bs = LIBINPUT_BUTTON_STATE_PRESSED then button_state t - prev_button_state t
           else prev_button_state t - button_state t) bs\<rparr>"
  by (simp add: tablet_notify_buttons_def tablet_notify_button_mask_eq button_events_def
      tablet_get_pressed_buttons_def tablet_get_released_buttons_def Let_def)

lemma flush_axes_phase_frame [simp]:
  "status (flush_axes_phase t time) =
     status t - {TABLET_TOOL_ENTERING_PROXIMITY} - {TABLET_AXES_UPDATED}"
  "current_tool_type (flush_axes_phase t time) = current_tool_type t"
  "current_tool_serial (flush_axes_phase t time) = current_tool_serial t"
  "current_tool_id (flush_axes_phase t time) = current_tool_id t"
  "left_handed_enabled (flush_axes_phase t time) = left_handed_enabled t"
  "left_handed_want_enabled (flush_axes_phase t time) = left_handed_want_enabled t"
  "button_state (flush_axes_phase t time) = button_state t"
  "prev_button_state (flush_axes_phase t time) = prev_button_state t"
  "has_event_code (flush_axes_phase t time) = has_event_code t"
  "tool_list (flush_axes_phase t time) = tool_list (flush_tablet t)"
  "libinput_tool_list (flush_axes_phase t time) = libinput_tool_list (flush_tablet t)"
  by (auto simp: flush_axes_phase_def tablet_unset_status_def)

lemma flush_axes_phase_emitted:
  "emitted (flush_axes_phase t time) =
     emitted t @
     (if TABLET_AXES_UPDATED \<in> status t \<or> TABLET_TOOL_ENTERING_PROXIMITY \<in> status t
      then axes_events (sanitize_tablet_axes (flush_tablet t)) time (flush_tool t) else [])"
  by (simp add: flush_axes_phase_def tablet_unset_status_def check_notify_axes_emitted)

lemma tablet_flush_unfold:
  "tablet_flush t time =
     (if TABLET_TOOL_OUT_OF_PROXIMITY \<in> status t then flush_tablet t
      else if TABLET_TOOL_LEAVING_PROXIMITY \<in> status t then
        tablet_change_to_left_handed
          (tablet_unset_status
             (tablet_set_status
                (tablet_notify_proximity
                   ((flush_buttons_phase
                       (tablet_set_status ((flush_tablet t)\<lparr>button_state := {}\<rparr>)
                          TABLET_BUTTONS_RELEASED) time (flush_tool t))\<lparr>changed_axes := {}\<rparr>)
                   time (flush_tool t) LIBINPUT_TOOL_PROXIMITY_OUT {}
                   (axes (flush_buttons_phase
                       (tablet_set_status ((flush_tablet t)\<lparr>button_state := {}\<rparr>)
                          TABLET_BUTTONS_RELEASED) time (flush_tool t))))
                TABLET_TOOL_OUT_OF_PROXIMITY)
             TABLET_TOOL_LEAVING_PROXIMITY)
      else flush_buttons_phase (flush_axes_phase t time) time (flush_tool t))"
proof -
  have eq: "tablet_get_tool t (current_tool_type t) (current_tool_id t) (current_tool_serial t)
              = (flush_tablet t, flush_tool t)"
    by (simp add: flush_tablet_def flush_tool_def)
  show ?thesis
    unfolding tablet_flush_def eq flush_buttons_phase_def flush_axes_phase_def
    by (simp add: Let_def tablet_has_status_def tablet_set_status_def tablet_unset_status_def
        tablet_notify_buttons_eq tablet_notify_proximity_def)
qed

lemma flush_buttons_phase_frame [simp]:
  "status (flush_buttons_phase x time tool)
     = status x - {TABLET_BUTTONS_RELEASED} - {TABLET_BUTTONS_PRESSED}"
  "current_tool_type (flush_buttons_phase x time tool) = current_tool_type x"
  "current_tool_serial (flush_buttons_phase x time tool) = current_tool_serial x"
  "current_tool_id (flush_buttons_phase x time tool) = current_tool_id x"
  "left_handed_enabled (flush_buttons_phase x time tool) = left_handed_enabled x"
  "left_handed_want_enabled (flush_buttons_phase x time tool) = left_handed_want_enabled x"
  "button_state (flush_buttons_phase x time tool) = button_state x"
  "prev_button_state (flush_buttons_phase x time tool) = prev_button_state x"
  "has_event_code (flush_buttons_phase x time tool) = has_event_code x"
  "tool_list (flush_buttons_phase x time tool) = tool_list x"
  "libinput_tool_list (flush_buttons_phase x time tool) = libinput_tool_list x"
  "axes (flush_buttons_phase x time tool) = axes x"
  "changed_axes (flush_buttons_phase x time tool) = changed_axes x"
  by (auto simp: flush_buttons_phase_def Let_def tablet_has_status_def tablet_unset_status_def
      tablet_notify_buttons_eq)

lemma flush_buttons_phase_emitted:
  "emitted (flush_buttons_phase x time tool) =
     emitted x @
     (if TABLET_BUTTONS_RELEASED \<in> status x
      then button_events time tool (axes x) (prev_button_state x - button_state x)
             LIBINPUT_BUTTON_STATE_RELEASED else []) @
     (if TABLET_BUTTONS_PRESSED \<in> status x
      then button_events time tool (axes x) (button_state x - prev_button_state x)
             LIBINPUT_BUTTON_STATE_PRESSED else [])"
  by (simp add: flush_buttons_phase_def Let_def tablet_has_status_def tablet_unset_status_def
      tablet_notify_buttons_eq)

text \<open>The flush, field by field, when the tool leaves proximity.\<close>

lemma tablet_flush_leaving:
  assumes "TABLET_TOOL_OUT_OF_PROXIMITY \<notin> status t" "TABLET_TOOL_LEAVING_PROXIMITY \<in> status t"
  shows "status (tablet_flush t time) =
           insert TABLET_TOOL_OUT_OF_PROXIMITY
             (status t - {TABLET_BUTTONS_RELEASED} - {TABLET_BUTTONS_PRESSED}
                - {TABLET_TOOL_LEAVING_PROXIMITY})"
    and "emitted (tablet_flush t time) =
           emitted t @
           button_events (time) (flush_tool t) (axes t) (prev_button_state t)
             LIBINPUT_BUTTON_STATE_RELEASED @
           [Proximity_Event time (flush_tool t) LIBINPUT_TOOL_PROXIMITY_OUT {} (axes t)]"
    and "left_handed_enabled (tablet_flush t time) = left_handed_want_enabled t"
    and "left_handed_want_enabled (tablet_flush t time) = left_handed_want_enabled t"
    and "button_state (tablet_flush t time) = {}"
    and "prev_button_state (tablet_flush t time) = prev_button_state t"
    and "current_tool_type (tablet_flush t time) = current_tool_type t"
    and "current_tool_serial (tablet_flush t time) = current_tool_serial t"
    and "has_event_code (tablet_flush t time) = has_event_code t"
    and "tool_list (tablet_flush t time) = tool_list (flush_tablet t)"
    and "libinput_tool_list (tablet_flush t time) = libinput_tool_list (flush_tablet t)"
  using assms
  by (auto simp: tablet_flush_unfold tablet_change_to_left_handed_def tablet_has_status_def
      tablet_set_status_def tablet_unset_status_def tablet_notify_proximity_def
      flush_buttons_phase_emitted button_events_def)

lemma tablet_flush_in:
  assumes "TABLET_TOOL_OUT_OF_PROXIMITY \<notin> status t" "TABLET_TOOL_LEAVING_PROXIMITY \<notin> status t"
  shows "status (tablet_flush t time) =
           status t - {TABLET_TOOL_ENTERING_PROXIMITY} - {TABLET_AXES_UPDATED}
             - {TABLET_BUTTONS_RELEASED} - {TABLET_BUTTONS_PRESSED}"
    and "emitted (tablet_flush t time) =
           emitted t @
           (if TABLET_AXES_UPDATED \<in> status t \<or> TABLET_TOOL_ENTERING_PROXIMITY \<in> status t
            then axes_events (sanitize_tablet_axes (flush_tablet t)) time (flush_tool t) else []) @
           (if TABLET_BUTTONS_RELEASED \<in> status t
            then button_events time (flush_tool t) (axes (flush_axes_phase t time))
                   (prev_button_state t - button_state t) LIBINPUT_BUTTON_STATE_RELEASED
            else []) @
           (if TABLET_BUTTONS_PRESSED \<in> status t
            then button_events time (flush_tool t) (axes (flush_axes_phase t time))
                   (button_state t - prev_button_state t) LIBINPUT_BUTTON_STATE_PRESSED
            else [])"
    and "left_handed_enabled (tablet_flush t time) = left_handed_enabled t"
    and "left_handed_want_enabled (tablet_flush t time) = left_handed_want_enabled t"
    and "button_state (tablet_flush t time) = button_state t"
    and "prev_button_state (tablet_flush t time) = prev_button_state t"
    and "current_tool_type (tablet_flush t time) = current_tool_type t"
    and "current_tool_serial (tablet_flush t time) = current_tool_serial t"
    and "has_event_code (tablet_flush t time) = has_event_code t"
    and "tool_list (tablet_flush t time) = tool_list (flush_tablet t)"
    and "libinput_tool_list (tablet_flush t time) = libinput_tool_list (flush_tablet t)"
  using assms
  by (auto simp: tablet_flush_unfold flush_buttons_phase_emitted flush_axes_phase_emitted)

text \<open>What the handlers of single events leave alone.\<close>

lemma fold_mark_axis_changed_frame [simp]:
  "status (fold mark_axis_changed xs t) = status t"
  "current_tool_type (fold mark_axis_changed xs t) = current_tool_type t"
  "current_tool_serial (fold mark_axis_changed xs t) = current_tool_serial t"
  "current_tool_id (fold mark_axis_changed xs t) = current_tool_id t"
  "left_handed_enabled (fold mark_axis_changed xs t) = left_handed_enabled t"
  "left_handed_want_enabled (fold mark_axis_changed xs t) = left_handed_want_enabled t"
  "button_state (fold mark_axis_changed xs t) = button_state t"
  "prev_button_state (fold mark_axis_changed xs t) = prev_button_state t"
  "has_event_code (fold mark_axis_changed xs t) = has_event_code t"
  "tool_list (fold mark_axis_changed xs t) = tool_list t"
  "libinput_tool_list (fold mark_axis_changed xs t) = libinput_tool_list t"
  "emitted (fold mark_axis_changed xs t) = emitted t"
  by (induction xs arbitrary: t; simp add: mark_axis_changed_def tablet_device_has_axis_def)+

lemma mark_all_axes_changed_frame [simp]:
  "status (tablet_mark_all_axes_changed t) = insert TABLET_AXES_UPDATED (status t)"
  "current_tool_type (tablet_mark_all_axes_changed t) = current_tool_type t"
  "current_tool_serial (tablet_mark_all_axes_changed t) = current_tool_serial t"
  "current_tool_id (tablet_mark_all_axes_changed t) = current_tool_id t"
  "left_handed_enabled (tablet_mark_all_axes_changed t) = left_handed_enabled t"
  "left_handed_want_enabled (tablet_mark_all_axes_changed t) = left_handed_want_enabled t"
  "button_state (tablet_mark_all_axes_changed t) = button_state t"
  "prev_button_state (tablet_mark_all_axes_changed t) = prev_button_state t"
  "has_event_code (tablet_mark_all_axes_changed t) = has_event_code t"
  "tool_list (tablet_mark_all_axes_changed t) = tool_list t"
  "libinput_tool_list (tablet_mark_all_axes_changed t) = libinput_tool_list t"
  "emitted (tablet_mark_all_axes_changed t) = emitted t"
  by (simp_all add: tablet_mark_all_axes_changed_def tablet_set_status_def)

lemma libevdev_update_frame [simp]:
  "status (libevdev_update t e) = status t"
  "changed_axes (libevdev_update t e) = changed_axes t"
  "current_tool_type (libevdev_update t e) = current_tool_type t"
  "current_tool_serial (libevdev_update t e) = current_tool_serial t"
  "current_tool_id (libevdev_update t e) = current_tool_id t"
  "left_handed_enabled (libevdev_update t e) = left_handed_enabled t"
  "left_handed_want_enabled (libevdev_update t e) = left_handed_want_enabled t"
  "button_state (libevdev_update t e) = button_state t"
  "prev_button_state (libevdev_update t e) = prev_button_state t"
  "has_event_code (libevdev_update t e) = has_event_code t"
  "tool_list (libevdev_update t e) = tool_list t"
  "libinput_tool_list (libevdev_update t e) = libinput_tool_list t"
  "emitted (libevdev_update t e) = emitted t"
  by (simp_all add: libevdev_update_def)

lemma tablet_update_button_frame [simp]:
  "current_tool_type (tablet_update_button t c v) = current_tool_type t"
  "current_tool_serial (tablet_update_button t c v) = current_tool_serial t"
  "current_tool_id (tablet_update_button t c v) = current_tool_id t"
  "left_handed_enabled (tablet_update_button t c v) = left_handed_enabled t"
  "left_handed_want_enabled (tablet_update_button t c v) = left_handed_want_enabled t"
  "prev_button_state (tablet_update_button t c v) = prev_button_state t"
  "has_event_code (tablet_update_button t c v) = has_event_code t"
  "tool_list (tablet_update_button t c v) = tool_list t"
  "libinput_tool_list (tablet_update_button t c v) = libinput_tool_list t"
  "emitted (tablet_update_button t c v) = emitted t"
  "changed_axes (tablet_update_button t c v) = changed_axes t"
  by (simp_all add: tablet_update_button_def tablet_set_status_def)

lemma tablet_update_tool_frame [simp]:
  "current_tool_serial (tablet_update_tool t tool en) = current_tool_serial t"
  "current_tool_id (tablet_update_tool t tool en) = current_tool_id t"
  "left_handed_enabled (tablet_update_tool t tool en) = left_handed_enabled t"
  "left_handed_want_enabled (tablet_update_tool t tool en) = left_handed_want_enabled t"
  "button_state (tablet_update_tool t tool en) = button_state t"
  "prev_button_state (tablet_update_tool t tool en) = prev_button_state t"
  "has_event_code (tablet_update_tool t tool en) = has_event_code t"
  "tool_list (tablet_update_tool t tool en) = tool_list t"
  "libinput_tool_list (tablet_update_tool t tool en) = libinput_tool_list t"
  "emitted (tablet_update_tool t tool en) = emitted t"
  by (simp_all add: tablet_update_tool_def tablet_set_status_def tablet_unset_status_def)

lemma tablet_process_key_frame [simp]:
  "current_tool_serial (tablet_process_key t e) = current_tool_serial t"
  "current_tool_id (tablet_process_key t e) = current_tool_id t"
  "left_handed_enabled (tablet_process_key t e) = left_handed_enabled t"
  "left_handed_want_enabled (tablet_process_key t e) = left_handed_want_enabled t"
  "prev_button_state (tablet_process_key t e) = prev_button_state t"
  "has_event_code (tablet_process_key t e) = has_event_code t"
  "tool_list (tablet_process_key t e) = tool_list t"
  "libinput_tool_list (tablet_process_key t e) = libinput_tool_list t"
  "emitted (tablet_process_key t e) = emitted t"
  by (simp_all add: tablet_process_key_def tablet_set_status_def tablet_unset_status_def
      split: option.splits)

lemma tablet_process_absolute_frame [simp]:
  "current_tool_type (tablet_process_absolute t e) = current_tool_type t"
  "current_tool_serial (tablet_process_absolute t e) = current_tool_serial t"
  "left_handed_enabled (tablet_process_absolute t e) = left_handed_enabled t"
  "left_handed_want_enabled (tablet_process_absolute t e) = left_handed_want_enabled t"
  "button_state (tablet_process_absolute t e) = button_state t"
  "prev_button_state (tablet_process_absolute t e) = prev_button_state t"
  "has_event_code (tablet_process_absolute t e) = has_event_code t"
  "tool_list (tablet_process_absolute t e) = tool_list t"
  "libinput_tool_list (tablet_process_absolute t e) = libinput_tool_list t"
  "emitted (tablet_process_absolute t e) = emitted t"
  by (simp_all add: tablet_process_absolute_def tablet_set_status_def split: option.splits)

lemma tablet_process_relative_frame [simp]:
  "current_tool_type (tablet_process_relative t e) = current_tool_type t"
  "current_tool_serial (tablet_process_relative t e) = current_tool_serial t"
  "current_tool_id (tablet_process_relative t e) = current_tool_id t"
  "left_handed_enabled (tablet_process_relative t e) = left_handed_enabled t"
  "left_handed_want_enabled (tablet_process_relative t e) = left_handed_want_enabled t"
  "button_state (tablet_process_relative t e) = button_state t"
  "prev_button_state (tablet_process_relative t e) = prev_button_state t"
  "has_event_code (tablet_process_relative t e) = has_event_code t"
  "tool_list (tablet_process_relative t e) = tool_list t"
  "libinput_tool_list (tablet_process_relative t e) = libinput_tool_list t"
  "emitted (tablet_process_relative t e) = emitted t"
  by (simp_all add: tablet_process_relative_def tablet_set_status_def split: option.splits)

lemma tablet_process_misc_frame [simp]:
  "status (tablet_process_misc t e) = status t"
  "changed_axes (tablet_process_misc t e) = changed_axes t"
  "current_tool_type (tablet_process_misc t e) = current_tool_type t"
  "current_tool_id (tablet_process_misc t e) = current_tool_id t"
  "left_handed_enabled (tablet_process_misc t e) = left_handed_enabled t"
  "left_handed_want_enabled (tablet_process_misc t e) = left_handed_want_enabled t"
  "button_state (tablet_process_misc t e) = button_state t"
  "prev_button_state (tablet_process_misc t e) = prev_button_state t"
  "has_event_code (tablet_process_misc t e) = has_event_code t"
  "tool_list (tablet_process_misc t e) = tool_list t"
  "libinput_tool_list (tablet_process_misc t e) = libinput_tool_list t"
  "emitted (tablet_process_misc t e) = emitted t"
  by (simp_all add: tablet_process_misc_def)

lemma tablet_flush_out:
  "TABLET_TOOL_OUT_OF_PROXIMITY \<in> status t \<Longrightarrow> tablet_flush t time = flush_tablet t"
  by (simp add: tablet_flush_unfold)

lemma tablet_flush_left_handed:
  "left_handed_enabled (tablet_flush t time) =
     (if TABLET_TOOL_OUT_OF_PROXIMITY \<notin> status t \<and> TABLET_TOOL_LEAVING_PROXIMITY \<in> status t
      then left_handed_want_enabled t else left_handed_enabled t)"
  "left_handed_want_enabled (tablet_flush t time) = left_handed_want_enabled t"
  by (cases "TABLET_TOOL_OUT_OF_PROXIMITY \<in> status t";
      cases "TABLET_TOOL_LEAVING_PROXIMITY \<in> status t";
      simp add: tablet_flush_out tablet_flush_leaving tablet_flush_in)+

lemma tablet_process_left_handed:
  "left_handed_enabled (tablet_process t e time) =
     (if ev_type e = EV_SYN \<and> TABLET_TOOL_OUT_OF_PROXIMITY \<notin> status t \<and>
         TABLET_TOOL_LEAVING_PROXIMITY \<in> status t
      then left_handed_want_enabled t else left_handed_enabled t)"
  by (simp add: tablet_process_def tablet_reset_state_def tablet_flush_left_handed evcodes)

lemma proximity_events_append:
  "proximity_events (xs @ ys) = proximity_events xs @ proximity_events ys"
  by (induction xs rule: proximity_events.induct) simp_all

lemma proximity_events_map_button [simp]:
  "proximity_events (map (\<lambda>i. Button_Event time tool ax i bs) xs) = []"
  by (induction xs) simp_all

lemma proximity_events_button_events [simp]:
  "proximity_events (button_events time tool ax S bs) = []"
  by (simp add: button_events_def)

text \<open>
  Claim C8. A step of the dispatcher is the processing of one event or a call of
  \<^verbatim>\<open>tablet_change_to_left_handed\<close> (what a configuration request does after
  storing the wanted value). If a step changes the left-handed flag, the tablet is out
  of proximity after it, and the flag has taken the wanted value. An event changes the
  flag only as the end of a frame (\<^verbatim>\<open>SYN\<close>) in which the tool leaves; that frame posts
  the proximity-out, takes the wanted value and ends out of proximity. A configuration
  request while a tool is in proximity leaves the flag as it is.
\<close>

theorem left_handed_deferred:
  "(left_handed_enabled (evdev_process_event t et) \<noteq> left_handed_enabled t \<longrightarrow>
      ev_type (fst et) = EV_SYN \<and>
      \<not> tablet_has_status t TABLET_TOOL_OUT_OF_PROXIMITY \<and>
      tablet_has_status t TABLET_TOOL_LEAVING_PROXIMITY \<and>
      tablet_has_status (evdev_process_event t et) TABLET_TOOL_OUT_OF_PROXIMITY \<and>
      left_handed_enabled (evdev_process_event t et) = left_handed_want_enabled t) \<and>
   (left_handed_enabled (tablet_change_to_left_handed t) \<noteq> left_handed_enabled t \<longrightarrow>
      tablet_has_status (tablet_change_to_left_handed t) TABLET_TOOL_OUT_OF_PROXIMITY \<and>
      left_handed_enabled (tablet_change_to_left_handed t) = left_handed_want_enabled t) \<and>
   (\<not> tablet_has_status t TABLET_TOOL_OUT_OF_PROXIMITY \<longrightarrow>
      tablet_change_to_left_handed t = t) \<and>
   (ev_type (fst et') = EV_SYN \<and>
    \<not> tablet_has_status t' TABLET_TOOL_OUT_OF_PROXIMITY \<and>
    tablet_has_status t' TABLET_TOOL_LEAVING_PROXIMITY \<longrightarrow>
      proximity_events (emitted (evdev_process_event t' et'))
        = proximity_events (emitted t') @ [(flush_tool t', LIBINPUT_TOOL_PROXIMITY_OUT)] \<and>
      left_handed_enabled (evdev_process_event t' et') = left_handed_want_enabled t' \<and>
      tablet_has_status (evdev_process_event t' et') TABLET_TOOL_OUT_OF_PROXIMITY)"
proof -
  have syn: "ev_type e = EV_SYN \<Longrightarrow> TABLET_TOOL_OUT_OF_PROXIMITY \<notin> status x \<Longrightarrow>
      TABLET_TOOL_LEAVING_PROXIMITY \<in> status x \<Longrightarrow>
      proximity_events (emitted (evdev_process_event x (e, tm)))
        = proximity_events (emitted x) @ [(flush_tool x, LIBINPUT_TOOL_PROXIMITY_OUT)] \<and>
      left_handed_enabled (evdev_process_event x (e, tm)) = left_handed_want_enabled x \<and>
      TABLET_TOOL_OUT_OF_PROXIMITY \<in> status (evdev_process_event x (e, tm))" for e x tm
    by (simp add: evdev_process_event_def tablet_process_def tablet_reset_state_def evcodes
        libevdev_update_def tablet_flush_leaving proximity_events_append)
  have a: "left_handed_enabled (evdev_process_event t et) \<noteq> left_handed_enabled t \<longrightarrow>
      ev_type (fst et) = EV_SYN \<and>
      TABLET_TOOL_OUT_OF_PROXIMITY \<notin> status t \<and>
      TABLET_TOOL_LEAVING_PROXIMITY \<in> status t \<and>
      TABLET_TOOL_OUT_OF_PROXIMITY \<in> status (evdev_process_event t et) \<and>
      left_handed_enabled (evdev_process_event t et) = left_handed_want_enabled t"
  proof
    assume ch: "left_handed_enabled (evdev_process_event t et) \<noteq> left_handed_enabled t"
    then have c: "ev_type (fst et) = EV_SYN \<and> TABLET_TOOL_OUT_OF_PROXIMITY \<notin> status t \<and>
        TABLET_TOOL_LEAVING_PROXIMITY \<in> status t"
      by (simp add: evdev_process_event_def tablet_process_left_handed split: if_splits)
    with syn [of "fst et" t "snd et"] show "ev_type (fst et) = EV_SYN \<and>
      TABLET_TOOL_OUT_OF_PROXIMITY \<notin> status t \<and>
      TABLET_TOOL_LEAVING_PROXIMITY \<in> status t \<and>
      TABLET_TOOL_OUT_OF_PROXIMITY \<in> status (evdev_process_event t et) \<and>
      left_handed_enabled (evdev_process_event t et) = left_handed_want_enabled t"
      by simp
  qed
  have b: "left_handed_enabled (tablet_change_to_left_handed t) \<noteq> left_handed_enabled t \<longrightarrow>
      TABLET_TOOL_OUT_OF_PROXIMITY \<in> status (tablet_change_to_left_handed t) \<and>
      left_handed_enabled (tablet_change_to_left_handed t) = left_handed_want_enabled t"
    by (simp add: tablet_change_to_left_handed_def tablet_has_status_def)
  have c: "TABLET_TOOL_OUT_OF_PROXIMITY \<notin> status t \<longrightarrow> tablet_change_to_left_handed t = t"
    by (simp add: tablet_change_to_left_handed_def tablet_has_status_def)
  show ?thesis
    using a b c syn [of "fst et'" t' "snd et'"] by (simp add: tablet_has_status_def)
qed

lemma left_handed_pending_fields:
  "status left_handed_pending_tablet = {TABLET_TOOL_LEAVING_PROXIMITY}"
  "left_handed_enabled left_handed_pending_tablet = False"
  "left_handed_want_enabled left_handed_pending_tablet = True"
  "proximity_events (emitted left_handed_pending_tablet)
     = [(\<lparr>tool_type = LIBINPUT_TOOL_PEN, tool_serial = 0, tool_id = 0\<rparr>,
         LIBINPUT_TOOL_PROXIMITY_IN)]"
  "flush_tool left_handed_pending_tablet
     = \<lparr>tool_type = LIBINPUT_TOOL_PEN, tool_serial = 0, tool_id = 0\<rparr>"
  "\<not> aborted left_handed_pending_tablet"
  "\<not> aborted (evdev_process_event left_handed_pending_tablet (syn_event, 2))"
  by (simp_all add: left_handed_pending_tablet_def example_eval tablet_eval flush_eval
      flush_tool_def insert_commute insert_Diff_if cong: let_weak_cong)

theorem left_handed_deferred_witness:
  "\<not> aborted left_handed_pending_tablet \<and>
   \<not> aborted (evdev_process_event left_handed_pending_tablet (syn_event, 2)) \<and>
   left_handed_enabled (evdev_process_event left_handed_pending_tablet (syn_event, 2))
     \<noteq> left_handed_enabled left_handed_pending_tablet \<and>
   ev_type (fst (syn_event, 2 :: 64 word)) = EV_SYN \<and>
   \<not> tablet_has_status left_handed_pending_tablet TABLET_TOOL_OUT_OF_PROXIMITY \<and>
   tablet_has_status left_handed_pending_tablet TABLET_TOOL_LEAVING_PROXIMITY \<and>
   tablet_has_status (evdev_process_event left_handed_pending_tablet (syn_event, 2))
     TABLET_TOOL_OUT_OF_PROXIMITY \<and>
   left_handed_enabled (evdev_process_event left_handed_pending_tablet (syn_event, 2)) = True \<and>
   proximity_events (emitted (evdev_process_event left_handed_pending_tablet (syn_event, 2)))
     = [(\<lparr>tool_type = LIBINPUT_TOOL_PEN, tool_serial = 0, tool_id = 0\<rparr>,
         LIBINPUT_TOOL_PROXIMITY_IN),
        (\<lparr>tool_type = LIBINPUT_TOOL_PEN, tool_serial = 0, tool_id = 0\<rparr>,
         LIBINPUT_TOOL_PROXIMITY_OUT)] \<and>
   left_handed_enabled
     (tablet_change_to_left_handed
        ((evdev_process_event left_handed_pending_tablet (syn_event, 2))
         \<lparr>left_handed_want_enabled := False\<rparr>))
     \<noteq> left_handed_enabled (evdev_process_event left_handed_pending_tablet (syn_event, 2))"
proof -
  have h: "ev_type (fst (syn_event, 2 :: 64 word)) = EV_SYN \<and>
      \<not> tablet_has_status left_handed_pending_tablet TABLET_TOOL_OUT_OF_PROXIMITY \<and>
      tablet_has_status left_handed_pending_tablet TABLET_TOOL_LEAVING_PROXIMITY"
    by (simp add: syn_event_def tablet_has_status_def left_handed_pending_fields)
  from left_handed_deferred
         [where t = left_handed_pending_tablet and et = "(syn_event, 2)"
            and t' = left_handed_pending_tablet and et' = "(syn_event, 2)"] h
  have r: "proximity_events (emitted (evdev_process_event left_handed_pending_tablet (syn_event, 2)))
        = proximity_events (emitted left_handed_pending_tablet)
            @ [(flush_tool left_handed_pending_tablet, LIBINPUT_TOOL_PROXIMITY_OUT)] \<and>
      left_handed_enabled (evdev_process_event left_handed_pending_tablet (syn_event, 2))
        = left_handed_want_enabled left_handed_pending_tablet \<and>
      tablet_has_status (evdev_process_event left_handed_pending_tablet (syn_event, 2))
        TABLET_TOOL_OUT_OF_PROXIMITY"
    by blast
  then show ?thesis
    using h
    by (simp add: left_handed_pending_fields tablet_change_to_left_handed_def
        tablet_has_status_def)
qed

section \<open>Proximity and buttons along a run\<close>

text \<open>The button checker along the events of a flush.\<close>

lemma button_step_map_released:
  "foldl button_step (Some P) (map (\<lambda>i. Button_Event time tool ax i LIBINPUT_BUTTON_STATE_RELEASED) xs)
     = Some (P - set xs)"
  by (induction xs arbitrary: P) auto

lemma button_step_map_pressed:
  "foldl button_step (Some P) (map (\<lambda>i. Button_Event time tool ax i LIBINPUT_BUTTON_STATE_PRESSED) xs)
     = Some (P \<union> set xs)"
  by (induction xs arbitrary: P) auto

lemma button_step_button_events:
  "foldl button_step (Some P) (button_events time tool ax S LIBINPUT_BUTTON_STATE_RELEASED)
     = Some (P - (S \<inter> {..<KEY_CNT}))"
  "foldl button_step (Some P) (button_events time tool ax S LIBINPUT_BUTTON_STATE_PRESSED)
     = Some (P \<union> (S \<inter> {..<KEY_CNT}))"
  by (auto simp: button_events_def button_step_map_released button_step_map_pressed)

lemma button_step_axes_events:
  "foldl button_step (Some P) (axes_events t time tool) = Some P"
  by (simp add: axes_events_def Let_def)

lemma tablet_update_button_status:
  "s \<noteq> TABLET_BUTTONS_PRESSED \<Longrightarrow> s \<noteq> TABLET_BUTTONS_RELEASED \<Longrightarrow>
     (s \<in> status (tablet_update_button t c v)) = (s \<in> status t)"
  "TABLET_BUTTONS_RELEASED \<in> status t \<Longrightarrow>
     TABLET_BUTTONS_RELEASED \<in> status (tablet_update_button t c v)"
  "button_state t \<subseteq> button_state (tablet_update_button t c v) \<or>
     TABLET_BUTTONS_RELEASED \<in> status (tablet_update_button t c v)"
  by (simp_all add: tablet_update_button_def tablet_set_status_def subset_insertI)

lemma tablet_update_tool_status:
  "status (tablet_update_tool t tool en) =
     (if tool = LIBINPUT_TOOL_NONE then status t
      else if en then
        insert TABLET_TOOL_ENTERING_PROXIMITY (insert TABLET_AXES_UPDATED (status t))
          - {TABLET_TOOL_OUT_OF_PROXIMITY}
      else if TABLET_TOOL_OUT_OF_PROXIMITY \<notin> status t
      then insert TABLET_TOOL_LEAVING_PROXIMITY (status t)
      else status t)"
  by (simp add: tablet_update_tool_def tablet_set_status_def tablet_unset_status_def
      tablet_has_status_def)

lemma tablet_process_key_tool:
  "is_tool_button (ev_code e) \<Longrightarrow>
     the (tablet_evcode_to_tool (ev_code e)) \<noteq> LIBINPUT_TOOL_NONE \<and>
     tablet_process_key t e =
       tablet_update_tool t (the (tablet_evcode_to_tool (ev_code e))) (ev_value e \<noteq> 0)"
  unfolding is_tool_button_def tablet_process_key_def tablet_evcode_to_tool_def
  by (elim disjE) (simp_all add: evcodes)

lemma tablet_process_key_button:
  "\<not> is_tool_button (ev_code e) \<Longrightarrow>
     tablet_process_key t e =
       tablet_update_button
         (if ev_code e = BTN_TOUCH
          then (if ev_value e \<noteq> 0 then tablet_set_status t TABLET_STYLUS_IN_CONTACT
                else tablet_unset_status t TABLET_STYLUS_IN_CONTACT)
          else t)
         (ev_code e) (ev_value e)"
  unfolding is_tool_button_def tablet_process_key_def
  by simp

lemma tablet_process_key_buttons:
  "TABLET_TOOL_OUT_OF_PROXIMITY \<in> status (tablet_process_key t e) \<Longrightarrow>
     TABLET_TOOL_OUT_OF_PROXIMITY \<in> status t"
  "TABLET_BUTTONS_RELEASED \<in> status t \<Longrightarrow> TABLET_BUTTONS_RELEASED \<in> status (tablet_process_key t e)"
  "button_state t \<subseteq> button_state (tablet_process_key t e) \<or>
     TABLET_BUTTONS_RELEASED \<in> status (tablet_process_key t e)"
proof -
  have "(TABLET_TOOL_OUT_OF_PROXIMITY \<in> status (tablet_process_key t e) \<longrightarrow>
           TABLET_TOOL_OUT_OF_PROXIMITY \<in> status t) \<and>
        (TABLET_BUTTONS_RELEASED \<in> status t \<longrightarrow>
           TABLET_BUTTONS_RELEASED \<in> status (tablet_process_key t e)) \<and>
        (button_state t \<subseteq> button_state (tablet_process_key t e) \<or>
           TABLET_BUTTONS_RELEASED \<in> status (tablet_process_key t e))"
  proof (cases "is_tool_button (ev_code e)")
    case True
    from tablet_process_key_tool [OF True, of t] show ?thesis
      by (simp add: tablet_update_tool_status)
  next
    case False
    define u where "u = (if ev_code e = BTN_TOUCH
          then (if ev_value e \<noteq> 0 then tablet_set_status t TABLET_STYLUS_IN_CONTACT
                else tablet_unset_status t TABLET_STYLUS_IN_CONTACT)
          else t)"
    have k: "tablet_process_key t e = tablet_update_button u (ev_code e) (ev_value e)"
      unfolding u_def by (rule tablet_process_key_button [OF False])
    have su: "(TABLET_TOOL_OUT_OF_PROXIMITY \<in> status u) = (TABLET_TOOL_OUT_OF_PROXIMITY \<in> status t)"
      "(TABLET_BUTTONS_RELEASED \<in> status u) = (TABLET_BUTTONS_RELEASED \<in> status t)"
      "button_state u = button_state t"
      by (simp_all add: u_def tablet_set_status_def tablet_unset_status_def)
    show ?thesis
      unfolding k
      using tablet_update_button_status(2,3) [of u "ev_code e" "ev_value e"] su
      by (simp add: tablet_update_button_status(1))
  qed
  then show
    "TABLET_TOOL_OUT_OF_PROXIMITY \<in> status (tablet_process_key t e) \<Longrightarrow>
       TABLET_TOOL_OUT_OF_PROXIMITY \<in> status t"
    "TABLET_BUTTONS_RELEASED \<in> status t \<Longrightarrow> TABLET_BUTTONS_RELEASED \<in> status (tablet_process_key t e)"
    "button_state t \<subseteq> button_state (tablet_process_key t e) \<or>
       TABLET_BUTTONS_RELEASED \<in> status (tablet_process_key t e)"
    by blast+
qed

lemma status_process_absolute:
  "s \<noteq> TABLET_AXES_UPDATED \<Longrightarrow>
     (s \<in> status (tablet_process_absolute t e)) = (s \<in> status t)"
  by (auto simp: tablet_process_absolute_def tablet_set_status_def split: option.splits)

lemma status_process_relative:
  "s \<noteq> TABLET_AXES_UPDATED \<Longrightarrow>
     (s \<in> status (tablet_process_relative t e)) = (s \<in> status t)"
  by (auto simp: tablet_process_relative_def tablet_set_status_def split: option.splits)

lemma buttons_inv_cong:
  "emitted u = emitted t \<Longrightarrow> prev_button_state u = prev_button_state t \<Longrightarrow>
   button_state u = button_state t \<Longrightarrow>
   (TABLET_BUTTONS_RELEASED \<in> status u) = (TABLET_BUTTONS_RELEASED \<in> status t) \<Longrightarrow>
   (TABLET_TOOL_OUT_OF_PROXIMITY \<in> status u) = (TABLET_TOOL_OUT_OF_PROXIMITY \<in> status t) \<Longrightarrow>
   buttons_inv u = buttons_inv t"
  by (simp add: buttons_inv_def split: option.splits)

lemma buttons_inv_flush:
  assumes inv: "buttons_inv t"
  shows "buttons_inv (tablet_reset_state (tablet_flush t time))"
proof -
  from inv obtain P where P: "foldl button_step (Some {}) (emitted t) = Some P"
    and prev: "P \<subseteq> prev_button_state t" and cnt: "P \<subseteq> {..<KEY_CNT}"
    and rel: "P \<subseteq> button_state t \<or> TABLET_BUTTONS_RELEASED \<in> status t"
    and out: "TABLET_TOOL_OUT_OF_PROXIMITY \<in> status t \<Longrightarrow> P = {}"
    by (auto simp: buttons_inv_def split: option.splits if_splits)
  show ?thesis
  proof (cases "TABLET_TOOL_OUT_OF_PROXIMITY \<in> status t")
    case True
    with P out show ?thesis
      by (simp add: buttons_inv_def tablet_flush_out tablet_reset_state_def)
  next
    case nout: False
    show ?thesis
    proof (cases "TABLET_TOOL_LEAVING_PROXIMITY \<in> status t")
      case True
      have "P - prev_button_state t \<inter> {..<KEY_CNT} = {}"
        using prev cnt by auto
      then show ?thesis
        using P
        by (simp add: buttons_inv_def tablet_reset_state_def tablet_flush_leaving [OF nout True]
            button_step_button_events)
    next
      case False
      note fl = tablet_flush_in [OF nout False, of time]
      let ?R = "if TABLET_BUTTONS_RELEASED \<in> status t
                then P - (prev_button_state t - button_state t) \<inter> {..<KEY_CNT} else P"
      let ?Q = "if TABLET_BUTTONS_PRESSED \<in> status t
                then ?R \<union> (button_state t - prev_button_state t) \<inter> {..<KEY_CNT} else ?R"
      have run: "foldl button_step (Some {}) (emitted (tablet_flush t time)) = Some ?Q"
        using P by (simp add: fl(2) button_step_axes_events button_step_button_events)
      have R: "?R \<subseteq> button_state t" "?R \<subseteq> {..<KEY_CNT}"
        using prev cnt rel by (auto split: if_splits)
      then have Q: "?Q \<subseteq> button_state t" "?Q \<subseteq> {..<KEY_CNT}"
        by (auto split: if_splits)
      show ?thesis
        using run Q nout
        by (simp add: buttons_inv_def tablet_reset_state_def fl(1,5))
    qed
  qed
qed

lemma buttons_inv_step:
  assumes inv: "buttons_inv t"
  shows "buttons_inv (evdev_process_event t et)"
proof -
  obtain e time where et: "et = (e, time)" by (cases et)
  let ?u = "libevdev_update t e"
  have u: "buttons_inv ?u"
    using inv by (simp add: buttons_inv_cong [of ?u t])
  consider "ev_type e = EV_ABS" | "ev_type e \<noteq> EV_ABS" "ev_type e = EV_REL"
    | "ev_type e \<noteq> EV_ABS" "ev_type e \<noteq> EV_REL" "ev_type e = EV_KEY"
    | "ev_type e \<noteq> EV_ABS" "ev_type e \<noteq> EV_REL" "ev_type e \<noteq> EV_KEY" "ev_type e = EV_MSC"
    | "ev_type e \<noteq> EV_ABS" "ev_type e \<noteq> EV_REL" "ev_type e \<noteq> EV_KEY" "ev_type e \<noteq> EV_MSC"
      "ev_type e = EV_SYN"
    | "ev_type e \<noteq> EV_ABS" "ev_type e \<noteq> EV_REL" "ev_type e \<noteq> EV_KEY" "ev_type e \<noteq> EV_MSC"
      "ev_type e \<noteq> EV_SYN"
    by blast
  then show ?thesis
  proof cases
    case 1
    then show ?thesis
      using u by (simp add: et evdev_process_event_def tablet_process_def
          buttons_inv_cong [of "tablet_process_absolute ?u e" ?u] status_process_absolute)
  next
    case 2
    then show ?thesis
      using u by (simp add: et evdev_process_event_def tablet_process_def
          buttons_inv_cong [of "tablet_process_relative ?u e" ?u] status_process_relative)
  next
    case 3
    from u obtain P where P: "foldl button_step (Some {}) (emitted ?u) = Some P"
      and prev: "P \<subseteq> prev_button_state ?u" and cnt: "P \<subseteq> {..<KEY_CNT}"
      and rel: "P \<subseteq> button_state ?u \<or> TABLET_BUTTONS_RELEASED \<in> status ?u"
      and out: "TABLET_TOOL_OUT_OF_PROXIMITY \<in> status ?u \<Longrightarrow> P = {}"
      by (auto simp: buttons_inv_def split: option.splits if_splits)
    have "P \<subseteq> button_state (tablet_process_key ?u e) \<or>
          TABLET_BUTTONS_RELEASED \<in> status (tablet_process_key ?u e)"
      using rel tablet_process_key_buttons(2,3) [of ?u e] by blast
    moreover have "TABLET_TOOL_OUT_OF_PROXIMITY \<in> status (tablet_process_key ?u e) \<Longrightarrow> P = {}"
      using out tablet_process_key_buttons(1) [of ?u e] by blast
    ultimately show ?thesis
      using 3 P prev cnt
      by (auto simp: et evdev_process_event_def tablet_process_def buttons_inv_def)
  next
    case 4
    then show ?thesis
      using u by (simp add: et evdev_process_event_def tablet_process_def
          buttons_inv_cong [of "tablet_process_misc ?u e" ?u])
  next
    case 5
    then show ?thesis
      using buttons_inv_flush [OF u]
      by (simp add: et evdev_process_event_def tablet_process_def)
  next
    case 6
    then show ?thesis
      using u by (simp add: et evdev_process_event_def tablet_process_def)
  qed
qed

lemma buttons_inv_run: "buttons_inv t \<Longrightarrow> buttons_inv (evdev_process_events t es)"
  unfolding evdev_process_events_def
  by (induction es arbitrary: t) (simp_all add: buttons_inv_step)

text \<open>The tool of a flush is the tool that \<open>lookup_tool\<close> finds afterwards.\<close>

lemma lookup_tool_cong:
  "current_tool_type u = current_tool_type t \<Longrightarrow>
   current_tool_serial u = current_tool_serial t \<Longrightarrow>
   tool_list u = tool_list t \<Longrightarrow> libinput_tool_list u = libinput_tool_list t \<Longrightarrow>
   lookup_tool u = lookup_tool t"
  by (simp add: lookup_tool_def)

lemma lookup_tool_found:
  assumes "lookup_tool t = Some T"
  shows "flush_tool t = T" "tool_list (flush_tablet t) = tool_list t"
    "libinput_tool_list (flush_tablet t) = libinput_tool_list t"
  using assms
  by (auto simp: lookup_tool_def flush_tool_def flush_tablet_def tablet_get_tool_def
      split: if_splits)

lemma lookup_tool_flush_tablet: "lookup_tool (flush_tablet t) = Some (flush_tool t)"
  by (auto simp: lookup_tool_def flush_tool_def flush_tablet_def tablet_get_tool_def Let_def
      split: option.splits)

text \<open>The proximity checker along the events of a flush.\<close>

lemma proximity_step_map_button:
  "foldl proximity_step (Some c) (map (\<lambda>i. Button_Event time tool ax i bs) xs) = Some c"
  by (induction xs) simp_all

lemma proximity_step_button_events:
  "foldl proximity_step (Some c) (button_events time tool ax S bs) = Some c"
  by (simp add: button_events_def proximity_step_map_button)

lemma proximity_step_axes_events_old:
  "TABLET_TOOL_ENTERING_PROXIMITY \<notin> status t \<Longrightarrow>
   foldl proximity_step (Some c) (axes_events t time tool) = Some c"
  by (simp add: axes_events_def Let_def)

lemma axis_x_needed:
  "LIBINPUT_TABLET_AXIS_X \<in> changed_axes (loop_tablet l) \<Longrightarrow>
   axis_update_needed (fold check_axis all_tablet_axes l)"
  by (simp add: all_tablet_axes_def fold_check_axis_needed check_axis_needed)

lemma proximity_step_axes_events_new:
  "TABLET_TOOL_ENTERING_PROXIMITY \<in> status t \<Longrightarrow>
   TABLET_TOOL_OUT_OF_PROXIMITY \<notin> status t \<Longrightarrow>
   TABLET_TOOL_LEAVING_PROXIMITY \<notin> status t \<Longrightarrow>
   LIBINPUT_TABLET_AXIS_X \<in> changed_axes t \<Longrightarrow>
   foldl proximity_step (Some None) (axes_events t time tool) = Some (Some tool)"
  by (simp add: axes_events_def Let_def axis_x_needed)

lemma sanitize_axis_x:
  "LIBINPUT_TABLET_AXIS_X \<in> changed_axes (sanitize_tablet_axes t)
     \<longleftrightarrow> LIBINPUT_TABLET_AXIS_X \<in> changed_axes t"
  by (simp add: sanitize_tablet_axes_def Let_def)

text \<open>The x axis stays marked through the handlers of a frame.\<close>

lemma fold_mark_axis_changed_mono:
  "a \<in> changed_axes t \<Longrightarrow> a \<in> changed_axes (fold mark_axis_changed xs t)"
  by (induction xs arbitrary: t) (simp_all add: mark_axis_changed_def)

lemma mark_all_axis_x:
  "has_event_code t EV_ABS ABS_X \<Longrightarrow>
   LIBINPUT_TABLET_AXIS_X \<in> changed_axes (tablet_mark_all_axes_changed t)"
  by (simp add: tablet_mark_all_axes_changed_def tablet_set_status_def all_tablet_axes_def
      fold_mark_axis_changed_mono mark_axis_changed_def tablet_device_has_axis_def)

lemma tablet_update_tool_enter:
  "tool \<noteq> LIBINPUT_TOOL_NONE \<Longrightarrow> has_event_code t EV_ABS ABS_X \<Longrightarrow>
   LIBINPUT_TABLET_AXIS_X \<in> changed_axes (tablet_update_tool t tool True)"
  using mark_all_axis_x [of "t\<lparr>current_tool_type := tool\<rparr>"]
  by (simp add: tablet_update_tool_def tablet_set_status_def tablet_unset_status_def)

lemma tablet_update_tool_leave:
  "tool \<noteq> LIBINPUT_TOOL_NONE \<Longrightarrow>
   changed_axes (tablet_update_tool t tool False) = changed_axes t"
  "tool \<noteq> LIBINPUT_TOOL_NONE \<Longrightarrow>
   current_tool_type (tablet_update_tool t tool False) = current_tool_type t"
  by (simp_all add: tablet_update_tool_def tablet_set_status_def)

lemma process_absolute_axis_mono:
  "a \<in> changed_axes t \<Longrightarrow> a \<in> changed_axes (tablet_process_absolute t e)"
  by (simp add: tablet_process_absolute_def tablet_set_status_def split: option.splits)

lemma process_relative_axis_mono:
  "a \<in> changed_axes t \<Longrightarrow> a \<in> changed_axes (tablet_process_relative t e)"
  by (simp add: tablet_process_relative_def tablet_set_status_def split: option.splits)

lemma tablet_reset_state_frame [simp]:
  "status (tablet_reset_state t) = status t"
  "current_tool_type (tablet_reset_state t) = current_tool_type t"
  "current_tool_serial (tablet_reset_state t) = current_tool_serial t"
  "has_event_code (tablet_reset_state t) = has_event_code t"
  "tool_list (tablet_reset_state t) = tool_list t"
  "libinput_tool_list (tablet_reset_state t) = libinput_tool_list t"
  "emitted (tablet_reset_state t) = emitted t"
  "changed_axes (tablet_reset_state t) = changed_axes t"
  by (simp_all add: tablet_reset_state_def)

lemma proximity_inv_cong:
  assumes "proximity_inv p t"
    and "(TABLET_TOOL_OUT_OF_PROXIMITY \<in> status u) = (TABLET_TOOL_OUT_OF_PROXIMITY \<in> status t)"
    and "(TABLET_TOOL_ENTERING_PROXIMITY \<in> status u) = (TABLET_TOOL_ENTERING_PROXIMITY \<in> status t)"
    and "(TABLET_TOOL_LEAVING_PROXIMITY \<in> status u) = (TABLET_TOOL_LEAVING_PROXIMITY \<in> status t)"
    and "current_tool_serial u = current_tool_serial t"
    and "has_event_code u = has_event_code t"
    and "LIBINPUT_TABLET_AXIS_X \<in> changed_axes t \<Longrightarrow> LIBINPUT_TABLET_AXIS_X \<in> changed_axes u"
    and "emitted u = emitted t"
    and "lookup_tool u = lookup_tool t"
  shows "proximity_inv p u"
  using assms by (auto simp: proximity_inv_def split: option.splits if_splits)

lemma proximity_invI:
  assumes "tool_down p = (TABLET_TOOL_OUT_OF_PROXIMITY \<notin> status t)"
    and "tool_fresh p = (TABLET_TOOL_ENTERING_PROXIMITY \<in> status t)"
    and "tool_leaving p = (TABLET_TOOL_LEAVING_PROXIMITY \<in> status t)"
    and "tool_fresh p \<Longrightarrow> tool_down p \<and> \<not> tool_leaving p"
    and "tool_leaving p \<Longrightarrow> tool_down p"
    and "reported_serial p = current_tool_serial t"
    and "has_event_code t EV_ABS ABS_X"
    and "tool_fresh p \<Longrightarrow> LIBINPUT_TABLET_AXIS_X \<in> changed_axes t"
    and "foldl proximity_step (Some None) (emitted t) = Some cur"
    and "tool_down p \<and> \<not> tool_fresh p \<Longrightarrow> cur \<noteq> None \<and> cur = lookup_tool t"
    and "\<not> (tool_down p \<and> \<not> tool_fresh p) \<Longrightarrow> cur = None"
  shows "proximity_inv p t"
  using assms by (auto simp: proximity_inv_def)

lemma proximity_invD:
  assumes "proximity_inv p t"
  shows "tool_down p = (TABLET_TOOL_OUT_OF_PROXIMITY \<notin> status t)"
    and "tool_fresh p = (TABLET_TOOL_ENTERING_PROXIMITY \<in> status t)"
    and "tool_leaving p = (TABLET_TOOL_LEAVING_PROXIMITY \<in> status t)"
    and "tool_fresh p \<Longrightarrow> tool_down p \<and> \<not> tool_leaving p"
    and "tool_leaving p \<Longrightarrow> tool_down p"
    and "reported_serial p = current_tool_serial t"
    and "has_event_code t EV_ABS ABS_X"
    and "tool_fresh p \<Longrightarrow> LIBINPUT_TABLET_AXIS_X \<in> changed_axes t"
    and "\<exists>cur. foldl proximity_step (Some None) (emitted t) = Some cur \<and>
           (tool_down p \<and> \<not> tool_fresh p \<longrightarrow> cur \<noteq> None \<and> cur = lookup_tool t) \<and>
           (\<not> (tool_down p \<and> \<not> tool_fresh p) \<longrightarrow> cur = None)"
  using assms by (auto simp: proximity_inv_def split: option.splits if_splits)

lemma proximity_inv_flush:
  assumes inv: "proximity_inv p t"
  shows "proximity_inv
           (if tool_leaving p
            then p\<lparr>tool_down := False, tool_fresh := False, tool_leaving := False\<rparr>
            else p\<lparr>tool_fresh := False\<rparr>)
           (tablet_reset_state (tablet_flush t time))"
proof -
  note D = proximity_invD [OF inv]
  from D(9) obtain cur where cur: "foldl proximity_step (Some None) (emitted t) = Some cur"
    and c1: "tool_down p \<and> \<not> tool_fresh p \<Longrightarrow> cur \<noteq> None \<and> cur = lookup_tool t"
    and c2: "\<not> (tool_down p \<and> \<not> tool_fresh p) \<Longrightarrow> cur = None"
    by blast
  show ?thesis
  proof (cases "TABLET_TOOL_OUT_OF_PROXIMITY \<in> status t")
    case True
    with D have p: "\<not> tool_down p" "\<not> tool_fresh p" "\<not> tool_leaving p"
      by auto
    show ?thesis
      by (rule proximity_invI [where cur = cur])
         (use True p D cur c2 in \<open>simp_all add: tablet_flush_out\<close>)
  next
    case nout: False
    then have down: "tool_down p" using D(1) by simp
    show ?thesis
    proof (cases "TABLET_TOOL_LEAVING_PROXIMITY \<in> status t")
      case True
      then have lv: "tool_leaving p" using D(3) by simp
      then have nf: "\<not> tool_fresh p" using D(4) by blast
      then have nent: "TABLET_TOOL_ENTERING_PROXIMITY \<notin> status t" using D(2) by simp
      from c1 down nf obtain T where T: "cur = Some T" "lookup_tool t = Some T"
        by (cases cur) auto
      note fl = tablet_flush_leaving [OF nout True, of time]
      have run: "foldl proximity_step (Some None) (emitted (tablet_flush t time)) = Some None"
        using cur T lookup_tool_found(1) [OF T(2)]
        by (simp add: fl(2) proximity_step_button_events)
      show ?thesis
        by (rule proximity_invI [where cur = None])
           (use lv nent D run in \<open>simp_all add: fl\<close>)
    next
      case nlv: False
      then have nl: "\<not> tool_leaving p" using D(3) by simp
      note fl = tablet_flush_in [OF nout nlv, of time]
      have lk: "lookup_tool (tablet_reset_state (tablet_flush t time)) = Some (flush_tool t)"
        using lookup_tool_cong [of "tablet_reset_state (tablet_flush t time)" "flush_tablet t"]
        by (simp add: fl lookup_tool_flush_tablet)
      have run: "foldl proximity_step (Some None) (emitted (tablet_flush t time))
                   = Some (Some (flush_tool t))"
      proof (cases "tool_fresh p")
        case True
        then have ent: "TABLET_TOOL_ENTERING_PROXIMITY \<in> status t" using D(2) by simp
        from True c2 have "cur = None" by simp
        moreover have "LIBINPUT_TABLET_AXIS_X \<in> changed_axes t" using D(8) True by simp
        ultimately show ?thesis
          using cur ent nout nlv
          by (simp add: fl(2) proximity_step_button_events proximity_step_axes_events_new
              sanitize_axis_x)
      next
        case False
        then have nent: "TABLET_TOOL_ENTERING_PROXIMITY \<notin> status t" using D(2) by simp
        from c1 down False obtain T where T: "cur = Some T" "lookup_tool t = Some T"
          by (cases cur) auto
        show ?thesis
          using cur T lookup_tool_found(1) [OF T(2)] nent
          by (simp add: fl(2) proximity_step_button_events proximity_step_axes_events_old)
      qed
      show ?thesis
        by (rule proximity_invI [where cur = "Some (flush_tool t)"])
           (use nl nout nlv down D run lk in \<open>simp_all add: fl\<close>)
    qed
  qed
qed

lemma proximity_inv_key:
  assumes inv: "proximity_inv p t" and st: "protocol_step p e = Some q"
    and ty: "ev_type e = EV_KEY"
  shows "proximity_inv q (tablet_process_key t e)"
proof -
  note D = proximity_invD [OF inv]
  from D(9) obtain cur where cur: "foldl proximity_step (Some None) (emitted t) = Some cur"
    and c1: "tool_down p \<and> \<not> tool_fresh p \<Longrightarrow> cur \<noteq> None \<and> cur = lookup_tool t"
    and c2: "\<not> (tool_down p \<and> \<not> tool_fresh p) \<Longrightarrow> cur = None"
    by blast
  show ?thesis
  proof (cases "is_tool_button (ev_code e)")
    case True
    define tool where "tool = the (tablet_evcode_to_tool (ev_code e))"
    from tablet_process_key_tool [OF True, of t]
    have tool: "tool \<noteq> LIBINPUT_TOOL_NONE"
      and k: "tablet_process_key t e = tablet_update_tool t tool (ev_value e \<noteq> 0)"
      by (simp_all add: tool_def)
    show ?thesis
    proof (cases "ev_value e \<noteq> 0")
      case enter: True
      from st ty True enter have nd: "\<not> tool_down p"
        and q: "q = p\<lparr>tool_down := True, tool_fresh := True\<rparr>"
        by (auto simp: protocol_step_def split: if_splits)
      from nd D(5) have nl: "\<not> tool_leaving p" by blast
      from nd c2 have cn: "cur = None" by simp
      show ?thesis
        unfolding k q
        by (rule proximity_invI [where cur = cur])
           (use enter tool nl cn cur D tablet_update_tool_enter [OF tool D(7)] in
             \<open>simp_all add: tablet_update_tool_status\<close>)
    next
      case leave: False
      show ?thesis
      proof (cases "tool_down p")
        case False
        with st ty True leave have q: "q = p"
          by (auto simp: protocol_step_def split: if_splits)
        show ?thesis
          unfolding k q
          by (rule proximity_inv_cong [OF inv])
             (use leave tool False D(1) in
               \<open>simp_all add: tablet_update_tool_status tablet_update_tool_leave
                  lookup_tool_cong [of "tablet_update_tool t tool False" t]\<close>)
      next
        case down: True
        with st ty True leave have nf: "\<not> tool_fresh p"
          and q: "q = p\<lparr>tool_leaving := True\<rparr>"
          by (auto simp: protocol_step_def split: if_splits)
        from down D(1) have nout: "TABLET_TOOL_OUT_OF_PROXIMITY \<notin> status t" by simp
        have lk: "lookup_tool (tablet_update_tool t tool False) = lookup_tool t"
          using tool
          by (simp add: tablet_update_tool_leave
              lookup_tool_cong [of "tablet_update_tool t tool False" t])
        show ?thesis
          unfolding k q
          by (rule proximity_invI [where cur = cur])
             (use leave tool down nf nout cur c1 lk D in
               \<open>simp_all add: tablet_update_tool_status\<close>)
      qed
    qed
  next
    case False
    with st ty have q: "q = p"
      by (auto simp: protocol_step_def evcodes split: if_splits)
    define u where "u = (if ev_code e = BTN_TOUCH
          then (if ev_value e \<noteq> 0 then tablet_set_status t TABLET_STYLUS_IN_CONTACT
                else tablet_unset_status t TABLET_STYLUS_IN_CONTACT)
          else t)"
    have k: "tablet_process_key t e = tablet_update_button u (ev_code e) (ev_value e)"
      unfolding u_def by (rule tablet_process_key_button [OF False])
    have u: "proximity_inv p u"
      by (rule proximity_inv_cong [OF inv])
         (simp_all add: u_def tablet_set_status_def tablet_unset_status_def lookup_tool_def)
    show ?thesis
      unfolding k q
      by (rule proximity_inv_cong [OF u])
         (simp_all add: tablet_update_button_status(1)
            lookup_tool_cong [of "tablet_update_button u (ev_code e) (ev_value e)" u])
  qed
qed

lemma proximity_inv_misc:
  assumes inv: "proximity_inv p t" and st: "protocol_step p e = Some q"
    and ty: "ev_type e = EV_MSC"
  shows "proximity_inv q (tablet_process_misc t e)"
proof (cases "ev_code e = MSC_SERIAL \<and> ev_value e \<noteq> - 1")
  case True
  note D = proximity_invD [OF inv]
  from D(9) obtain cur where cur: "foldl proximity_step (Some None) (emitted t) = Some cur"
    and c1: "tool_down p \<and> \<not> tool_fresh p \<Longrightarrow> cur \<noteq> None \<and> cur = lookup_tool t"
    and c2: "\<not> (tool_down p \<and> \<not> tool_fresh p) \<Longrightarrow> cur = None"
    by blast
  from st ty True have q: "q = p\<lparr>reported_serial := word_of_int (ev_value e)\<rparr>"
    and same: "tool_down p \<and> \<not> tool_fresh p \<Longrightarrow> word_of_int (ev_value e) = reported_serial p"
    by (auto simp: protocol_step_def evcodes split: if_splits)
  have k: "tablet_process_misc t e = t\<lparr>current_tool_serial := word_of_int (ev_value e)\<rparr>"
    using True by (simp add: tablet_process_misc_def)
  have lk: "tool_down p \<and> \<not> tool_fresh p \<Longrightarrow>
      lookup_tool (t\<lparr>current_tool_serial := word_of_int (ev_value e)\<rparr>) = lookup_tool t"
    using same D(6)
    by (simp add: lookup_tool_cong [of "t\<lparr>current_tool_serial := word_of_int (ev_value e)\<rparr>" t])
  show ?thesis
    unfolding k q
    by (rule proximity_invI [where cur = cur])
       (use cur c1 c2 lk D in \<open>simp_all\<close>)
next
  case False
  with st ty have q: "q = p"
    by (auto simp: protocol_step_def evcodes split: if_splits)
  have k: "tablet_process_misc t e = t"
    using False by (auto simp: tablet_process_misc_def)
  show ?thesis
    unfolding k q by (rule inv)
qed

lemma proximity_inv_step:
  assumes inv: "proximity_inv p t" and st: "protocol_step p (fst et) = Some q"
  shows "proximity_inv q (evdev_process_event t et)"
proof -
  obtain e time where et: "et = (e, time)" by (cases et)
  from st have st: "protocol_step p e = Some q" by (simp add: et)
  let ?u = "libevdev_update t e"
  have u: "proximity_inv p ?u"
    by (rule proximity_inv_cong [OF inv]) (simp_all add: lookup_tool_cong [of ?u t])
  consider "ev_type e = EV_ABS" | "ev_type e \<noteq> EV_ABS" "ev_type e = EV_REL"
    | "ev_type e \<noteq> EV_ABS" "ev_type e \<noteq> EV_REL" "ev_type e = EV_KEY"
    | "ev_type e \<noteq> EV_ABS" "ev_type e \<noteq> EV_REL" "ev_type e \<noteq> EV_KEY" "ev_type e = EV_MSC"
    | "ev_type e \<noteq> EV_ABS" "ev_type e \<noteq> EV_REL" "ev_type e \<noteq> EV_KEY" "ev_type e \<noteq> EV_MSC"
      "ev_type e = EV_SYN"
    | "ev_type e \<noteq> EV_ABS" "ev_type e \<noteq> EV_REL" "ev_type e \<noteq> EV_KEY" "ev_type e \<noteq> EV_MSC"
      "ev_type e \<noteq> EV_SYN"
    by blast
  then show ?thesis
  proof cases
    case 1
    with st have q: "q = p"
      by (auto simp: protocol_step_def evcodes split: if_splits)
    have "proximity_inv p (tablet_process_absolute ?u e)"
      by (rule proximity_inv_cong [OF u])
         (simp_all add: status_process_absolute process_absolute_axis_mono
            lookup_tool_cong [of "tablet_process_absolute ?u e" ?u])
    with 1 show ?thesis
      by (simp add: et q evdev_process_event_def tablet_process_def)
  next
    case 2
    with st have q: "q = p"
      by (auto simp: protocol_step_def evcodes split: if_splits)
    have "proximity_inv p (tablet_process_relative ?u e)"
      by (rule proximity_inv_cong [OF u])
         (simp_all add: status_process_relative process_relative_axis_mono
            lookup_tool_cong [of "tablet_process_relative ?u e" ?u])
    with 2 show ?thesis
      by (simp add: et q evdev_process_event_def tablet_process_def)
  next
    case 3
    have st': "protocol_step p e = Some q" by (rule st)
    from 3 proximity_inv_key [OF u st' 3(3)] show ?thesis
      by (simp add: et evdev_process_event_def tablet_process_def)
  next
    case 4
    from 4 proximity_inv_misc [OF u st 4(4)] show ?thesis
      by (simp add: et evdev_process_event_def tablet_process_def)
  next
    case 5
    with st have q: "q = (if tool_leaving p
            then p\<lparr>tool_down := False, tool_fresh := False, tool_leaving := False\<rparr>
            else p\<lparr>tool_fresh := False\<rparr>)"
      by (auto simp: protocol_step_def evcodes split: if_splits)
    from 5 proximity_inv_flush [OF u, of "ucast time"] show ?thesis
      unfolding q by (simp add: et evdev_process_event_def tablet_process_def)
  next
    case 6
    with st have q: "q = p"
      by (auto simp: protocol_step_def split: if_splits)
    from 6 u show ?thesis
      by (simp add: et q evdev_process_event_def tablet_process_def)
  qed
qed

lemma proximity_inv_run:
  "proximity_inv p t \<Longrightarrow> protocol_run (Some p) (map fst es) = Some q \<Longrightarrow>
   proximity_inv q (evdev_process_events t es)"
  unfolding evdev_process_events_def
proof (induction es arbitrary: p t)
  case Nil
  then show ?case by simp
next
  case (Cons et es)
  show ?case
  proof (cases "protocol_step p (fst et)")
    case None
    with Cons.prems(2) show ?thesis by simp
  next
    case (Some p')
    from Cons.IH [OF proximity_inv_step [OF Cons.prems(1) Some]] Cons.prems(2) Some
    show ?thesis by simp
  qed
qed

text \<open>The dispatcher as \<^verbatim>\<open>evdev_tablet_create\<close> returns it.\<close>

lemma fold_init_axis_cap_frame [simp]:
  "status (fold init_axis_cap xs t) = status t"
  "current_tool_serial (fold init_axis_cap xs t) = current_tool_serial t"
  "has_event_code (fold init_axis_cap xs t) = has_event_code t"
  "emitted (fold init_axis_cap xs t) = emitted t"
  "button_state (fold init_axis_cap xs t) = button_state t"
  "prev_button_state (fold init_axis_cap xs t) = prev_button_state t"
  by (induction xs arbitrary: t; simp add: init_axis_cap_def tablet_device_has_axis_def)+

lemma evdev_tablet_create_fields:
  "status (evdev_tablet_create codes ai angle tools)
     = {TABLET_TOOL_OUT_OF_PROXIMITY, TABLET_AXES_UPDATED}"
  "current_tool_serial (evdev_tablet_create codes ai angle tools) = 0"
  "has_event_code (evdev_tablet_create codes ai angle tools) = codes"
  "emitted (evdev_tablet_create codes ai angle tools) = []"
  "button_state (evdev_tablet_create codes ai angle tools) = {}"
  "prev_button_state (evdev_tablet_create codes ai angle tools) = {}"
  by (simp_all add: evdev_tablet_create_def tablet_init_def Let_def tablet_set_status_def)

lemma buttons_inv_create: "buttons_inv (evdev_tablet_create codes ai angle tools)"
  by (simp add: buttons_inv_def evdev_tablet_create_fields)

lemma proximity_inv_create:
  "codes EV_ABS ABS_X \<Longrightarrow>
   proximity_inv
     \<lparr>tool_down = False, tool_fresh = False, tool_leaving = False, reported_serial = 0\<rparr>
     (evdev_tablet_create codes ai angle tools)"
  by (rule proximity_invI [where cur = None]) (simp_all add: evdev_tablet_create_fields)

text \<open>Where \<open>aborted\<close> is set.\<close>

lemma set_delta_aborted:
  "aborted (loop_tablet (set_delta l a d)) = (aborted (loop_tablet l) \<or> d = None)"
  by (simp add: set_delta_def split: option.splits)

lemma get_delta_None: "get_delta a x y = None \<longleftrightarrow> a = LIBINPUT_TABLET_AXIS_REL_WHEEL"
  by (cases a) simp_all

lemma check_axis_aborted:
  "aborted (loop_tablet (check_axis a l)) =
     (aborted (loop_tablet l) \<or>
      (a \<in> changed_axes (loop_tablet l) \<and> a \<noteq> LIBINPUT_TABLET_AXIS_REL_WHEEL \<and>
       \<not> (a = LIBINPUT_TABLET_AXIS_ROTATION_Z \<and>
          (current_tool_type (loop_tablet l) = LIBINPUT_TOOL_MOUSE \<or>
           current_tool_type (loop_tablet l) = LIBINPUT_TOOL_LENS)) \<and>
       \<not> has_event_code (loop_tablet l) EV_ABS (the (axis_to_evcode a))))"
  by (cases a)
     (auto simp: check_axis_def Let_def set_delta_aborted get_delta_None
        convert_tilt_to_rotation_def deref_abs_info_aborted)

lemma all_tablet_axes_complete: "a \<in> set all_tablet_axes"
  by (cases a) (simp_all add: all_tablet_axes_def)

lemma crash_inv_iff:
  "crash_inv t \<longleftrightarrow>
     \<not> aborted t \<and> complete_device (has_event_code t) \<and>
     (\<forall>a\<in>changed_axes t. readable_axis t a)"
  by (auto simp: crash_inv_def list_all_iff all_tablet_axes_complete)

lemma simple_aborted [simp]:
  "aborted (tablet_set_status t s) = aborted t"
  "aborted (tablet_unset_status t s) = aborted t"
  "aborted (tablet_reset_state t) = aborted t"
  "aborted (tablet_change_to_left_handed t) = aborted t"
  "aborted (tablet_notify_proximity t time tool ps ch ax) = aborted t"
  "aborted (tablet_notify_axis t time tool ch ax ds dds) = aborted t"
  "aborted (tablet_notify_buttons t time tool bs) = aborted t"
  "aborted (libevdev_update t e) = aborted t"
  "aborted (tablet_process_misc t e) = aborted t"
  "aborted (tablet_update_button t c v) = aborted t"
  "aborted (flush_tablet t) = aborted t"
  by (simp_all add: tablet_set_status_def tablet_unset_status_def tablet_reset_state_def
      tablet_change_to_left_handed_def tablet_notify_proximity_def tablet_notify_axis_def
      tablet_notify_buttons_eq libevdev_update_def tablet_process_misc_def
      tablet_update_button_def flush_tablet_def tablet_get_tool_def Let_def
      split: option.splits)

lemma fold_mark_axis_changed_aborted [simp]:
  "aborted (fold mark_axis_changed xs t) = aborted t"
  by (induction xs arbitrary: t) (simp_all add: mark_axis_changed_def)

lemma fold_init_axis_cap_aborted [simp]:
  "aborted (fold init_axis_cap xs t) = aborted t"
  "changed_axes (fold init_axis_cap xs t) = changed_axes t"
  by (induction xs arbitrary: t; simp add: init_axis_cap_def)+

lemma mark_all_aborted [simp]:
  "aborted (tablet_mark_all_axes_changed t) = aborted t"
  by (simp add: tablet_mark_all_axes_changed_def)

lemma tablet_update_tool_aborted:
  "aborted (tablet_update_tool t tool en) = (aborted t \<or> tool = LIBINPUT_TOOL_NONE)"
  by (simp add: tablet_update_tool_def)

lemma tablet_process_key_aborted [simp]:
  "aborted (tablet_process_key t e) = aborted t"
proof (cases "is_tool_button (ev_code e)")
  case True
  from tablet_process_key_tool [OF True, of t] show ?thesis
    by (simp add: tablet_update_tool_aborted)
next
  case False
  show ?thesis
    by (simp add: tablet_process_key_button [OF False] tablet_set_status_def
        tablet_unset_status_def)
qed

lemma tablet_process_absolute_aborted [simp]:
  "aborted (tablet_process_absolute t e) = aborted t"
  by (simp add: tablet_process_absolute_def split: option.splits)

lemma tablet_process_relative_aborted [simp]:
  "aborted (tablet_process_relative t e) = aborted t"
  by (simp add: tablet_process_relative_def split: option.splits)

lemma flush_buttons_phase_aborted [simp]:
  "aborted (flush_buttons_phase x time tool) = aborted x"
  by (simp add: flush_buttons_phase_def Let_def)

lemma sanitize_aborted:
  "aborted (sanitize_tablet_axes t) =
     (aborted t \<or>
      (LIBINPUT_TABLET_AXIS_DISTANCE \<in> changed_axes t \<and>
       (\<not> has_event_code t EV_ABS ABS_DISTANCE \<or>
        (abs_minimum (absinfo t ABS_DISTANCE) < abs_value (absinfo t ABS_DISTANCE) \<and>
         \<not> has_event_code t EV_ABS ABS_PRESSURE))))"
  by (auto simp: sanitize_tablet_axes_def Let_def deref_abs_info_aborted)

lemma sanitize_changed_axes:
  "a \<in> changed_axes (sanitize_tablet_axes t) \<Longrightarrow>
     a \<in> changed_axes t \<or>
     (a = LIBINPUT_TABLET_AXIS_ROTATION_Z \<and>
      (current_tool_type t = LIBINPUT_TOOL_MOUSE \<or> current_tool_type t = LIBINPUT_TOOL_LENS))"
  by (auto simp: sanitize_tablet_axes_def Let_def split: if_splits)

lemma check_axis_changed_axes:
  "b \<in> changed_axes (loop_tablet (check_axis a l)) \<Longrightarrow>
     b \<in> changed_axes (loop_tablet l) \<or>
     (b = LIBINPUT_TABLET_AXIS_ROTATION_Z \<and>
      (current_tool_type (loop_tablet l) = LIBINPUT_TOOL_MOUSE \<or>
       current_tool_type (loop_tablet l) = LIBINPUT_TOOL_LENS))"
  by (cases a)
     (auto simp: check_axis_def Let_def convert_tilt_to_rotation_def
        split: if_splits option.splits)

lemma check_axis_sticky:
  "aborted (loop_tablet l) \<Longrightarrow> aborted (loop_tablet (check_axis a l))"
  by (simp add: check_axis_aborted)

lemma fold_check_axis_sticky:
  "aborted (loop_tablet l) \<Longrightarrow> aborted (loop_tablet (fold check_axis xs l))"
  by (induction xs arbitrary: l) (simp_all add: check_axis_sticky)

lemma loop_readable_def2:
  "loop_readable l =
     (\<forall>a\<in>changed_axes (loop_tablet l).
        readable_axis (loop_tablet l) a \<or>
        (a = LIBINPUT_TABLET_AXIS_ROTATION_Z \<and>
         (current_tool_type (loop_tablet l) = LIBINPUT_TOOL_MOUSE \<or>
          current_tool_type (loop_tablet l) = LIBINPUT_TOOL_LENS)))"
  by (auto simp: loop_readable_def list_all_iff all_tablet_axes_complete)

lemma readable_axis_cong:
  "has_event_code u = has_event_code t \<Longrightarrow> readable_axis u a = readable_axis t a"
  by (simp add: readable_axis_def split: option.splits)

lemma check_axis_readable:
  assumes "loop_readable l"
  shows "loop_readable (check_axis a l)"
  unfolding loop_readable_def2
proof
  fix b assume "b \<in> changed_axes (loop_tablet (check_axis a l))"
  from check_axis_changed_axes [OF this] assms
  show "readable_axis (loop_tablet (check_axis a l)) b \<or>
        (b = LIBINPUT_TABLET_AXIS_ROTATION_Z \<and>
         (current_tool_type (loop_tablet (check_axis a l)) = LIBINPUT_TOOL_MOUSE \<or>
          current_tool_type (loop_tablet (check_axis a l)) = LIBINPUT_TOOL_LENS))"
    by (auto simp: loop_readable_def2 readable_axis_cong [of "loop_tablet (check_axis a l)" "loop_tablet l"])
qed

lemma check_axis_not_aborted:
  assumes "loop_readable l" "\<not> aborted (loop_tablet l)"
  shows "\<not> aborted (loop_tablet (check_axis a l))"
proof -
  have "has_event_code (loop_tablet l) EV_ABS (the (axis_to_evcode a))"
    if "a \<in> changed_axes (loop_tablet l)" "a \<noteq> LIBINPUT_TABLET_AXIS_REL_WHEEL"
       "\<not> (a = LIBINPUT_TABLET_AXIS_ROTATION_Z \<and>
          (current_tool_type (loop_tablet l) = LIBINPUT_TOOL_MOUSE \<or>
           current_tool_type (loop_tablet l) = LIBINPUT_TOOL_LENS))"
    using that assms(1) by (cases a) (auto simp: loop_readable_def2 readable_axis_def)
  with assms(2) show ?thesis
    by (auto simp: check_axis_aborted)
qed

lemma fold_check_axis_not_aborted:
  "loop_readable l \<Longrightarrow> \<not> aborted (loop_tablet l) \<Longrightarrow>
   \<not> aborted (loop_tablet (fold check_axis xs l))"
  by (induction xs arbitrary: l) (simp_all add: check_axis_readable check_axis_not_aborted)

lemma check_notify_axes_aborted:
  "aborted (tablet_check_notify_axes t time tool) =
     aborted (loop_tablet (fold check_axis all_tablet_axes
        \<lparr>loop_tablet = t, loop_axes = (\<lambda>a. 0), loop_deltas = (\<lambda>a. 0),
         loop_deltas_discrete = (\<lambda>a. 0), axis_update_needed = False\<rparr>))"
  by (simp add: tablet_check_notify_axes_def Let_def)

lemma flush_axes_phase_aborted:
  "aborted (flush_axes_phase t time) =
     (if TABLET_AXES_UPDATED \<in> status t \<or> TABLET_TOOL_ENTERING_PROXIMITY \<in> status t
      then aborted (tablet_check_notify_axes (sanitize_tablet_axes (flush_tablet t)) time
                      (flush_tool t))
      else aborted t)"
  by (simp add: flush_axes_phase_def)

lemma flush_axes_phase_changed_axes:
  "changed_axes (flush_axes_phase t time) =
     (if TABLET_AXES_UPDATED \<in> status t \<or> TABLET_TOOL_ENTERING_PROXIMITY \<in> status t
      then {} else changed_axes t)"
  by (simp add: flush_axes_phase_def tablet_unset_status_def)

lemma tablet_flush_aborted:
  "aborted (tablet_flush t time) =
     (if TABLET_TOOL_OUT_OF_PROXIMITY \<in> status t \<or> TABLET_TOOL_LEAVING_PROXIMITY \<in> status t
      then aborted t else aborted (flush_axes_phase t time))"
  by (simp add: tablet_flush_unfold)

lemma tablet_flush_changed_axes:
  "changed_axes (tablet_flush t time) =
     (if TABLET_TOOL_OUT_OF_PROXIMITY \<in> status t then changed_axes t
      else if TABLET_TOOL_LEAVING_PROXIMITY \<in> status t then {}
      else changed_axes (flush_axes_phase t time))"
  by (simp add: tablet_flush_unfold tablet_change_to_left_handed_def tablet_set_status_def
      tablet_unset_status_def tablet_notify_proximity_def)

lemma flush_axes_phase_not_aborted:
  assumes "crash_inv t"
  shows "\<not> aborted (flush_axes_phase t time)"
proof -
  from assms have na: "\<not> aborted t" and dev: "complete_device (has_event_code t)"
    and rd: "\<And>a. a \<in> changed_axes t \<Longrightarrow> readable_axis t a"
    by (auto simp: crash_inv_iff)
  let ?s = "sanitize_tablet_axes (flush_tablet t)"
  let ?l = "\<lparr>loop_tablet = ?s, loop_axes = (\<lambda>a. 0), loop_deltas = (\<lambda>a. 0),
         loop_deltas_discrete = (\<lambda>a. 0), axis_update_needed = False\<rparr>"
  have "LIBINPUT_TABLET_AXIS_DISTANCE \<in> changed_axes t \<Longrightarrow>
          has_event_code t EV_ABS ABS_DISTANCE \<and> has_event_code t EV_ABS ABS_PRESSURE"
    using rd [of LIBINPUT_TABLET_AXIS_DISTANCE] dev
    by (simp add: readable_axis_def complete_device_def)
  then have s: "\<not> aborted ?s"
    using na by (auto simp: sanitize_aborted)
  have "loop_readable ?l"
    unfolding loop_readable_def2
  proof
    fix a assume "a \<in> changed_axes (loop_tablet ?l)"
    then have "a \<in> changed_axes ?s" by simp
    from sanitize_changed_axes [OF this] rd [of a]
    show "readable_axis (loop_tablet ?l) a \<or>
          (a = LIBINPUT_TABLET_AXIS_ROTATION_Z \<and>
           (current_tool_type (loop_tablet ?l) = LIBINPUT_TOOL_MOUSE \<or>
            current_tool_type (loop_tablet ?l) = LIBINPUT_TOOL_LENS))"
      by (auto simp: readable_axis_cong [of ?s t])
  qed
  from fold_check_axis_not_aborted [OF this, of all_tablet_axes] s
  have "\<not> aborted (tablet_check_notify_axes ?s time (flush_tool t))"
    by (simp add: check_notify_axes_aborted)
  with na show ?thesis
    by (simp add: flush_axes_phase_aborted)
qed

lemma crash_inv_flush:
  assumes "crash_inv t"
  shows "crash_inv (tablet_reset_state (tablet_flush t time))"
proof -
  from assms have na: "\<not> aborted t" and dev: "complete_device (has_event_code t)"
    and rd: "\<And>a. a \<in> changed_axes t \<Longrightarrow> readable_axis t a"
    by (auto simp: crash_inv_iff)
  have hc: "has_event_code (tablet_flush t time) = has_event_code t"
    by (cases "TABLET_TOOL_OUT_OF_PROXIMITY \<in> status t";
        cases "TABLET_TOOL_LEAVING_PROXIMITY \<in> status t";
        simp add: tablet_flush_out tablet_flush_leaving tablet_flush_in)
  have ab: "\<not> aborted (tablet_flush t time)"
    using na flush_axes_phase_not_aborted [OF assms, of time]
    by (simp add: tablet_flush_aborted)
  have ch: "a \<in> changed_axes (tablet_flush t time) \<Longrightarrow> a \<in> changed_axes t" for a
    by (simp add: tablet_flush_changed_axes flush_axes_phase_changed_axes split: if_splits)
  show ?thesis
    unfolding crash_inv_iff
    using ab dev rd ch
    by (auto simp: hc tablet_reset_state_def
        readable_axis_cong [of "tablet_flush t time\<lparr>prev_button_state := button_state (tablet_flush t time)\<rparr>" t])
qed

lemma readable_has_axis:
  "complete_device (has_event_code t) \<Longrightarrow> tablet_device_has_axis t a \<Longrightarrow> readable_axis t a"
  by (cases a) (auto simp: tablet_device_has_axis_def readable_axis_def complete_device_def)

lemma has_axis_cong:
  "has_event_code u = has_event_code t \<Longrightarrow>
   tablet_device_has_axis u a = tablet_device_has_axis t a"
  by (simp add: tablet_device_has_axis_def split: option.splits)

lemma mark_axis_changed_simps:
  "changed_axes (mark_axis_changed x t) =
     (if tablet_device_has_axis t x then insert x (changed_axes t) else changed_axes t)"
  "has_event_code (mark_axis_changed x t) = has_event_code t"
  by (simp_all add: mark_axis_changed_def)

lemma fold_mark_axis_changed_axes:
  "a \<in> changed_axes (fold mark_axis_changed xs t) \<Longrightarrow>
     a \<in> changed_axes t \<or> tablet_device_has_axis t a"
proof (induction xs arbitrary: t)
  case Nil
  then show ?case by simp
next
  case (Cons x xs)
  from Cons.prems have "a \<in> changed_axes (fold mark_axis_changed xs (mark_axis_changed x t))"
    by simp
  from Cons.IH [OF this]
  have "a \<in> changed_axes (mark_axis_changed x t) \<or> tablet_device_has_axis t a"
    by (simp add: has_axis_cong [of "mark_axis_changed x t" t] mark_axis_changed_simps(2))
  then show ?case
    by (auto simp: mark_axis_changed_simps(1) split: if_splits)
qed

lemma mark_all_changed_axes:
  "a \<in> changed_axes (tablet_mark_all_axes_changed t) \<Longrightarrow>
     a \<in> changed_axes t \<or> tablet_device_has_axis t a"
  using fold_mark_axis_changed_axes [of a all_tablet_axes t]
  by (simp add: tablet_mark_all_axes_changed_def tablet_set_status_def)

lemma tablet_update_tool_changed_axes:
  "a \<in> changed_axes (tablet_update_tool t tool en) \<Longrightarrow>
     a \<in> changed_axes t \<or> tablet_device_has_axis t a"
  using mark_all_changed_axes [of a "t\<lparr>current_tool_type := tool\<rparr>"]
  by (auto simp: tablet_update_tool_def tablet_set_status_def tablet_unset_status_def
      has_axis_cong [of "t\<lparr>current_tool_type := tool\<rparr>" t] split: if_splits)

lemma crash_inv_key:
  assumes "crash_inv t"
  shows "crash_inv (tablet_process_key t e)"
proof -
  from assms have na: "\<not> aborted t" and dev: "complete_device (has_event_code t)"
    and rd: "\<And>a. a \<in> changed_axes t \<Longrightarrow> readable_axis t a"
    by (auto simp: crash_inv_iff)
  have ch: "a \<in> changed_axes (tablet_process_key t e) \<Longrightarrow>
              a \<in> changed_axes t \<or> tablet_device_has_axis t a" for a
  proof (cases "is_tool_button (ev_code e)")
    case True
    assume "a \<in> changed_axes (tablet_process_key t e)"
    with tablet_process_key_tool [OF True, of t] tablet_update_tool_changed_axes
    show ?thesis by metis
  next
    case False
    assume "a \<in> changed_axes (tablet_process_key t e)"
    then show ?thesis
      by (simp add: tablet_process_key_button [OF False] tablet_set_status_def
          tablet_unset_status_def split: if_splits)
  qed
  show ?thesis
    unfolding crash_inv_iff
    using na dev rd ch readable_has_axis [OF dev]
    by (auto simp: readable_axis_cong [of "tablet_process_key t e" t])
qed

lemma crash_inv_absolute:
  assumes "crash_inv t" and "has_event_code t EV_ABS (ev_code e)"
  shows "crash_inv (tablet_process_absolute t e)"
proof -
  from assms have na: "\<not> aborted t" and dev: "complete_device (has_event_code t)"
    and rd: "\<And>a. a \<in> changed_axes t \<Longrightarrow> readable_axis t a"
    by (auto simp: crash_inv_iff)
  have ch: "a \<in> changed_axes (tablet_process_absolute t e) \<Longrightarrow>
              a \<in> changed_axes t \<or> axis_to_evcode a = Some (ev_code e)" for a
    by (auto simp: tablet_process_absolute_def tablet_set_status_def evcode_to_axis_def
        split: if_splits option.splits)
  have "readable_axis t a" if "a \<in> changed_axes (tablet_process_absolute t e)" for a
    using ch [OF that] rd [of a] assms(2) by (auto simp: readable_axis_def)
  then show ?thesis
    unfolding crash_inv_iff
    using na dev
    by (simp add: readable_axis_cong [of "tablet_process_absolute t e" t])
qed

lemma crash_inv_relative:
  assumes "crash_inv t"
  shows "crash_inv (tablet_process_relative t e)"
proof -
  from assms have na: "\<not> aborted t" and dev: "complete_device (has_event_code t)"
    and rd: "\<And>a. a \<in> changed_axes t \<Longrightarrow> readable_axis t a"
    by (auto simp: crash_inv_iff)
  have ch: "a \<in> changed_axes (tablet_process_relative t e) \<Longrightarrow>
              a \<in> changed_axes t \<or> a = LIBINPUT_TABLET_AXIS_REL_WHEEL" for a
    by (auto simp: tablet_process_relative_def tablet_set_status_def rel_evcode_to_axis_def
        split: if_splits option.splits)
  have "readable_axis t a" if "a \<in> changed_axes (tablet_process_relative t e)" for a
    using ch [OF that] rd [of a] by (auto simp: readable_axis_def)
  then show ?thesis
    unfolding crash_inv_iff
    using na dev
    by (simp add: readable_axis_cong [of "tablet_process_relative t e" t])
qed

lemma crash_inv_cong:
  "crash_inv t \<Longrightarrow> aborted u = aborted t \<Longrightarrow> has_event_code u = has_event_code t \<Longrightarrow>
   changed_axes u = changed_axes t \<Longrightarrow> crash_inv u"
  by (simp add: crash_inv_iff readable_axis_cong [of u t])

lemma crash_inv_step:
  assumes inv: "crash_inv t"
    and ev: "ev_type (fst et) = EV_ABS \<longrightarrow> has_event_code t EV_ABS (ev_code (fst et))"
  shows "crash_inv (evdev_process_event t et)"
proof -
  obtain e time where et: "et = (e, time)" by (cases et)
  let ?u = "libevdev_update t e"
  have u: "crash_inv ?u"
    by (rule crash_inv_cong [OF inv]) simp_all
  consider "ev_type e = EV_ABS" | "ev_type e \<noteq> EV_ABS" "ev_type e = EV_REL"
    | "ev_type e \<noteq> EV_ABS" "ev_type e \<noteq> EV_REL" "ev_type e = EV_KEY"
    | "ev_type e \<noteq> EV_ABS" "ev_type e \<noteq> EV_REL" "ev_type e \<noteq> EV_KEY" "ev_type e = EV_MSC"
    | "ev_type e \<noteq> EV_ABS" "ev_type e \<noteq> EV_REL" "ev_type e \<noteq> EV_KEY" "ev_type e \<noteq> EV_MSC"
      "ev_type e = EV_SYN"
    | "ev_type e \<noteq> EV_ABS" "ev_type e \<noteq> EV_REL" "ev_type e \<noteq> EV_KEY" "ev_type e \<noteq> EV_MSC"
      "ev_type e \<noteq> EV_SYN"
    by blast
  then show ?thesis
  proof cases
    case 1
    with ev have "has_event_code ?u EV_ABS (ev_code e)" by (simp add: et)
    from crash_inv_absolute [OF u this] 1 show ?thesis
      by (simp add: et evdev_process_event_def tablet_process_def)
  next
    case 2
    with crash_inv_relative [OF u, of e] show ?thesis
      by (simp add: et evdev_process_event_def tablet_process_def)
  next
    case 3
    with crash_inv_key [OF u, of e] show ?thesis
      by (simp add: et evdev_process_event_def tablet_process_def)
  next
    case 4
    have "crash_inv (tablet_process_misc ?u e)"
      by (rule crash_inv_cong [OF u]) simp_all
    with 4 show ?thesis
      by (simp add: et evdev_process_event_def tablet_process_def)
  next
    case 5
    with crash_inv_flush [OF u, of "ucast time"] show ?thesis
      by (simp add: et evdev_process_event_def tablet_process_def)
  next
    case 6
    with u show ?thesis
      by (simp add: et evdev_process_event_def tablet_process_def)
  qed
qed

lemma evdev_process_event_has_event_code [simp]:
  "has_event_code (evdev_process_event t et) = has_event_code t"
  by (cases "TABLET_TOOL_OUT_OF_PROXIMITY \<in> status t";
      cases "TABLET_TOOL_LEAVING_PROXIMITY \<in> status t";
      simp add: evdev_process_event_def tablet_process_def tablet_flush_out
        tablet_flush_leaving tablet_flush_in tablet_reset_state_def)

lemma crash_inv_run:
  "crash_inv t \<Longrightarrow> device_events (has_event_code t) (map fst es) \<Longrightarrow>
   crash_inv (evdev_process_events t es)"
  unfolding evdev_process_events_def
proof (induction es arbitrary: t)
  case Nil
  then show ?case by simp
next
  case (Cons et es)
  from Cons.prems have "crash_inv (evdev_process_event t et)"
    by (intro crash_inv_step) (simp_all add: device_events_def)
  from Cons.IH [OF this] Cons.prems(2) show ?case
    by (simp add: device_events_def)
qed

lemma crash_inv_create:
  assumes "complete_device codes"
  shows "crash_inv (evdev_tablet_create codes ai angle tools)"
proof -
  let ?t = "evdev_tablet_create codes ai angle tools"
  have hc: "has_event_code ?t = codes" by (simp add: evdev_tablet_create_fields)
  have ab: "\<not> aborted ?t"
    by (simp add: evdev_tablet_create_def tablet_init_def Let_def)
  have ch: "tablet_device_has_axis ?t a" if "a \<in> changed_axes ?t" for a
  proof -
    let ?i = "fold init_axis_cap all_tablet_axes
               \<lparr>status = {}, changed_axes = {}, axes = (\<lambda>a. 0), deltas = (\<lambda>a. 0),
                axis_caps = {}, button_state = {}, prev_button_state = {},
                current_tool_type = LIBINPUT_TOOL_NONE, current_tool_id = 0,
                current_tool_serial = 0, tool_list = [], libinput_tool_list = tools,
                left_handed_enabled = False, left_handed_want_enabled = False,
                wheel_click_angle = angle, absinfo = ai, has_event_code = codes,
                emitted = [], aborted = False\<rparr>"
    from that have "a \<in> changed_axes (tablet_mark_all_axes_changed ?i)"
      by (simp add: evdev_tablet_create_def tablet_init_def Let_def tablet_set_status_def)
    from mark_all_changed_axes [OF this] have "tablet_device_has_axis ?i a"
      by simp
    then show ?thesis
      by (simp add: has_axis_cong [of ?t ?i] hc)
  qed
  have "complete_device (has_event_code ?t)" using assms by (simp add: hc)
  from readable_has_axis [OF this] ch ab this show ?thesis
    unfolding crash_inv_iff by blast
qed

text \<open>Once set, \<open>aborted\<close> stays set.\<close>

lemma aborted_step: "aborted t \<Longrightarrow> aborted (evdev_process_event t et)"
  by (simp add: evdev_process_event_def tablet_process_def tablet_flush_aborted
      flush_axes_phase_aborted check_notify_axes_aborted fold_check_axis_sticky
      sanitize_aborted)

lemma aborted_run: "aborted t \<Longrightarrow> aborted (evdev_process_events t es)"
  unfolding evdev_process_events_def
  by (induction es arbitrary: t) (simp_all add: aborted_step)

text \<open>
  Claim C1. The dispatcher starts as \<^verbatim>\<open>evdev_tablet_create\<close> returns it and processes
  any sequence of events. On a device that has \<^verbatim>\<open>ABS_Z\<close> if it has both tilt axes and
  \<^verbatim>\<open>ABS_PRESSURE\<close> if it has \<^verbatim>\<open>ABS_DISTANCE\<close>, and with absolute events only of codes
  the device has, the run reads no absinfo through a \<^verbatim>\<open>NULL\<close> pointer. In every run
  without such a read: every button reported pressed has been reported released when a
  proximity-out is posted (in the frame in which the tool leaves, the releases of all
  buttons still down come before the proximity-out); and if the tablet has an x axis and
  the input keeps to the protocol of \<open>protocol_ok\<close> (a tool enters only while none is
  in proximity, leaves in a later frame than it entered, and its serial number does not
  change after the frame in which it entered), then every proximity-in is followed by
  one proximity-out of the same tool before any other proximity event, and a
  proximity-in is open at the end exactly when a tool that entered in an earlier frame
  is still in proximity. Once set, \<open>aborted\<close> stays set (\<open>aborted_run\<close>), so a run that
  ends with \<open>aborted\<close> unset has read through \<^verbatim>\<open>NULL\<close> nowhere. In the C program the two
  reads come before anything is posted in their flush, so a program that ends there has
  posted what the run up to that frame posts.
\<close>

theorem proximity_closure:
  "(complete_device codes \<and> device_events codes (map fst es) \<longrightarrow>
      \<not> aborted (evdev_process_events (evdev_tablet_create codes ai angle tools) es)) \<and>
   (\<not> aborted (evdev_process_events (evdev_tablet_create codes ai angle tools) es) \<longrightarrow>
      buttons_closed
        (emitted (evdev_process_events (evdev_tablet_create codes ai angle tools) es)) \<and>
      (codes EV_ABS ABS_X \<and> protocol_ok (map fst es) \<longrightarrow>
         proximity_closed
           (emitted (evdev_process_events (evdev_tablet_create codes ai angle tools) es)) \<and>
         proximity_open
           (emitted (evdev_process_events (evdev_tablet_create codes ai angle tools) es))
           = tool_remains (map fst es)))"
proof -
  let ?t = "evdev_process_events (evdev_tablet_create codes ai angle tools) es"
  let ?p = "\<lparr>tool_down = False, tool_fresh = False, tool_leaving = False,
             reported_serial = 0\<rparr>"
  have a: "\<not> aborted ?t"
    if dev: "complete_device codes" and ev: "device_events codes (map fst es)"
  proof -
    have "crash_inv ?t"
      using ev by (intro crash_inv_run crash_inv_create [OF dev])
                  (simp add: evdev_tablet_create_fields)
    then show ?thesis by (simp add: crash_inv_iff)
  qed
  have "buttons_inv ?t"
    by (rule buttons_inv_run [OF buttons_inv_create])
  then have b: "buttons_closed (emitted ?t)"
    by (simp add: buttons_inv_def buttons_closed_def split: option.splits)
  have "proximity_closed (emitted ?t) \<and> proximity_open (emitted ?t) = tool_remains (map fst es)"
    if x: "codes EV_ABS ABS_X" and ok: "protocol_ok (map fst es)"
  proof -
    from ok obtain q where q: "protocol_run (Some ?p) (map fst es) = Some q"
      by (auto simp: protocol_ok_def)
    have "proximity_inv ?p (evdev_tablet_create codes ai angle tools)"
      using x by (rule proximity_inv_create [of codes])
    note D = proximity_invD [OF proximity_inv_run [OF this q]]
    from D(9) obtain cur where cur: "foldl proximity_step (Some None) (emitted ?t) = Some cur"
      and c1: "tool_down q \<and> \<not> tool_fresh q \<Longrightarrow> cur \<noteq> None \<and> cur = lookup_tool ?t"
      and c2: "\<not> (tool_down q \<and> \<not> tool_fresh q) \<Longrightarrow> cur = None"
      by blast
    show ?thesis
      using cur c1 c2 q
      by (cases cur) (auto simp: proximity_closed_def proximity_open_def tool_remains_def)
  qed
  with a b show ?thesis by blast
qed

text \<open>The pen that enters at x = 10 with serial number 7, presses its button and leaves
  with the button down, on the example tablet: the device is complete, the input keeps
  to the protocol, nothing is read through \<^verbatim>\<open>NULL\<close>, and both properties hold of the
  events posted.\<close>

theorem proximity_closure_witness:
  "complete_device example_codes \<and>
   device_events example_codes (map fst pen_button_events) \<and>
   example_codes EV_ABS ABS_X \<and>
   protocol_ok (map fst pen_button_events) \<and>
   \<not> aborted (evdev_process_events example_tablet pen_button_events) \<and>
   buttons_closed (emitted (evdev_process_events example_tablet pen_button_events)) \<and>
   proximity_closed (emitted (evdev_process_events example_tablet pen_button_events)) \<and>
   \<not> proximity_open (emitted (evdev_process_events example_tablet pen_button_events)) \<and>
   \<not> tool_remains (map fst pen_button_events)"
proof -
  have dev: "complete_device example_codes"
    by (simp add: complete_device_def example_codes_def)
  have ev: "device_events example_codes (map fst pen_button_events)"
    by (simp add: device_events_def pen_button_events_def example_codes_def
        key_event_def msc_event_def abs_event_def syn_event_def evcodes)
  have x: "example_codes EV_ABS ABS_X"
    by (simp add: example_codes_def)
  have ok: "protocol_ok (map fst pen_button_events)"
    by (simp add: pen_button_events_def protocol_ok_def protocol_step_def is_tool_button_def
        key_event_def msc_event_def abs_event_def syn_event_def evcodes)
  have nr: "\<not> tool_remains (map fst pen_button_events)"
    by (simp add: pen_button_events_def tool_remains_def protocol_step_def is_tool_button_def
        key_event_def msc_event_def abs_event_def syn_event_def evcodes)
  from proximity_closure [of example_codes pen_button_events example_absinfo 15 "[]"]
    dev ev x ok nr
  show ?thesis
    unfolding example_tablet_def by simp
qed

text \<open>
  Without the protocol the proximity property fails: \<^verbatim>\<open>tablet_update_tool\<close> does not
  look whether a tool is in proximity already. On the example tablet, which is complete,
  a pen enters and, in the next frame, an eraser enters. Nothing is read through
  \<^verbatim>\<open>NULL\<close>; the proximity-in of the eraser is posted and the pen has no proximity-out.
\<close>

theorem two_tools_counterexample:
  "complete_device (has_event_code example_tablet) \<and>
   device_events (has_event_code example_tablet) (map fst two_tools_events) \<and>
   \<not> aborted (evdev_process_events example_tablet two_tools_events) \<and>
   proximity_events (emitted (evdev_process_events example_tablet two_tools_events))
     = [(\<lparr>tool_type = LIBINPUT_TOOL_PEN, tool_serial = 0, tool_id = 0\<rparr>, LIBINPUT_TOOL_PROXIMITY_IN),
        (\<lparr>tool_type = LIBINPUT_TOOL_ERASER, tool_serial = 0, tool_id = 0\<rparr>, LIBINPUT_TOOL_PROXIMITY_IN)] \<and>
   \<not> proximity_closed (emitted (evdev_process_events example_tablet two_tools_events))"
  by (simp add: two_tools_events_def example_eval tablet_eval flush_eval insert_commute
      proximity_closed_def complete_device_def device_events_def cong: let_weak_cong)

end
